theory Spec2Isabelle
  imports Main "HOL-Library.Sublist"
begin

section \<open>JavaScript values, errors and strings\<close>

text \<open>
  The values the client handles are the results of \<^verbatim>\<open>JSON.parse\<close> plus \<^verbatim>\<open>undefined\<close>.
  A number is kept as its canonical rendering (what \<^verbatim>\<open>String(n)\<close> gives), an object as
  the list of its own properties, each key once, in insertion order.
\<close>

datatype jsval =
    JUndefined
  | JNull
  | JBool bool
  | JNum string
  | JStr string
  | JArr "jsval list"
  | JObj "(string \<times> jsval) list"

text \<open>Truthiness, as \<^verbatim>\<open>if (v)\<close> and \<^verbatim>\<open>while (v)\<close> test it.\<close>

fun truthy :: "jsval \<Rightarrow> bool" where
  "truthy JUndefined = False"
| "truthy JNull = False"
| "truthy (JBool b) = b"
| "truthy (JNum n) = (n \<noteq> ''0'' \<and> n \<noteq> ''NaN'')"
| "truthy (JStr s) = (s \<noteq> [])"
| "truthy (JArr xs) = True"
| "truthy (JObj kvs) = True"

fun nullish :: "jsval \<Rightarrow> bool" where
  "nullish JUndefined = True"
| "nullish JNull = True"
| "nullish v = False"

text \<open>\<^verbatim>\<open>a ?? b\<close>\<close>

definition coalesce :: "jsval \<Rightarrow> jsval \<Rightarrow> jsval" where
  "coalesce a b = (if nullish a then b else a)"

text \<open>
  \<^verbatim>\<open>v?.k\<close> for the keys the client reads (data, id, executionId, nextCursor, message,
  error, baseUrl, apiKey), none of which is a built-in property of a string, number,
  boolean or array: only an object can hold them.
\<close>

fun get_prop :: "jsval \<Rightarrow> string \<Rightarrow> jsval" where
  "get_prop (JObj kvs) k = (case map_of kvs k of Some v \<Rightarrow> v | None \<Rightarrow> JUndefined)"
| "get_prop v k = JUndefined"

fun join :: "string \<Rightarrow> string list \<Rightarrow> string" where
  "join sep [] = []"
| "join sep [x] = x"
| "join sep (x # y # ys) = x @ sep @ join sep (y # ys)"

text \<open>\<^verbatim>\<open>String(v)\<close> and template-literal conversion.\<close>

fun js_String :: "jsval \<Rightarrow> string" where
  "js_String JUndefined = ''undefined''"
| "js_String JNull = ''null''"
| "js_String (JBool b) = (if b then ''true'' else ''false'')"
| "js_String (JNum n) = n"
| "js_String (JStr s) = s"
| "js_String (JArr xs) = join '','' (map (\<lambda>x. if nullish x then [] else js_String x) xs)"
| "js_String (JObj kvs) = ''[object Object]''"

text \<open>\<^verbatim>\<open>s.includes(sub)\<close> and \<^verbatim>\<open>s.startsWith(p)\<close>\<close>

definition js_includes :: "string \<Rightarrow> string \<Rightarrow> bool" where
  "js_includes s sub = sublist sub s"

definition startsWith :: "string \<Rightarrow> string \<Rightarrow> bool" where
  "startsWith s p = prefix p s"

text \<open>Decimal rendering of a non-negative integer, as a template literal prints it.\<close>

definition digit_char :: "nat \<Rightarrow> char" where
  "digit_char d = char_of (48 + d)"

function show_nat :: "nat \<Rightarrow> string" where
  "show_nat n = (if n < 10 then [digit_char n] else show_nat (n div 10) @ [digit_char (n mod 10)])"
  by pat_completeness auto
termination
  by (relation "measure id") auto

declare show_nat.simps [simp del]

text \<open>
  An \<^verbatim>\<open>Error\<close> object: its name, its message, the \<^verbatim>\<open>status\<close> the client attaches to
  an API error, and the \<^verbatim>\<open>cause\<close> a transport failure carries.
\<close>

record js_cause =
  cause_code :: "string option"
  cause_message :: "string option"

record js_error =
  err_name :: string
  err_message :: string
  err_status :: "nat option"
  err_cause :: "js_cause option"

text \<open>\<^verbatim>\<open>new Error(msg)\<close>\<close>

definition Error :: "string \<Rightarrow> js_error" where
  "Error msg = \<lparr>err_name = ''Error'', err_message = msg, err_status = None, err_cause = None\<rparr>"

text \<open>What a \<^verbatim>\<open>throw\<close> carries: an Error object or any other value.\<close>

datatype thrown = ErrorObj js_error | NonError jsval

text \<open>\<^verbatim>\<open>Error.prototype.toString\<close>\<close>

definition Error_toString :: "js_error \<Rightarrow> string" where
  "Error_toString e =
     (if err_name e = [] then err_message e
      else if err_message e = [] then err_name e
      else err_name e @ '': '' @ err_message e)"

text \<open>\<^verbatim>\<open>String(err)\<close>\<close>

fun String_of :: "thrown \<Rightarrow> string" where
  "String_of (ErrorObj e) = Error_toString e"
| "String_of (NonError v) = js_String v"

section \<open>The platform: transport, JSON parser, query encoding\<close>

datatype dispatcher = DefaultDispatcher | EnvHttpProxyAgent bool | InsecureAgent

text \<open>
  One call of \<^verbatim>\<open>fetch(url, fetchOptions)\<close>. \<open>req_path\<close> is the logical path the URL
  was built from; \<open>req_body\<close> is the value whose \<^verbatim>\<open>JSON.stringify\<close> text is sent;
  \<open>req_timeout\<close> is the delay, in milliseconds, of the timer that aborts the call through
  its \<^verbatim>\<open>signal\<close>.
\<close>

record request =
  req_method :: string
  req_path :: string
  req_url :: string
  req_headers :: "(string \<times> string) list"
  req_body :: "jsval option"
  req_dispatcher :: dispatcher
  req_timeout :: nat

record response =
  resp_status :: nat
  resp_text :: string
  resp_content_type :: "string option"

text \<open>
  \<open>Rejects\<close>: \<^verbatim>\<open>fetch\<close> or \<^verbatim>\<open>res.text()\<close> rejected; an attempt that exceeds the timeout
  is aborted and rejects with an error named AbortError.
\<close>

datatype fetch_outcome = Resolves response | Rejects js_error

record 'w platform =
  fetch :: "request \<Rightarrow> 'w \<Rightarrow> fetch_outcome \<times> 'w"
  JSON_parse :: "string \<Rightarrow> js_error + jsval"
  form_urlencode :: "string \<Rightarrow> string"
  hasProxy :: bool

datatype event = Fetch request | Sleep nat

record 'w io =
  world :: 'w
  trace :: "event list"

section \<open>The client\<close>

record N8nConfig =
  cfg_baseUrl :: string
  cfg_apiKey :: string
  cfg_rejectUnauthorized :: "bool option"
  cfg_projectId :: "string option"
  cfg_timeoutMs :: "nat option"
  cfg_retries :: "int option"
  cfg_debug :: "bool option"

record client =
  baseUrl :: string
  apiKey :: string
  rejectUnauthorized :: bool
  projectId :: "string option"
  timeoutMs :: nat
  retries :: int
  debug :: bool

definition API_VERSION :: string where
  "API_VERSION = ''v1''"

text \<open>\<^verbatim>\<open>s.replace(/\/$/, '')\<close>\<close>

definition strip_trailing_slash :: "string \<Rightarrow> string" where
  "strip_trailing_slash s = (if s \<noteq> [] \<and> last s = CHR ''/'' then butlast s else s)"

definition N8nClient :: "N8nConfig \<Rightarrow> client" where
  "N8nClient config =
     \<lparr>baseUrl = strip_trailing_slash (cfg_baseUrl config),
      apiKey = cfg_apiKey config,
      rejectUnauthorized = (case cfg_rejectUnauthorized config of None \<Rightarrow> True | Some b \<Rightarrow> b),
      projectId = cfg_projectId config,
      timeoutMs = (case cfg_timeoutMs config of None \<Rightarrow> 30000 | Some t \<Rightarrow> t),
      retries = (case cfg_retries config of None \<Rightarrow> 3 | Some r \<Rightarrow> r),
      debug = (case cfg_debug config of None \<Rightarrow> False | Some d \<Rightarrow> d)\<rparr>"

definition getUrl :: "client \<Rightarrow> string \<Rightarrow> string" where
  "getUrl c path =
     (let base = baseUrl c @ ''/api/'' @ API_VERSION;
          p = (if startsWith path ''/'' then path else ''/'' @ path)
      in base @ p)"

definition parseApiError :: "'w platform \<Rightarrow> nat \<Rightarrow> string \<Rightarrow> js_error" where
  "parseApiError P st text =
     (case JSON_parse P text of
        Inr json \<Rightarrow>
          (let msg = coalesce (coalesce (get_prop json ''message'') (get_prop (get_prop json ''error'') ''message''))
                       (JStr text)
           in Error (''n8n API error '' @ show_nat st @ '': '' @ js_String msg))
      | Inl e \<Rightarrow> Error (''n8n API error '' @ show_nat st @ '': '' @ text))"

definition isRetryable :: "thrown \<Rightarrow> nat option \<Rightarrow> bool" where
  "isRetryable err st =
     ((case st of
         Some n \<Rightarrow> n = 429 \<or> (n \<ge> 500 \<and> n < 600)
       | None \<Rightarrow> False)
      \<or> (let s = String_of err
          in js_includes s ''timed out'' \<or> js_includes s ''AbortError'' \<or> js_includes s ''ECONNRESET''
             \<or> js_includes s ''ETIMEDOUT'' \<or> js_includes s ''fetch failed''))"

text \<open>\<^verbatim>\<open>res.ok\<close>\<close>

definition ok :: "response \<Rightarrow> bool" where
  "ok res = (200 \<le> resp_status res \<and> resp_status res \<le> 299)"

definition choose_dispatcher :: "'w platform \<Rightarrow> client \<Rightarrow> dispatcher" where
  "choose_dispatcher P c =
     (if hasProxy P then EnvHttpProxyAgent (\<not> rejectUnauthorized c)
      else if \<not> rejectUnauthorized c then InsecureAgent
      else DefaultDispatcher)"

definition build_request :: "'w platform \<Rightarrow> client \<Rightarrow> string \<Rightarrow> string \<Rightarrow> jsval option \<Rightarrow> request" where
  "build_request P c method path body =
     \<lparr>req_method = method,
      req_path = path,
      req_url = getUrl c path,
      req_headers =
        [(''Accept'', ''application/json''), (''X-N8N-API-KEY'', apiKey c)]
        @ (if body \<noteq> None then [(''Content-Type'', ''application/json'')] else []),
      req_body = body,
      req_dispatcher = choose_dispatcher P c,
      req_timeout = timeoutMs c\<rparr>"

text \<open>The \<^verbatim>\<open>catch\<close> clause of one attempt: an abort becomes the timeout error.\<close>

definition rethrow :: "client \<Rightarrow> js_error \<Rightarrow> js_error" where
  "rethrow c err =
     (if err_name err = ''AbortError''
      then Error (''n8n API request timed out after '' @ show_nat (timeoutMs c) @ ''ms'')
      else err)"

text \<open>What one attempt makes of the transport's answer.\<close>

definition handle_outcome :: "'w platform \<Rightarrow> client \<Rightarrow> fetch_outcome \<Rightarrow> thrown + jsval" where
  "handle_outcome P c out =
     (case out of
        Rejects err \<Rightarrow> Inl (ErrorObj (rethrow c err))
      | Resolves res \<Rightarrow>
          if \<not> ok res then
            Inl (ErrorObj (rethrow c
              ((parseApiError P (resp_status res) (resp_text res))\<lparr>err_status := Some (resp_status res)\<rparr>)))
          else if (case resp_content_type res of
                     Some ct \<Rightarrow> js_includes ct ''application/json''
                   | None \<Rightarrow> False) then
            (if resp_text res \<noteq> [] then
               (case JSON_parse P (resp_text res) of
                  Inr data \<Rightarrow> Inr data
                | Inl e \<Rightarrow> Inl (ErrorObj (rethrow c e)))
             else Inr JUndefined)
          else Inr JUndefined)"

definition doRequest ::
  "'w platform \<Rightarrow> client \<Rightarrow> string \<Rightarrow> string \<Rightarrow> jsval option \<Rightarrow> 'w io \<Rightarrow> (thrown + jsval) \<times> 'w io" where
  "doRequest P c method path body s =
     (let rq = build_request P c method path body;
          r = fetch P rq (world s)
      in (handle_outcome P c (fst r), \<lparr>world = snd r, trace = trace s @ [Fetch rq]\<rparr>))"

text \<open>\<^verbatim>\<open>(err as { status?: number })?.status\<close>\<close>

fun status_of :: "thrown \<Rightarrow> nat option" where
  "status_of (ErrorObj e) = err_status e"
| "status_of (NonError v) = None"

text \<open>\<^verbatim>\<open>Math.min(1000 * 2 ** attempt, 10000)\<close>\<close>

definition delay :: "int \<Rightarrow> nat" where
  "delay attempt = min (1000 * 2 ^ nat attempt) 10000"

definition sleep :: "nat \<Rightarrow> 'w io \<Rightarrow> 'w io" where
  "sleep ms s = s\<lparr>trace := trace s @ [Sleep ms]\<rparr>"

text \<open>
  The retry loop of \<^verbatim>\<open>request\<close>, from the value \<open>attempt\<close> of the loop counter on;
  \<open>lastErr\<close> is thrown when the loop is left by its condition.
\<close>

function request_loop ::
  "'w platform \<Rightarrow> client \<Rightarrow> string \<Rightarrow> string \<Rightarrow> jsval option \<Rightarrow> int \<Rightarrow> thrown \<Rightarrow> 'w io
     \<Rightarrow> (thrown + jsval) \<times> 'w io" where
  "request_loop P c method path body attempt lastErr s =
     (if attempt \<le> retries c then
        (case doRequest P c method path body s of
           (Inr v, s') \<Rightarrow> (Inr v, s')
         | (Inl err, s') \<Rightarrow>
             if attempt < retries c \<and> isRetryable err (status_of err)
             then request_loop P c method path body (attempt + 1) err (sleep (delay attempt) s')
             else (Inl err, s'))
      else (Inl lastErr, s))"
  by pat_completeness auto
termination
  by (relation "measure (\<lambda>(P, c, method, path, body, attempt, lastErr, s). nat (retries c + 1 - attempt))")
     auto

declare request_loop.simps [simp del]

definition request ::
  "'w platform \<Rightarrow> client \<Rightarrow> string \<Rightarrow> string \<Rightarrow> jsval option \<Rightarrow> 'w io \<Rightarrow> (thrown + jsval) \<times> 'w io" where
  "request P c method path body s = request_loop P c method path body 0 (NonError JUndefined) s"

section \<open>Workflow operations\<close>

text \<open>\<^verbatim>\<open>new URLSearchParams()\<close> with its \<^verbatim>\<open>set\<close> calls, then \<^verbatim>\<open>params.toString() ? `?${params}` : ''\<close>\<close>

definition query_string :: "'w platform \<Rightarrow> (string \<times> string) list \<Rightarrow> string" where
  "query_string P params =
     (let t = join ''&'' (map (\<lambda>(k, v). form_urlencode P k @ ''='' @ form_urlencode P v) params)
      in if t \<noteq> [] then ''?'' @ t else [])"

text \<open>Truthiness of an optional string (\<^verbatim>\<open>this.projectId\<close>, \<^verbatim>\<open>name\<close>, \<^verbatim>\<open>status\<close>).\<close>

fun truthy_str :: "string option \<Rightarrow> bool" where
  "truthy_str None = False"
| "truthy_str (Some x) = (x \<noteq> [])"

fun str_of :: "string option \<Rightarrow> string" where
  "str_of None = ''undefined''"
| "str_of (Some x) = x"

definition empty_page :: jsval where
  "empty_page = JObj [(''data'', JArr [])]"

definition listWorkflowsPaginated ::
  "'w platform \<Rightarrow> client \<Rightarrow> bool option \<Rightarrow> jsval \<Rightarrow> string option \<Rightarrow> 'w io \<Rightarrow> (thrown + jsval) \<times> 'w io" where
  "listWorkflowsPaginated P c active cursor name s =
     (let params =
            (case active of Some b \<Rightarrow> [(''active'', if b then ''true'' else ''false'')] | None \<Rightarrow> [])
            @ (if truthy cursor then [(''cursor'', js_String cursor)] else [])
            @ (if truthy_str name then [(''name'', str_of name)] else []);
          qs = query_string P params; path =
            (if truthy_str (projectId c)
             then ''projects/'' @ str_of (projectId c) @ ''/workflows'' @ qs
             else ''workflows'' @ qs)
      in case request P c ''GET'' path None s of
           (Inr res, s') \<Rightarrow> (Inr (coalesce res empty_page), s')
         | (Inl err, s') \<Rightarrow>
             if truthy_str (projectId c) \<and> js_includes (String_of err) ''404'' then
               (case request P c ''GET'' (''workflows'' @ qs) None s' of
                  (Inr fallback, s'') \<Rightarrow> (Inr (coalesce fallback empty_page), s'')
                | (Inl err2, s'') \<Rightarrow> (Inl err2, s''))
             else (Inl err, s'))"


text \<open>
  \<^verbatim>\<open>all.push(...v)\<close>: an array gives its elements, a string its characters, and any other
  value is not iterable.
\<close>

definition not_iterable :: js_error where
  "not_iterable =
     \<lparr>err_name = ''TypeError'',
      err_message = ''Spread syntax requires ...iterable[Symbol.iterator] to be a function'',
      err_status = None, err_cause = None\<rparr>"

fun spread :: "jsval \<Rightarrow> thrown + jsval list" where
  "spread (JArr xs) = Inr xs"
| "spread (JStr x) = Inr (map (\<lambda>ch. JStr [ch]) x)"
| "spread v = Inl (ErrorObj not_iterable)"

text \<open>
  The \<^verbatim>\<open>do ... while (cursor)\<close> loop of \<^verbatim>\<open>listWorkflowsAll\<close>. The server may hand out
  cursors forever, so the loop takes fuel: one unit per page, and \<open>None\<close> when it is used up.
\<close>

fun listWorkflowsAll_loop ::
  "nat \<Rightarrow> 'w platform \<Rightarrow> client \<Rightarrow> bool option \<Rightarrow> string option \<Rightarrow> jsval list \<Rightarrow> jsval \<Rightarrow> 'w io
     \<Rightarrow> (thrown + jsval list) option \<times> 'w io" where
  "listWorkflowsAll_loop 0 P c active name all cursor s = (None, s)"
| "listWorkflowsAll_loop (Suc fuel) P c active name all cursor s =
     (case listWorkflowsPaginated P c active cursor name s of
        (Inl err, s') \<Rightarrow> (Some (Inl err), s')
      | (Inr res, s') \<Rightarrow>
          (case spread (coalesce (get_prop res ''data'') (JArr [])) of
             Inl err \<Rightarrow> (Some (Inl err), s')
           | Inr items \<Rightarrow>
               (let all' = all @ items; cursor' = get_prop res ''nextCursor''
                in if truthy cursor' then listWorkflowsAll_loop fuel P c active name all' cursor' s'
                   else (Some (Inr all'), s'))))"

definition listWorkflowsAll ::
  "nat \<Rightarrow> 'w platform \<Rightarrow> client \<Rightarrow> bool option \<Rightarrow> string option \<Rightarrow> 'w io
     \<Rightarrow> (thrown + jsval list) option \<times> 'w io" where
  "listWorkflowsAll fuel P c active name s = listWorkflowsAll_loop fuel P c active name [] JUndefined s"

definition createWorkflow ::
  "'w platform \<Rightarrow> client \<Rightarrow> jsval \<Rightarrow> string option \<Rightarrow> 'w io \<Rightarrow> (thrown + jsval) \<times> 'w io" where
  "createWorkflow P c workflow pid s =
     (if truthy_str pid then
        (case request P c ''POST'' (''projects/'' @ str_of pid @ ''/workflows'') (Some workflow) s of
           (Inr res, s') \<Rightarrow> (Inr res, s')
         | (Inl err, s') \<Rightarrow>
             if js_includes (String_of err) ''404'' \<or> js_includes (String_of err) ''not found''
             then request P c ''POST'' ''workflows'' (Some workflow) s'
             else (Inl err, s'))
      else request P c ''POST'' ''workflows'' (Some workflow) s)"

definition getWorkflow ::
  "'w platform \<Rightarrow> client \<Rightarrow> string \<Rightarrow> 'w io \<Rightarrow> (thrown + jsval) \<times> 'w io" where
  "getWorkflow P c ident s =
     (let path = (if truthy_str (projectId c)
                  then ''projects/'' @ str_of (projectId c) @ ''/workflows/'' @ ident
                  else ''workflows/'' @ ident)
      in case request P c ''GET'' path None s of
           (Inr res, s') \<Rightarrow> (Inr res, s')
         | (Inl err, s') \<Rightarrow>
             if truthy_str (projectId c)
                \<and> (js_includes (String_of err) ''404'' \<or> js_includes (String_of err) ''not found'')
             then request P c ''GET'' (''workflows/'' @ ident) None s'
             else (Inl err, s'))"

definition updateWorkflow ::
  "'w platform \<Rightarrow> client \<Rightarrow> string \<Rightarrow> jsval \<Rightarrow> 'w io \<Rightarrow> (thrown + jsval) \<times> 'w io" where
  "updateWorkflow P c ident workflow s =
     (let path = (if truthy_str (projectId c)
                  then ''projects/'' @ str_of (projectId c) @ ''/workflows/'' @ ident
                  else ''workflows/'' @ ident)
      in case request P c ''PUT'' path (Some workflow) s of
           (Inr res, s') \<Rightarrow> (Inr res, s')
         | (Inl err, s') \<Rightarrow>
             if truthy_str (projectId c)
                \<and> (js_includes (String_of err) ''404'' \<or> js_includes (String_of err) ''not found'')
             then request P c ''PUT'' (''workflows/'' @ ident) (Some workflow) s'
             else (Inl err, s'))"

text \<open>The operations that resolve to \<^verbatim>\<open>void\<close> return \<open>JUndefined\<close>.\<close>

definition discard :: "(thrown + jsval) \<times> 'w io \<Rightarrow> (thrown + jsval) \<times> 'w io" where
  "discard r = (case r of (Inr v, s') \<Rightarrow> (Inr JUndefined, s') | (Inl err, s') \<Rightarrow> (Inl err, s'))"

definition deleteWorkflow ::
  "'w platform \<Rightarrow> client \<Rightarrow> string \<Rightarrow> 'w io \<Rightarrow> (thrown + jsval) \<times> 'w io" where
  "deleteWorkflow P c ident s =
     (let path = (if truthy_str (projectId c)
                  then ''projects/'' @ str_of (projectId c) @ ''/workflows/'' @ ident
                  else ''workflows/'' @ ident)
      in case request P c ''DELETE'' path None s of
           (Inr res, s') \<Rightarrow> (Inr JUndefined, s')
         | (Inl err, s') \<Rightarrow>
             if truthy_str (projectId c)
                \<and> (js_includes (String_of err) ''404'' \<or> js_includes (String_of err) ''not found'')
             then discard (request P c ''DELETE'' (''workflows/'' @ ident) None s')
             else (Inl err, s'))"

definition activateWorkflow ::
  "'w platform \<Rightarrow> client \<Rightarrow> string \<Rightarrow> 'w io \<Rightarrow> (thrown + jsval) \<times> 'w io" where
  "activateWorkflow P c ident s =
     (let path = (if truthy_str (projectId c)
                  then ''projects/'' @ str_of (projectId c) @ ''/workflows/'' @ ident @ ''/activate''
                  else ''workflows/'' @ ident @ ''/activate'')
      in case request P c ''POST'' path (Some (JObj [])) s of
           (Inr res, s') \<Rightarrow> (Inr JUndefined, s')
         | (Inl err, s') \<Rightarrow>
             if truthy_str (projectId c)
                \<and> (js_includes (String_of err) ''404'' \<or> js_includes (String_of err) ''not found'')
             then discard (request P c ''POST'' (''workflows/'' @ ident @ ''/activate'') (Some (JObj [])) s')
             else (Inl err, s'))"

definition deactivateWorkflow ::
  "'w platform \<Rightarrow> client \<Rightarrow> string \<Rightarrow> 'w io \<Rightarrow> (thrown + jsval) \<times> 'w io" where
  "deactivateWorkflow P c ident s =
     (let path = (if truthy_str (projectId c)
                  then ''projects/'' @ str_of (projectId c) @ ''/workflows/'' @ ident @ ''/deactivate''
                  else ''workflows/'' @ ident @ ''/deactivate'')
      in case request P c ''POST'' path (Some (JObj [])) s of
           (Inr res, s') \<Rightarrow> (Inr JUndefined, s')
         | (Inl err, s') \<Rightarrow>
             if truthy_str (projectId c)
                \<and> (js_includes (String_of err) ''404'' \<or> js_includes (String_of err) ''not found'')
             then discard (request P c ''POST'' (''workflows/'' @ ident @ ''/deactivate'') (Some (JObj [])) s')
             else (Inl err, s'))"

definition ping :: "'w platform \<Rightarrow> client \<Rightarrow> 'w io \<Rightarrow> bool \<times> 'w io" where
  "ping P c s =
     (case listWorkflowsPaginated P c None JUndefined None s of
        (Inr res, s') \<Rightarrow> (True, s')
      | (Inl err, s') \<Rightarrow> (False, s'))"

section \<open>Execution operations\<close>

definition listExecutionsPaginated ::
  "'w platform \<Rightarrow> client \<Rightarrow> string option \<Rightarrow> jsval \<Rightarrow> string option \<Rightarrow> 'w io \<Rightarrow> (thrown + jsval) \<times> 'w io" where
  "listExecutionsPaginated P c workflowId cursor status s =
     (let params =
            (if truthy_str workflowId then [(''workflowId'', str_of workflowId)] else [])
            @ (if truthy cursor then [(''cursor'', js_String cursor)] else [])
            @ (if truthy_str status then [(''status'', str_of status)] else []);
          qs = query_string P params
      in case request P c ''GET'' (''executions'' @ qs) None s of
           (Inr res, s') \<Rightarrow> (Inr (coalesce res empty_page), s')
         | (Inl err, s') \<Rightarrow> (Inl err, s'))"

definition listExecutions ::
  "'w platform \<Rightarrow> client \<Rightarrow> string option \<Rightarrow> string option \<Rightarrow> 'w io \<Rightarrow> (thrown + jsval) \<times> 'w io" where
  "listExecutions P c workflowId status s =
     (case listExecutionsPaginated P c workflowId JUndefined status s of
        (Inr res, s') \<Rightarrow> (Inr (coalesce (get_prop res ''data'') (JArr [])), s')
      | (Inl err, s') \<Rightarrow> (Inl err, s'))"

fun listExecutionsAll_loop ::
  "nat \<Rightarrow> 'w platform \<Rightarrow> client \<Rightarrow> string option \<Rightarrow> string option \<Rightarrow> jsval list \<Rightarrow> jsval \<Rightarrow> 'w io
     \<Rightarrow> (thrown + jsval list) option \<times> 'w io" where
  "listExecutionsAll_loop 0 P c workflowId status all cursor s = (None, s)"
| "listExecutionsAll_loop (Suc fuel) P c workflowId status all cursor s =
     (case listExecutionsPaginated P c workflowId cursor status s of
        (Inl err, s') \<Rightarrow> (Some (Inl err), s')
      | (Inr res, s') \<Rightarrow>
          (case spread (coalesce (get_prop res ''data'') (JArr [])) of
             Inl err \<Rightarrow> (Some (Inl err), s')
           | Inr items \<Rightarrow>
               (let all' = all @ items; cursor' = get_prop res ''nextCursor''
                in if truthy cursor' then listExecutionsAll_loop fuel P c workflowId status all' cursor' s'
                   else (Some (Inr all'), s'))))"

definition listExecutionsAll ::
  "nat \<Rightarrow> 'w platform \<Rightarrow> client \<Rightarrow> string option \<Rightarrow> string option \<Rightarrow> 'w io
     \<Rightarrow> (thrown + jsval list) option \<times> 'w io" where
  "listExecutionsAll fuel P c workflowId status s =
     listExecutionsAll_loop fuel P c workflowId status [] JUndefined s"

definition getExecution ::
  "'w platform \<Rightarrow> client \<Rightarrow> string \<Rightarrow> 'w io \<Rightarrow> (thrown + jsval) \<times> 'w io" where
  "getExecution P c ident s = request P c ''GET'' (''executions/'' @ ident) None s"

definition retryExecution ::
  "'w platform \<Rightarrow> client \<Rightarrow> string \<Rightarrow> 'w io \<Rightarrow> (thrown + jsval) \<times> 'w io" where
  "retryExecution P c ident s =
     (case request P c ''POST'' (''executions/'' @ ident @ ''/retry'') (Some (JObj [])) s of
        (Inl err, s') \<Rightarrow> (Inl err, s')
      | (Inr res, s') \<Rightarrow>
          (let data = get_prop res ''data'';
               executionId =
                 coalesce (coalesce (coalesce (coalesce (get_prop data ''id'') (get_prop data ''executionId''))
                   (get_prop res ''id'')) (get_prop res ''executionId'')) (JStr [])
           in if \<not> truthy executionId then (Inl (ErrorObj (Error ''Retry returned no execution ID'')), s')
              else (Inr (JObj [(''executionId'', executionId)]), s')))"

definition stopExecution ::
  "'w platform \<Rightarrow> client \<Rightarrow> string \<Rightarrow> 'w io \<Rightarrow> (thrown + jsval) \<times> 'w io" where
  "stopExecution P c ident s = discard (request P c ''POST'' (''executions/'' @ ident @ ''/stop'') (Some (JObj [])) s)"

definition deleteExecution ::
  "'w platform \<Rightarrow> client \<Rightarrow> string \<Rightarrow> 'w io \<Rightarrow> (thrown + jsval) \<times> 'w io" where
  "deleteExecution P c ident s = discard (request P c ''DELETE'' (''executions/'' @ ident) None s)"

section \<open>Running a workflow\<close>

definition extractId :: "jsval \<Rightarrow> jsval" where
  "extractId res =
     coalesce (coalesce (coalesce (get_prop (get_prop res ''data'') ''executionId'')
       (get_prop (get_prop res ''data'') ''id'')) (get_prop res ''id'')) (JStr [])"

definition no_execution_id :: "client \<Rightarrow> thrown" where
  "no_execution_id c =
     ErrorObj (Error (''Workflow run returned no execution ID. Check '' @ baseUrl c
       @ ''/api/v1/docs for the correct endpoint.''))"

definition runWorkflow ::
  "'w platform \<Rightarrow> client \<Rightarrow> string \<Rightarrow> jsval \<Rightarrow> 'w io \<Rightarrow> (thrown + jsval) \<times> 'w io" where
  "runWorkflow P c workflowId data s =
     (let body = (if truthy data then JObj [(''data'', data)] else JObj []);
          runPath = ''workflows/'' @ workflowId @ ''/run'';
          execBody = (if truthy data then JObj [(''workflowId'', JStr workflowId), (''data'', data)]
                      else JObj [(''workflowId'', JStr workflowId)])
      in case request P c ''POST'' runPath (Some body) s of
           (Inr res, s') \<Rightarrow>
             (let executionId = extractId res
              in if truthy executionId then (Inr (JObj [(''executionId'', executionId)]), s')
                 else (Inl (no_execution_id c), s'))
         | (Inl err, s') \<Rightarrow>
             (case request P c ''POST'' ''executions'' (Some execBody) s' of
                (Inr res, s'') \<Rightarrow>
                  (let executionId = extractId res
                   in if truthy executionId then (Inr (JObj [(''executionId'', executionId)]), s'')
                      else (Inl (no_execution_id c), s''))
              | (Inl err2, s'') \<Rightarrow> (Inl err2, s'')))"

section \<open>Credentials, tags, variables, audit, transfer and rename\<close>
















section \<open>Friendly error messages\<close>

definition newline :: string where
  "newline = [CHR 0x0A]"

text \<open>The arrow of \<^verbatim>\<open>Settings -> API\<close>, U+2192 in UTF-8.\<close>

definition arrow :: string where
  "arrow = [CHR 0xE2, CHR 0x86, CHR 0x92]"

definition msg_unauthorized :: string where
  "msg_unauthorized =
     ''Invalid API key. Update apiKey in your config (n8n-config.local.json or N8N_API_KEY).'' @ newline
     @ ''  Create an API key in n8n: Settings '' @ arrow @ '' API.''"

definition msg_forbidden :: string where
  "msg_forbidden =
     ''Access denied (403). Check that your API key has the required permissions.'' @ newline
     @ ''  Create or regenerate an API key in n8n: Settings '' @ arrow @ '' API.''"

definition msg_not_found :: string where
  "msg_not_found =
     ''n8n instance not found. Check baseUrl in your config (n8n-config.local.json or N8N_BASE_URL).'' @ newline
     @ ''  Ensure the URL is correct and n8n is running.''"

definition msg_enotfound :: string where
  "msg_enotfound =
     ''Cannot resolve n8n hostname. Check baseUrl in your config (n8n-config.local.json or N8N_BASE_URL).'' @ newline
     @ ''  Ensure the URL is correct and reachable from your network.''"

definition msg_econnrefused :: string where
  "msg_econnrefused =
     ''Cannot connect to n8n. Is it running? Check baseUrl in your config (n8n-config.local.json or N8N_BASE_URL).'' @ newline
     @ ''  For local: start n8n with `npx n8n` (default port 5678).''"

definition msg_self_signed :: string where
  "msg_self_signed =
     ''Self-signed certificate rejected. For corporate/internal n8n instances:'' @ newline
     @ ''  Set rejectUnauthorized: false in config, or run with NODE_TLS_REJECT_UNAUTHORIZED=0.''"

definition msg_timeout :: string where
  "msg_timeout = ''Request timed out. Check baseUrl and network. Increase timeoutMs in config if needed.''"

definition hint_api_error :: string where
  "hint_api_error = newline @ ''  Check baseUrl and apiKey in your config.''"

definition hint_connection :: string where
  "hint_connection = newline @ ''  Check baseUrl and apiKey in your config (n8n-config.local.json or env vars).''"

text \<open>
  The argument of \<^verbatim>\<open>toFriendlyApiError\<close> has the type \<^verbatim>\<open>unknown\<close>. Three kinds of values are
  told apart: an instance of \<^verbatim>\<open>Error\<close>, given by the value of its \<^verbatim>\<open>message\<close> property and,
  when it has a \<^verbatim>\<open>cause\<close> property, by the value of that; an object without prototype, as
  \<^verbatim>\<open>Object.create(null)\<close> makes it, given by its own properties; and any other value. A cause
  is read through its \<^verbatim>\<open>message\<close> and \<^verbatim>\<open>code\<close> properties only, so that a cause which is an
  \<^verbatim>\<open>Error\<close> itself is given as the object of these two. The values of properties are data:
  none of them is a function.
\<close>

datatype unknown =
    ErrorInstance jsval "jsval option"
  | NoPrototype "(string \<times> jsval) list"
  | Value jsval

text \<open>What the function can throw: the \<^verbatim>\<open>TypeError\<close> of the language.\<close>

datatype exception = TypeError

fun sequence :: "(exception + 'a) list \<Rightarrow> exception + 'a list" where
  "sequence [] = Inr []"
| "sequence (Inl e # rs) = Inl e"
| "sequence (Inr x # rs) = (case sequence rs of Inl e \<Rightarrow> Inl e | Inr xs \<Rightarrow> Inr (x # xs))"

text \<open>
  \<^verbatim>\<open>String(v)\<close>, which is also how a template literal and \<^verbatim>\<open>+\<close> with a string convert \<open>v\<close>. An
  array is the comma-separated conversion of its elements; an object is
  \<^verbatim>\<open>[object Object]\<close>, unless it has a \<^verbatim>\<open>toString\<close> property of its own: that is not a
  function, and the conversion throws.
\<close>

fun ToString :: "jsval \<Rightarrow> exception + string" where
  "ToString (JArr xs) =
     (case sequence (map (\<lambda>x. if nullish x then Inr [] else ToString x) xs) of
        Inl e \<Rightarrow> Inl e
      | Inr parts \<Rightarrow> Inr (join '','' parts))"
| "ToString (JObj kvs) = (if map_of kvs ''toString'' \<noteq> None then Inl TypeError else Inr ''[object Object]'')"
| "ToString v = Inr (js_String v)"

text \<open>
  \<^verbatim>\<open>v.includes(sub)\<close>: the substring test of a string, the membership test of an array, and a
  \<^verbatim>\<open>TypeError\<close> for every other value, which has no such method.
\<close>

fun call_includes :: "jsval \<Rightarrow> string \<Rightarrow> exception + bool" where
  "call_includes (JStr s) sub = Inr (js_includes s sub)"
| "call_includes (JArr xs) sub = Inr (JStr sub \<in> set xs)"
| "call_includes v sub = Inl TypeError"

text \<open>\<^verbatim>\<open>a || b\<close> as a test: \<open>b\<close> is evaluated only when \<open>a\<close> is false.\<close>

fun or_else :: "exception + bool \<Rightarrow> exception + bool \<Rightarrow> exception + bool" where
  "or_else (Inl e) b = Inl e"
| "or_else (Inr a) b = (if a then Inr True else b)"

text \<open>\<^verbatim>\<open>if (test) return r;\<close> followed by the rest of the body.\<close>

fun if_return :: "exception + bool \<Rightarrow> exception + jsval \<Rightarrow> exception + jsval \<Rightarrow> exception + jsval" where
  "if_return (Inl e) r rest = Inl e"
| "if_return (Inr t) r rest = (if t then r else rest)"

text \<open>The string \<open>pre\<close>, the conversion of \<open>v\<close> and the string \<open>post\<close>, concatenated.\<close>

definition template :: "string \<Rightarrow> jsval \<Rightarrow> string \<Rightarrow> exception + jsval" where
  "template pre v post = (case ToString v of Inl e \<Rightarrow> Inl e | Inr s \<Rightarrow> Inr (JStr (pre @ s @ post)))"

definition toFriendlyApiError :: "unknown \<Rightarrow> exception + jsval" where
  "toFriendlyApiError err =
     (case (case err of
              ErrorInstance m c \<Rightarrow> Inr m
            | NoPrototype kvs \<Rightarrow> Inl TypeError
            | Value v \<Rightarrow> (case ToString v of Inl e \<Rightarrow> Inl e | Inr s \<Rightarrow> Inr (JStr s))) of
        Inl e \<Rightarrow> Inl e
      | Inr msg \<Rightarrow>
          (let cause = (case err of ErrorInstance m (Some c) \<Rightarrow> c | _ \<Rightarrow> JNull);
               causeMsg = coalesce (get_prop cause ''message'') (JStr []);
               causeCode = coalesce (get_prop cause ''code'') (JStr [])
           in if_return (or_else (call_includes msg ''401'') (call_includes msg ''unauthorized''))
                (Inr (JStr msg_unauthorized))
             (if_return (or_else (call_includes msg ''403'') (call_includes msg ''forbidden''))
                (Inr (JStr msg_forbidden))
             (if_return (or_else (call_includes msg ''404'') (call_includes msg ''not found''))
                (Inr (JStr msg_not_found))
             (if_return (or_else (Inr (causeCode = JStr ''ENOTFOUND''))
                          (or_else (call_includes causeMsg ''ENOTFOUND'') (call_includes msg ''getaddrinfo'')))
                (Inr (JStr msg_enotfound))
             (if_return (or_else (Inr (causeCode = JStr ''ECONNREFUSED'')) (call_includes causeMsg ''ECONNREFUSED''))
                (Inr (JStr msg_econnrefused))
             (if_return (or_else (Inr (causeCode = JStr ''SELF_SIGNED_CERT_IN_CHAIN''))
                          (or_else (call_includes causeMsg ''SELF_SIGNED_CERT'') (call_includes msg ''self-signed'')))
                (Inr (JStr msg_self_signed))
             (if_return (or_else (call_includes msg ''timed out'') (call_includes msg ''AbortError''))
                (Inr (JStr msg_timeout))
             (if_return (call_includes msg ''n8n API error'')
                (template [] msg hint_api_error)
             (if_return (or_else (call_includes msg ''fetch failed'') (Inr (truthy causeMsg)))
                (template ''Connection failed: '' (if truthy causeMsg then causeMsg else msg) hint_connection)
             (Inr msg)))))))))))"

section \<open>Loading the configuration\<close>

text \<open>
  What \<^verbatim>\<open>loadConfig\<close> reads from the process: the environment, the working directory,
  the directory of the module, the file system, and the library functions
  \<^verbatim>\<open>String.prototype.trim\<close>, \<^verbatim>\<open>path.resolve\<close>, \<^verbatim>\<open>path.isAbsolute\<close>, \<^verbatim>\<open>path.join\<close> and
  \<^verbatim>\<open>path.basename\<close>.
\<close>

record node =
  getenv :: "string \<Rightarrow> string option"
  cwd :: string
  module_dir :: string
  readFile :: "string \<Rightarrow> js_error + string"
  String_trim :: "string \<Rightarrow> string"
  path_resolve :: "string list \<Rightarrow> string"
  path_isAbsolute :: "string \<Rightarrow> bool"
  path_join :: "string list \<Rightarrow> string"
  path_basename :: "string \<Rightarrow> string"

text \<open>\<^verbatim>\<open>process.env.X?.trim()\<close>\<close>

definition env_trimmed :: "node \<Rightarrow> string \<Rightarrow> string option" where
  "env_trimmed N var = map_option (String_trim N) (getenv N var)"

definition dquote :: string where
  "dquote = [CHR 0x22]"

definition config_error :: "node \<Rightarrow> thrown" where
  "config_error N =
     (let hint = (if js_includes (cwd N) ''n8n-tools'' \<or> js_includes (cwd N) ''n8n-cli''
                  then '' Create config/n8n-config.local.json in '' @ path_basename N (cwd N)
                       @ '' (copy from config/n8n-config.example.json).''
                  else [])
      in ErrorObj (Error
           (''Failed to load n8n config. Use N8N_BASE_URL + N8N_API_KEY env vars, or create config/n8n-config.local.json with { ''
            @ dquote @ ''baseUrl'' @ dquote @ '': '' @ dquote @ ''...'' @ dquote @ '', ''
            @ dquote @ ''apiKey'' @ dquote @ '': '' @ dquote @ ''...'' @ dquote
            @ '' }. Use N8N_CONFIG_FILE for a specific config file.'' @ hint)))"

text \<open>
  The body of the \<^verbatim>\<open>try\<close> for one path: \<open>None\<close> is the \<^verbatim>\<open>catch { continue }\<close>, taken
  when the file cannot be read, is not JSON, or lacks a truthy baseUrl or apiKey.
\<close>

definition try_config :: "(string \<Rightarrow> js_error + jsval) \<Rightarrow> node \<Rightarrow> string \<Rightarrow> jsval option" where
  "try_config parse N configPath =
     (case readFile N configPath of
        Inl e \<Rightarrow> None
      | Inr content \<Rightarrow>
          (case parse content of
             Inl e \<Rightarrow> None
           | Inr config \<Rightarrow>
               if nullish config then None
               else if \<not> truthy (get_prop config ''baseUrl'') \<or> \<not> truthy (get_prop config ''apiKey'')
               then None
               else Some config))"

fun try_names :: "(string \<Rightarrow> js_error + jsval) \<Rightarrow> node \<Rightarrow> string \<Rightarrow> string list \<Rightarrow> jsval option" where
  "try_names parse N rootDir [] = None"
| "try_names parse N rootDir (name # names) =
     (let configPath = (if path_isAbsolute N name then name else path_join N [rootDir, name])
      in case try_config parse N configPath of
           Some config \<Rightarrow> Some config
         | None \<Rightarrow> try_names parse N rootDir names)"

fun try_dirs :: "(string \<Rightarrow> js_error + jsval) \<Rightarrow> node \<Rightarrow> string list \<Rightarrow> string list \<Rightarrow> jsval option" where
  "try_dirs parse N [] configNames = None"
| "try_dirs parse N (rootDir # dirs) configNames =
     (case try_names parse N rootDir configNames of
        Some config \<Rightarrow> Some config
      | None \<Rightarrow> try_dirs parse N dirs configNames)"

definition candidates :: "node \<Rightarrow> string list" where
  "candidates N =
     [cwd N,
      path_resolve N [cwd N, ''..''],
      path_resolve N [module_dir N, ''..''],
      path_resolve N [module_dir N, ''..'', ''..'']]"

definition configNames :: "node \<Rightarrow> string list" where
  "configNames N =
     (let configFile = env_trimmed N ''N8N_CONFIG_FILE''
      in if truthy_str configFile then [str_of configFile]
         else [''config/n8n-config.local.json'', ''config/n8n-config.json''])"

definition loadConfig :: "(string \<Rightarrow> js_error + jsval) \<Rightarrow> node \<Rightarrow> thrown + jsval" where
  "loadConfig parse N =
     (let baseUrl = env_trimmed N ''N8N_BASE_URL'';
          apiKey = env_trimmed N ''N8N_API_KEY''
      in if truthy_str baseUrl \<and> truthy_str apiKey then
           Inr (JObj
             [(''baseUrl'', JStr (str_of baseUrl)),
              (''apiKey'', JStr (str_of apiKey)),
              (''projectId'',
                 (let p = env_trimmed N ''N8N_PROJECT_ID''
                  in if truthy_str p then JStr (str_of p) else JUndefined)),
              (''rejectUnauthorized'', JBool (getenv N ''N8N_REJECT_UNAUTHORIZED'' \<noteq> Some ''false''))])
         else
           (case try_dirs parse N (candidates N) (configNames N) of
              Some config \<Rightarrow> Inr config
            | None \<Rightarrow> Inl (config_error N)))"

section \<open>Auxiliary notions for stating the properties\<close>

text \<open>
  The events one call of \<^verbatim>\<open>request\<close> adds to the trace when \<open>n\<close> attempts, the first
  of them with loop counter \<open>a\<close>, fail and are retried, and one more attempt ends the call.
\<close>

definition retry_trace :: "request \<Rightarrow> nat \<Rightarrow> nat \<Rightarrow> event list" where
  "retry_trace rq a n = concat (map (\<lambda>k. [Fetch rq, Sleep (delay (int k))]) [a..<a + n]) @ [Fetch rq]"

text \<open>The transport's state after \<open>k\<close> calls of \<^verbatim>\<open>fetch\<close> with the same request.\<close>

definition world_after :: "'w platform \<Rightarrow> request \<Rightarrow> nat \<Rightarrow> 'w \<Rightarrow> 'w" where
  "world_after P rq k w = ((\<lambda>v. snd (fetch P rq v)) ^^ k) w"

fun fetches :: "event list \<Rightarrow> request list" where
  "fetches [] = []"
| "fetches (Fetch rq # evs) = rq # fetches evs"
| "fetches (Sleep ms # evs) = fetches evs"

fun sleeps :: "event list \<Rightarrow> nat list" where
  "sleeps [] = []"
| "sleeps (Fetch rq # evs) = sleeps evs"
| "sleeps (Sleep ms # evs) = ms # sleeps evs"

text \<open>
  A scripted transport, as the test suite's mock: each call of \<^verbatim>\<open>fetch\<close> consumes the
  next outcome of the script, and rejects when the script is used up. The parser is a
  table of the bodies that parse; the query encoding leaves its argument as it is.
\<close>

definition SyntaxError :: js_error where
  "SyntaxError = \<lparr>err_name = ''SyntaxError'', err_message = ''Unexpected token'',
     err_status = None, err_cause = None\<rparr>"

definition parse_table :: "(string \<times> jsval) list \<Rightarrow> string \<Rightarrow> js_error + jsval" where
  "parse_table tbl text = (case map_of tbl text of Some v \<Rightarrow> Inr v | None \<Rightarrow> Inl SyntaxError)"

definition scripted :: "(string \<times> jsval) list \<Rightarrow> fetch_outcome list platform" where
  "scripted tbl =
     \<lparr>fetch = (\<lambda>rq w. case w of [] \<Rightarrow> (Rejects (Error ''no response scripted''), []) | out # rest \<Rightarrow> (out, rest)),
      JSON_parse = parse_table tbl,
      form_urlencode = (\<lambda>x. x),
      hasProxy = False\<rparr>"

definition test_client :: "string option \<Rightarrow> int \<Rightarrow> client" where
  "test_client pid r =
     N8nClient \<lparr>cfg_baseUrl = ''https://test.n8n.example.com'', cfg_apiKey = ''test-api-key'',
       cfg_rejectUnauthorized = None, cfg_projectId = pid, cfg_timeoutMs = None,
       cfg_retries = Some r, cfg_debug = None\<rparr>"

definition json_ok :: "string \<Rightarrow> fetch_outcome" where
  "json_ok text = Resolves \<lparr>resp_status = 200, resp_text = text, resp_content_type = Some ''application/json''\<rparr>"

definition http_error :: "nat \<Rightarrow> string \<Rightarrow> fetch_outcome" where
  "http_error st text = Resolves \<lparr>resp_status = st, resp_text = text, resp_content_type = Some ''application/json''\<rparr>"

text \<open>The body \<^verbatim>\<open>{"data":[]}\<close>\<close>

definition body_empty_list :: string where
  "body_empty_list = ''{'' @ dquote @ ''data'' @ dquote @ '':[]}''"

text \<open>
  The retry classification in the words of the specification: HTTP 429, any HTTP 5xx, or a
  transport-level failure (one without an HTTP status) matching the timeout, connection-reset,
  connection-refused or generic-fetch-failure signatures.
\<close>

definition spec_isRetryable :: "thrown \<Rightarrow> bool" where
  "spec_isRetryable err =
     (case status_of err of
        Some n \<Rightarrow> n = 429 \<or> (500 \<le> n \<and> n < 600)
      | None \<Rightarrow>
          (let s = String_of err
           in js_includes s ''timed out'' \<or> js_includes s ''AbortError'' \<or> js_includes s ''ETIMEDOUT''
              \<or> js_includes s ''ECONNRESET'' \<or> js_includes s ''ECONNREFUSED''
              \<or> js_includes s ''fetch failed''))"

definition has_retry_signature :: "string \<Rightarrow> bool" where
  "has_retry_signature s =
     (js_includes s ''timed out'' \<or> js_includes s ''AbortError'' \<or> js_includes s ''ECONNRESET''
      \<or> js_includes s ''ETIMEDOUT'' \<or> js_includes s ''fetch failed'')"



text \<open>The bodies \<^verbatim>\<open>{"message":"bad key"}\<close> and \<^verbatim>\<open>{"error":{"message":"no such workflow"}}\<close>\<close>

definition body_message :: string where
  "body_message = ''{'' @ dquote @ ''message'' @ dquote @ '':'' @ dquote @ ''bad key'' @ dquote @ ''}''"

definition body_nested :: string where
  "body_nested = ''{'' @ dquote @ ''error'' @ dquote @ '':{'' @ dquote @ ''message'' @ dquote @ '':''
     @ dquote @ ''no such workflow'' @ dquote @ ''}}''"

definition test_bodies :: "(string \<times> jsval) list" where
  "test_bodies =
     [(body_message, JObj [(''message'', JStr ''bad key'')]),
      (body_nested, JObj [(''error'', JObj [(''message'', JStr ''no such workflow'')])]),
      (body_empty_list, JObj [(''data'', JArr [])]),
      (''{}'', JObj [])]"

text \<open>The body \<^verbatim>\<open>{"data":{"id":"exec-2"}}\<close>\<close>

definition body_exec2 :: string where
  "body_exec2 = ''{'' @ dquote @ ''data'' @ dquote @ '':{'' @ dquote @ ''id'' @ dquote @ '':''
     @ dquote @ ''exec-2'' @ dquote @ ''}}''"

definition run_bodies :: "(string \<times> jsval) list" where
  "run_bodies = [(body_exec2, JObj [(''data'', JObj [(''id'', JStr ''exec-2'')])]), (''{}'', JObj [])]"

text \<open>
  Notions for the ``list all pages'' loops. \<open>has_items pg\<close>: the \<^verbatim>\<open>data\<close> of the page is an
  array, or is absent or null and counts as the empty array; \<open>page_items\<close> are its elements;
  \<open>next_token\<close> is its \<^verbatim>\<open>nextCursor\<close>.
\<close>

definition next_token :: "jsval \<Rightarrow> jsval" where
  "next_token pg = get_prop pg ''nextCursor''"

fun items_of :: "jsval \<Rightarrow> jsval list option" where
  "items_of (JArr xs) = Some xs"
| "items_of v = None"

definition has_items :: "jsval \<Rightarrow> bool" where
  "has_items pg = (items_of (coalesce (get_prop pg ''data'') (JArr [])) \<noteq> None)"

definition page_items :: "jsval \<Rightarrow> jsval list" where
  "page_items pg = (case items_of (coalesce (get_prop pg ''data'') (JArr [])) of Some xs \<Rightarrow> xs | None \<Rightarrow> [])"

text \<open>
  \<open>page_run f cursor s pgs s'\<close>: starting in state \<open>s\<close> with \<open>cursor\<close>, the successive calls
  of the paginated list primitive \<open>f\<close> return the pages \<open>pgs\<close>, each call made with the
  token of the page before; every page but the last has a truthy token, the last has a falsy
  one, and \<open>s'\<close> is the state after the call that returned the last page.
\<close>

fun page_run ::
  "(jsval \<Rightarrow> 'w io \<Rightarrow> (thrown + jsval) \<times> 'w io) \<Rightarrow> jsval \<Rightarrow> 'w io \<Rightarrow> jsval list \<Rightarrow> 'w io \<Rightarrow> bool" where
  "page_run f cursor s [] s' = False"
| "page_run f cursor s [pg] s' = (f cursor s = (Inr pg, s') \<and> \<not> truthy (next_token pg))"
| "page_run f cursor s (pg # pg' # pgs) s' =
     (fst (f cursor s) = Inr pg \<and> truthy (next_token pg)
      \<and> page_run f (next_token pg) (snd (f cursor s)) (pg' # pgs) s')"

text \<open>The loop of both \<^verbatim>\<open>listWorkflowsAll\<close> and \<^verbatim>\<open>listExecutionsAll\<close>, over the primitive \<open>f\<close>.\<close>

fun pages_loop ::
  "nat \<Rightarrow> (jsval \<Rightarrow> 'w io \<Rightarrow> (thrown + jsval) \<times> 'w io) \<Rightarrow> jsval list \<Rightarrow> jsval \<Rightarrow> 'w io
     \<Rightarrow> (thrown + jsval list) option \<times> 'w io" where
  "pages_loop 0 f all cursor s = (None, s)"
| "pages_loop (Suc fuel) f all cursor s =
     (case f cursor s of
        (Inl err, s') \<Rightarrow> (Some (Inl err), s')
      | (Inr res, s') \<Rightarrow>
          (case spread (coalesce (get_prop res ''data'') (JArr [])) of
             Inl err \<Rightarrow> (Some (Inl err), s')
           | Inr items \<Rightarrow>
               (let all' = all @ items; cursor' = get_prop res ''nextCursor''
                in if truthy cursor' then pages_loop fuel f all' cursor' s'
                   else (Some (Inr all'), s'))))"

text \<open>The bodies \<^verbatim>\<open>{"data":["A","B"],"nextCursor":"c1"}\<close>, \<^verbatim>\<open>{"data":["C"]}\<close> and
  \<^verbatim>\<open>{"data":["A"],"nextCursor":""}\<close>\<close>

definition body_page1 :: string where
  "body_page1 = ''{'' @ dquote @ ''data'' @ dquote @ '':['' @ dquote @ ''A'' @ dquote @ '','' @ dquote @ ''B''
     @ dquote @ ''],'' @ dquote @ ''nextCursor'' @ dquote @ '':'' @ dquote @ ''c1'' @ dquote @ ''}''"

definition body_page2 :: string where
  "body_page2 = ''{'' @ dquote @ ''data'' @ dquote @ '':['' @ dquote @ ''C'' @ dquote @ '']}''"

definition body_page_empty_token :: string where
  "body_page_empty_token = ''{'' @ dquote @ ''data'' @ dquote @ '':['' @ dquote @ ''A'' @ dquote
     @ ''],'' @ dquote @ ''nextCursor'' @ dquote @ '':'' @ dquote @ dquote @ ''}''"

definition page1 :: jsval where
  "page1 = JObj [(''data'', JArr [JStr ''A'', JStr ''B'']), (''nextCursor'', JStr ''c1'')]"

definition page2 :: jsval where
  "page2 = JObj [(''data'', JArr [JStr ''C''])]"

definition page_empty_token :: jsval where
  "page_empty_token = JObj [(''data'', JArr [JStr ''A'']), (''nextCursor'', JStr [])]"

definition page_bodies :: "(string \<times> jsval) list" where
  "page_bodies = [(body_page1, page1), (body_page2, page2), (body_page_empty_token, page_empty_token)]"

text \<open>``The response omits the next-page token'': it has no \<^verbatim>\<open>nextCursor\<close> field.\<close>

definition omits_token :: "jsval \<Rightarrow> bool" where
  "omits_token pg = (get_prop pg ''nextCursor'' = JUndefined)"

text \<open>
  The seven operations on the primary resource, as data, so that a statement can range over
  them: for each its HTTP method, its body, its unscoped path, the scope it is called with
  (the profile's \<^verbatim>\<open>projectId\<close>, but for \<^verbatim>\<open>createWorkflow\<close> its own \<^verbatim>\<open>projectId\<close> argument),
  the test it applies to the text of a failure of the scoped request, and what it returns of
  the result of a request.
\<close>

datatype wf_op =
    ListOp "bool option" jsval "string option"
  | CreateOp jsval "string option"
  | GetOp string
  | UpdateOp string jsval
  | DeleteOp string
  | ActivateOp string
  | DeactivateOp string

fun run_op :: "'w platform \<Rightarrow> client \<Rightarrow> wf_op \<Rightarrow> 'w io \<Rightarrow> (thrown + jsval) \<times> 'w io" where
  "run_op P c (ListOp active cursor name) s = listWorkflowsPaginated P c active cursor name s"
| "run_op P c (CreateOp workflow pid) s = createWorkflow P c workflow pid s"
| "run_op P c (GetOp ident) s = getWorkflow P c ident s"
| "run_op P c (UpdateOp ident workflow) s = updateWorkflow P c ident workflow s"
| "run_op P c (DeleteOp ident) s = deleteWorkflow P c ident s"
| "run_op P c (ActivateOp ident) s = activateWorkflow P c ident s"
| "run_op P c (DeactivateOp ident) s = deactivateWorkflow P c ident s"

fun op_method :: "wf_op \<Rightarrow> string" where
  "op_method (ListOp active cursor name) = ''GET''"
| "op_method (CreateOp workflow pid) = ''POST''"
| "op_method (GetOp ident) = ''GET''"
| "op_method (UpdateOp ident workflow) = ''PUT''"
| "op_method (DeleteOp ident) = ''DELETE''"
| "op_method (ActivateOp ident) = ''POST''"
| "op_method (DeactivateOp ident) = ''POST''"

fun op_body :: "wf_op \<Rightarrow> jsval option" where
  "op_body (ListOp active cursor name) = None"
| "op_body (CreateOp workflow pid) = Some workflow"
| "op_body (GetOp ident) = None"
| "op_body (UpdateOp ident workflow) = Some workflow"
| "op_body (DeleteOp ident) = None"
| "op_body (ActivateOp ident) = Some (JObj [])"
| "op_body (DeactivateOp ident) = Some (JObj [])"

fun unscoped_path :: "'w platform \<Rightarrow> wf_op \<Rightarrow> string" where
  "unscoped_path P (ListOp active cursor name) =
     ''workflows'' @ query_string P
       ((case active of Some b \<Rightarrow> [(''active'', if b then ''true'' else ''false'')] | None \<Rightarrow> [])
        @ (if truthy cursor then [(''cursor'', js_String cursor)] else [])
        @ (if truthy_str name then [(''name'', str_of name)] else []))"
| "unscoped_path P (CreateOp workflow pid) = ''workflows''"
| "unscoped_path P (GetOp ident) = ''workflows/'' @ ident"
| "unscoped_path P (UpdateOp ident workflow) = ''workflows/'' @ ident"
| "unscoped_path P (DeleteOp ident) = ''workflows/'' @ ident"
| "unscoped_path P (ActivateOp ident) = ''workflows/'' @ ident @ ''/activate''"
| "unscoped_path P (DeactivateOp ident) = ''workflows/'' @ ident @ ''/deactivate''"

fun op_scope :: "client \<Rightarrow> wf_op \<Rightarrow> string option" where
  "op_scope c (CreateOp workflow pid) = pid"
| "op_scope c op = projectId c"

definition scoped_path :: "'w platform \<Rightarrow> client \<Rightarrow> wf_op \<Rightarrow> string" where
  "scoped_path P c op = ''projects/'' @ str_of (op_scope c op) @ ''/'' @ unscoped_path P op"

fun op_not_found :: "wf_op \<Rightarrow> string \<Rightarrow> bool" where
  "op_not_found (ListOp active cursor name) x = js_includes x ''404''"
| "op_not_found op x = (js_includes x ''404'' \<or> js_includes x ''not found'')"

definition or_empty_page :: "(thrown + jsval) \<times> 'w io \<Rightarrow> (thrown + jsval) \<times> 'w io" where
  "or_empty_page r =
     (case r of (Inr res, s') \<Rightarrow> (Inr (coalesce res empty_page), s') | (Inl err, s') \<Rightarrow> (Inl err, s'))"

fun op_finish :: "wf_op \<Rightarrow> (thrown + jsval) \<times> 'w io \<Rightarrow> (thrown + jsval) \<times> 'w io" where
  "op_finish (ListOp active cursor name) r = or_empty_page r"
| "op_finish (CreateOp workflow pid) r = r"
| "op_finish (GetOp ident) r = r"
| "op_finish (UpdateOp ident workflow) r = r"
| "op_finish (DeleteOp ident) r = discard r"
| "op_finish (ActivateOp ident) r = discard r"
| "op_finish (DeactivateOp ident) r = discard r"

fun is_list_op :: "wf_op \<Rightarrow> bool" where
  "is_list_op (ListOp active cursor name) = True"
| "is_list_op op = False"

text \<open>The operations on executions, and the events each adds to the trace.\<close>

datatype exec_op =
    ListExecutionsPaginatedOp "string option" jsval "string option"
  | ListExecutionsOp "string option" "string option"
  | ListExecutionsAllOp nat "string option" "string option"
  | GetExecutionOp string
  | RetryExecutionOp string
  | StopExecutionOp string
  | DeleteExecutionOp string

fun exec_state :: "'w platform \<Rightarrow> client \<Rightarrow> exec_op \<Rightarrow> 'w io \<Rightarrow> 'w io" where
  "exec_state P c (ListExecutionsPaginatedOp workflowId cursor status) s =
     snd (listExecutionsPaginated P c workflowId cursor status s)"
| "exec_state P c (ListExecutionsOp workflowId status) s = snd (listExecutions P c workflowId status s)"
| "exec_state P c (ListExecutionsAllOp fuel workflowId status) s =
     snd (listExecutionsAll fuel P c workflowId status s)"
| "exec_state P c (GetExecutionOp ident) s = snd (getExecution P c ident s)"
| "exec_state P c (RetryExecutionOp ident) s = snd (retryExecution P c ident s)"
| "exec_state P c (StopExecutionOp ident) s = snd (stopExecution P c ident s)"
| "exec_state P c (DeleteExecutionOp ident) s = snd (deleteExecution P c ident s)"

text \<open>The events a run from state \<open>s\<close> to state \<open>s'\<close> added.\<close>

definition new_events :: "'w io \<Rightarrow> 'w io \<Rightarrow> event list" where
  "new_events s s' = drop (length (trace s)) (trace s')"

text \<open>A scoped path: one under \<^verbatim>\<open>projects/\<close>.\<close>

definition is_scoped :: "string \<Rightarrow> bool" where
  "is_scoped p = startsWith p ''projects/''"

text \<open>
  \<open>extends_by Q s s'\<close>: the trace of \<open>s'\<close> is the trace of \<open>s\<close> followed by events whose
  requests all satisfy \<open>Q\<close>.
\<close>

definition extends_by :: "(request \<Rightarrow> bool) \<Rightarrow> 'w io \<Rightarrow> 'w io \<Rightarrow> bool" where
  "extends_by Q s s' = (\<exists>evs. trace s' = trace s @ evs \<and> (\<forall>rq\<in>set (fetches evs). Q rq))"

text \<open>
  \<open>built P c R rq\<close>: the request \<open>rq\<close> is one that \<^verbatim>\<open>request\<close> builds from the profile \<open>c\<close>,
  for a logical path that satisfies \<open>R\<close>.
\<close>

definition built :: "'w platform \<Rightarrow> client \<Rightarrow> (string \<Rightarrow> bool) \<Rightarrow> request \<Rightarrow> bool" where
  "built P c R rq = (\<exists>m p b. rq = build_request P c m p b \<and> R p)"

text \<open>Every operation of the client, and the state it leaves.\<close>

datatype operation =
    Primary wf_op
  | Executions exec_op
  | ListWorkflows "bool option" "string option"
  | ListWorkflowsAll nat "bool option" "string option"
  | Ping
  | RunWorkflow string jsval
  | RenameWorkflow string string
  | CreateCredential jsval
  | ListCredentials
  | ListTags
  | Audit jsval
  | ListVariables
  | CreateTag string
  | GetWorkflowTags string
  | UpdateWorkflowTags string "string list"
  | TransferWorkflow string string





text \<open>
  The paths \<^verbatim>\<open>loadConfig\<close> tries, in the order of its two loops: for each candidate directory,
  each file name.
\<close>

definition config_path :: "node \<Rightarrow> string \<Rightarrow> string \<Rightarrow> string" where
  "config_path N rootDir name = (if path_isAbsolute N name then name else path_join N [rootDir, name])"

definition candidate_paths :: "node \<Rightarrow> string list" where
  "candidate_paths N = concat (map (\<lambda>rootDir. map (config_path N rootDir) (configNames N)) (candidates N))"

fun first_some :: "('a \<Rightarrow> 'b option) \<Rightarrow> 'a list \<Rightarrow> 'b option" where
  "first_some f [] = None"
| "first_some f (x # xs) = (case f x of Some y \<Rightarrow> Some y | None \<Rightarrow> first_some f xs)"

text \<open>
  A stand-in for the process, for concrete runs: the environment and the files are tables,
  \<^verbatim>\<open>trim\<close> strips blanks, tabs and line ends, \<^verbatim>\<open>path.join\<close> and \<^verbatim>\<open>path.resolve\<close> put a
  slash between their arguments without normalising, a path is absolute when it starts
  with a slash, and the base name is what follows the last slash.
\<close>

definition is_blank :: "char \<Rightarrow> bool" where
  "is_blank ch = (ch = CHR '' '' \<or> ch = CHR 0x09 \<or> ch = CHR 0x0A \<or> ch = CHR 0x0D)"

definition trim_blanks :: "string \<Rightarrow> string" where
  "trim_blanks x = rev (dropWhile is_blank (rev (dropWhile is_blank x)))"

definition ENOENT :: js_error where
  "ENOENT = \<lparr>err_name = ''Error'', err_message = ''ENOENT: no such file or directory'',
     err_status = None, err_cause = None\<rparr>"

definition test_node :: "(string \<times> string) list \<Rightarrow> (string \<times> string) list \<Rightarrow> node" where
  "test_node env files =
     \<lparr>getenv = map_of env,
      cwd = ''/home/user/proj'',
      module_dir = ''/opt/n8n-cli/dist'',
      readFile = (\<lambda>p. case map_of files p of Some content \<Rightarrow> Inr content | None \<Rightarrow> Inl ENOENT),
      String_trim = trim_blanks,
      path_resolve = join ''/'',
      path_isAbsolute = (\<lambda>p. startsWith p ''/''),
      path_join = join ''/'',
      path_basename = (\<lambda>p. rev (takeWhile (\<lambda>ch. ch \<noteq> CHR ''/'') (rev p)))\<rparr>"

text \<open>The body \<^verbatim>\<open>{"baseUrl":"https://file.example.com","apiKey":"file-key"}\<close> and one without
  \<^verbatim>\<open>baseUrl\<close>, \<^verbatim>\<open>{"apiKey":"x"}\<close>\<close>

definition body_config :: string where
  "body_config = ''{'' @ dquote @ ''baseUrl'' @ dquote @ '':'' @ dquote @ ''https://file.example.com'' @ dquote
     @ '','' @ dquote @ ''apiKey'' @ dquote @ '':'' @ dquote @ ''file-key'' @ dquote @ ''}''"

definition body_bad_config :: string where
  "body_bad_config = ''{'' @ dquote @ ''apiKey'' @ dquote @ '':'' @ dquote @ ''x'' @ dquote @ ''}''"

definition file_config :: jsval where
  "file_config = JObj [(''baseUrl'', JStr ''https://file.example.com''), (''apiKey'', JStr ''file-key'')]"

definition config_bodies :: "(string \<times> jsval) list" where
  "config_bodies = [(body_config, file_config), (body_bad_config, JObj [(''apiKey'', JStr ''x'')])]"

text \<open>
  What \<^verbatim>\<open>fetch\<close> rejects with when the server refuses the connection: a \<^verbatim>\<open>TypeError\<close> with
  the message \<^verbatim>\<open>fetch failed\<close>, and the system error, with its code, as the cause.
\<close>

definition connection_refused :: js_error where
  "connection_refused =
     \<lparr>err_name = ''TypeError'', err_message = ''fetch failed'', err_status = None,
      err_cause = Some \<lparr>cause_code = Some ''ECONNREFUSED'',
                        cause_message = Some ''connect ECONNREFUSED 127.0.0.1:5678''\<rparr>\<rparr>"

text \<open>The error an attempt that was aborted by its timer ends with.\<close>

definition timeout_error :: "client \<Rightarrow> thrown" where
  "timeout_error c = ErrorObj (Error (''n8n API request timed out after '' @ show_nat (timeoutMs c) @ ''ms''))"





text \<open>
  \<^verbatim>\<open>new Error(msg)\<close>; the object \<^verbatim>\<open>{ code, message }\<close>, either property present or not; and
  \<^verbatim>\<open>new Error(msg)\<close> with such an object as its cause.
\<close>

definition new_Error :: "string \<Rightarrow> unknown" where
  "new_Error msg = ErrorInstance (JStr msg) None"

definition cause_object :: "string option \<Rightarrow> string option \<Rightarrow> jsval" where
  "cause_object code cmsg =
     JObj ((case code of Some x \<Rightarrow> [(''code'', JStr x)] | None \<Rightarrow> [])
           @ (case cmsg of Some x \<Rightarrow> [(''message'', JStr x)] | None \<Rightarrow> []))"

definition Error_with_cause :: "string \<Rightarrow> string option \<Rightarrow> string option \<Rightarrow> unknown" where
  "Error_with_cause msg code cmsg = ErrorInstance (JStr msg) (Some (cause_object code cmsg))"

text \<open>What the client throws, as an argument of \<^verbatim>\<open>toFriendlyApiError\<close>.\<close>

definition as_unknown :: "thrown \<Rightarrow> unknown" where
  "as_unknown err =
     (case err of
        ErrorObj e \<Rightarrow>
          ErrorInstance (JStr (err_message e))
            (map_option (\<lambda>k. cause_object (cause_code k) (cause_message k)) (err_cause e))
      | NonError v \<Rightarrow> Value v)"

text \<open>
  The categories in the order of the specification, each with the test that recognises it
  and the string it gives, for the message \<open>msg\<close>, the code \<open>code\<close> of the cause and the
  message \<open>cmsg\<close> of the cause, the last two empty when absent; \<open>first_match\<close> takes the first
  category whose test holds.
\<close>

fun first_match :: "(bool \<times> string) list \<Rightarrow> string \<Rightarrow> string" where
  "first_match [] d = d"
| "first_match ((b, x) # rest) d = (if b then x else first_match rest d)"

definition categories :: "string \<Rightarrow> jsval \<Rightarrow> string \<Rightarrow> (bool \<times> string) list" where
  "categories msg code cmsg =
     [(js_includes msg ''401'' \<or> js_includes msg ''unauthorized'', msg_unauthorized),
      (js_includes msg ''403'' \<or> js_includes msg ''forbidden'', msg_forbidden),
      (js_includes msg ''404'' \<or> js_includes msg ''not found'', msg_not_found),
      (code = JStr ''ENOTFOUND'' \<or> js_includes cmsg ''ENOTFOUND'' \<or> js_includes msg ''getaddrinfo'', msg_enotfound),
      (code = JStr ''ECONNREFUSED'' \<or> js_includes cmsg ''ECONNREFUSED'', msg_econnrefused),
      (code = JStr ''SELF_SIGNED_CERT_IN_CHAIN'' \<or> js_includes cmsg ''SELF_SIGNED_CERT''
         \<or> js_includes msg ''self-signed'', msg_self_signed),
      (js_includes msg ''timed out'' \<or> js_includes msg ''AbortError'', msg_timeout),
      (js_includes msg ''n8n API error'', msg @ hint_api_error),
      (js_includes msg ''fetch failed'' \<or> cmsg \<noteq> [],
         ''Connection failed: '' @ (if cmsg \<noteq> [] then cmsg else msg) @ hint_connection)]"

definition fixed_messages :: "string list" where
  "fixed_messages =
     [msg_unauthorized, msg_forbidden, msg_not_found, msg_enotfound, msg_econnrefused, msg_self_signed,
      msg_timeout]"

text \<open>A text none of the tests on the message recognises.\<close>

definition unrecognized :: "string \<Rightarrow> bool" where
  "unrecognized m =
     (\<not> js_includes m ''401'' \<and> \<not> js_includes m ''unauthorized'' \<and> \<not> js_includes m ''403''
      \<and> \<not> js_includes m ''forbidden'' \<and> \<not> js_includes m ''404'' \<and> \<not> js_includes m ''not found''
      \<and> \<not> js_includes m ''getaddrinfo'' \<and> \<not> js_includes m ''self-signed'' \<and> \<not> js_includes m ''timed out''
      \<and> \<not> js_includes m ''AbortError'' \<and> \<not> js_includes m ''n8n API error'' \<and> \<not> js_includes m ''fetch failed'')"

text \<open>\<^verbatim>\<open>x ?? ''\<close> on an optional string\<close>

fun or_empty :: "string option \<Rightarrow> string" where
  "or_empty None = []"
| "or_empty (Some x) = x"

text \<open>A value that has the method \<^verbatim>\<open>includes\<close>: a string or an array.\<close>

fun has_includes :: "jsval \<Rightarrow> bool" where
  "has_includes (JStr s) = True"
| "has_includes (JArr xs) = True"
| "has_includes v = False"

section \<open>Properties of the request primitive\<close>

lemma retry_trace_0: "retry_trace rq a 0 = [Fetch rq]"
  by (simp add: retry_trace_def)

lemma retry_trace_Suc:
  "retry_trace rq a (Suc n) = Fetch rq # Sleep (delay (int a)) # retry_trace rq (Suc a) n"
  by (simp add: retry_trace_def upt_rec[of a])

lemma doRequest_eq:
  "doRequest P c m p b s =
     (handle_outcome P c (fst (fetch P (build_request P c m p b) (world s))),
      \<lparr>world = snd (fetch P (build_request P c m p b) (world s)),
       trace = trace s @ [Fetch (build_request P c m p b)]\<rparr>)"
  by (simp add: doRequest_def Let_def)

lemma trace_doRequest: "trace (snd (doRequest P c m p b s)) = trace s @ [Fetch (build_request P c m p b)]"
  by (simp add: doRequest_eq)

lemma request_loop_ok:
  "attempt \<le> retries c \<Longrightarrow> doRequest P c m p b s = (Inr v, s')
     \<Longrightarrow> request_loop P c m p b attempt le s = (Inr v, s')"
  by (subst request_loop.simps) simp

lemma request_loop_stop:
  "attempt \<le> retries c \<Longrightarrow> doRequest P c m p b s = (Inl err, s')
     \<Longrightarrow> \<not> (attempt < retries c \<and> isRetryable err (status_of err))
     \<Longrightarrow> request_loop P c m p b attempt le s = (Inl err, s')"
  by (subst request_loop.simps) auto

lemma request_loop_retry:
  "attempt < retries c \<Longrightarrow> doRequest P c m p b s = (Inl err, s')
     \<Longrightarrow> isRetryable err (status_of err)
     \<Longrightarrow> request_loop P c m p b attempt le s
         = request_loop P c m p b (attempt + 1) err (sleep (delay attempt) s')"
  by (subst request_loop.simps) simp

lemma request_loop_trace:
  "0 \<le> a \<Longrightarrow> a \<le> retries c \<Longrightarrow>
   \<exists>n. nat a + n \<le> nat (retries c) \<and>
       trace (snd (request_loop P c m p b a le s)) = trace s @ retry_trace (build_request P c m p b) (nat a) n"
proof (induction P c m p b a le s rule: request_loop.induct)
  case (1 P c meth pth bdy attempt lastErr s)
  obtain r s' where d: "doRequest P c meth pth bdy s = (r, s')"
    by (cases "doRequest P c meth pth bdy s")
  have t: "trace s' = trace s @ [Fetch (build_request P c meth pth bdy)]"
    using trace_doRequest[of P c meth pth bdy s] d by simp
  show ?case
  proof (cases r)
    case (Inr v)
    then show ?thesis using 1(2,3) d t
      by (subst request_loop.simps) (auto simp: retry_trace_0 intro!: exI[of _ 0])
  next
    case (Inl err)
    show ?thesis
    proof (cases "attempt < retries c \<and> isRetryable err (status_of err)")
      case False
      then show ?thesis using 1(2,3) d t Inl
        by (subst request_loop.simps) (auto simp: retry_trace_0 intro!: exI[of _ 0])
    next
      case True
      from 1(1)[OF 1(3) d[symmetric] Inl True] 1(2) True
      obtain n where n: "nat (attempt + 1) + n \<le> nat (retries c)"
        and tr: "trace (snd (request_loop P c meth pth bdy (attempt + 1) err (sleep (delay attempt) s')))
           = trace (sleep (delay attempt) s') @ retry_trace (build_request P c meth pth bdy) (nat (attempt + 1)) n"
        by auto
      have na: "nat (attempt + 1) = Suc (nat attempt)" using 1(2) by simp
      have "request_loop P c meth pth bdy attempt lastErr s
            = request_loop P c meth pth bdy (attempt + 1) err (sleep (delay attempt) s')"
        using 1(3) d Inl True by (subst request_loop.simps) simp
      then show ?thesis using n tr t na 1(2)
        by (auto simp: sleep_def retry_trace_Suc intro!: exI[of _ "Suc n"])
    qed
  qed
qed

lemma world_after_Suc: "world_after P rq k (snd (fetch P rq w)) = world_after P rq (Suc k) w"
  unfolding world_after_def by (induction k) simp_all

lemma world_after_0: "world_after P rq 0 w = w"
  by (simp add: world_after_def)

lemma request_loop_exhaust:
  "0 \<le> a \<Longrightarrow> a \<le> retries c \<Longrightarrow> n = nat (retries c - a) \<Longrightarrow> rq = build_request P c m p b \<Longrightarrow>
   \<forall>k\<le>n. \<exists>e. handle_outcome P c (fst (fetch P rq (world_after P rq k (world s)))) = Inl e
              \<and> isRetryable e (status_of e) \<Longrightarrow>
   request_loop P c m p b a le s =
     (handle_outcome P c (fst (fetch P rq (world_after P rq n (world s)))),
      \<lparr>world = world_after P rq (Suc n) (world s), trace = trace s @ retry_trace rq (nat a) n\<rparr>)"
proof (induction n arbitrary: a le s)
  case 0
  then have a: "a = retries c" by simp
  from 0(5) obtain e where e: "handle_outcome P c (fst (fetch P rq (world s))) = Inl e"
    by (auto simp: world_after_0)
  have d: "doRequest P c m p b s = (Inl e, \<lparr>world = snd (fetch P rq (world s)), trace = trace s @ [Fetch rq]\<rparr>)"
    using e 0(4) by (simp add: doRequest_eq)
  show ?case
    using request_loop_stop[OF 0(2) d, of le] a e
    by (simp add: world_after_def retry_trace_0)
next
  case (Suc n)
  then have lt: "a < retries c" by simp
  from Suc(6) obtain e where e: "handle_outcome P c (fst (fetch P rq (world s))) = Inl e"
      and re: "isRetryable e (status_of e)"
    by (force simp: world_after_0)
  let ?s' = "\<lparr>world = snd (fetch P rq (world s)), trace = trace s @ [Fetch rq]\<rparr>"
  have d: "doRequest P c m p b s = (Inl e, ?s')"
    using e Suc(5) by (simp add: doRequest_eq)
  have step: "request_loop P c m p b a le s = request_loop P c m p b (a + 1) e (sleep (delay a) ?s')"
    by (rule request_loop_retry[OF lt d re])
  have w: "world (sleep (delay a) ?s') = snd (fetch P rq (world s))"
    by (simp add: sleep_def)
  have hyp: "\<forall>k\<le>n. \<exists>e. handle_outcome P c (fst (fetch P rq (world_after P rq k (world (sleep (delay a) ?s'))))) = Inl e
              \<and> isRetryable e (status_of e)"
    using Suc(6) by (auto simp: w world_after_Suc)
  have n: "n = nat (retries c - (a + 1))" using Suc(4) by simp
  have "request_loop P c m p b (a + 1) e (sleep (delay a) ?s') =
     (handle_outcome P c (fst (fetch P rq (world_after P rq n (world (sleep (delay a) ?s'))))),
      \<lparr>world = world_after P rq (Suc n) (world (sleep (delay a) ?s')),
       trace = trace (sleep (delay a) ?s') @ retry_trace rq (nat (a + 1)) n\<rparr>)"
    using Suc(1)[OF _ _ n Suc(5) hyp] Suc(2) lt by simp
  moreover have "nat (a + 1) = Suc (nat a)" using Suc(2) by simp
  ultimately show ?case using step Suc(2)
    by (simp add: w world_after_Suc sleep_def retry_trace_Suc)
qed

lemma isRetryable_500: "isRetryable err (Some 500)"
  by (simp add: isRetryable_def)

lemma handle_outcome_500:
  "handle_outcome P c (Resolves \<lparr>resp_status = 500, resp_text = t, resp_content_type = ct\<rparr>) = Inl e
   \<Longrightarrow> status_of e = Some 500"
  by (auto simp: handle_outcome_def ok_def rethrow_def Error_def parseApiError_def Let_def split: sum.splits if_splits)

lemma scenario_500_then_200:
  assumes r: "retries c = 1"
    and f1: "\<forall>rq. fetch P rq (world s) = (Resolves \<lparr>resp_status = 500, resp_text = t, resp_content_type = ct\<rparr>, w1)"
    and f2: "\<forall>rq. fetch P rq w1 = (json_ok body_empty_list, w2)"
    and jp: "JSON_parse P body_empty_list = Inr (JObj [(''data'', JArr [])])"
  shows "fst (listWorkflowsPaginated P c None JUndefined None s) = Inr (JObj [(''data'', JArr [])])
       \<and> length (fetches (trace (snd (listWorkflowsPaginated P c None JUndefined None s)))) = length (fetches (trace s)) + 2"
proof -
  have fa: "fetches (xs @ ys) = fetches xs @ fetches ys" for xs ys
    by (induction xs rule: fetches.induct) auto
  have ne: "body_empty_list \<noteq> []" by (simp add: body_empty_list_def)
  have req: "request P c ''GET'' p None s =
      (Inr (JObj [(''data'', JArr [])]),
       \<lparr>world = w2, trace = trace s @ [Fetch (build_request P c ''GET'' p None), Sleep 1000, Fetch (build_request P c ''GET'' p None)]\<rparr>)" for p
  proof -
    let ?rq = "build_request P c ''GET'' p None"
    obtain e where e: "handle_outcome P c (Resolves \<lparr>resp_status = 500, resp_text = t, resp_content_type = ct\<rparr>) = Inl e"
      by (auto simp: handle_outcome_def ok_def)
    have se: "status_of e = Some 500" by (rule handle_outcome_500[OF e])
    let ?s1 = "\<lparr>world = w1, trace = trace s @ [Fetch ?rq]\<rparr>"
    have d1: "doRequest P c ''GET'' p None s = (Inl e, ?s1)"
      using f1 e by (simp add: doRequest_eq)
    have step1: "request_loop P c ''GET'' p None 0 (NonError JUndefined) s
        = request_loop P c ''GET'' p None (0 + 1) e (sleep (delay 0) ?s1)"
      by (rule request_loop_retry[OF _ d1]) (simp_all add: r se isRetryable_500)
    have h2: "handle_outcome P c (json_ok body_empty_list) = Inr (JObj [(''data'', JArr [])])"
      using jp ne by (simp add: handle_outcome_def json_ok_def ok_def js_includes_def)
    have d2: "doRequest P c ''GET'' p None (sleep (delay 0) ?s1)
       = (Inr (JObj [(''data'', JArr [])]), \<lparr>world = w2, trace = trace s @ [Fetch ?rq, Sleep 1000, Fetch ?rq]\<rparr>)"
      using f2 h2 by (simp add: doRequest_eq sleep_def delay_def)
    show ?thesis
      unfolding request_def step1
      by (rule request_loop_ok[OF _ d2]) (simp add: r)
  qed
  show ?thesis
    by (simp add: listWorkflowsPaginated_def Let_def req coalesce_def fa)
qed

lemma show_nat_500: "show_nat 500 = ''500''" by code_simp
lemma show_nat_404: "show_nat 404 = ''404''" by code_simp

lemma fetches_append: "fetches (xs @ ys) = fetches xs @ fetches ys"
  by (induction xs rule: fetches.induct) auto


lemma fetches_retry_trace: "fetches (retry_trace rq a n) = replicate (Suc n) rq"
  by (induction n arbitrary: a) (simp_all add: retry_trace_0 retry_trace_Suc)

lemma sleeps_retry_trace: "sleeps (retry_trace rq a n) = map (\<lambda>k. delay (int k)) [a..<a + n]"
proof (induction n arbitrary: a)
  case 0
  show ?case by (simp add: retry_trace_0)
next
  case (Suc n)
  have "[a..<a + Suc n] = a # [Suc a..<Suc a + n]" by (simp add: upt_rec[of a])
  then show ?case using Suc[of "Suc a"] by (simp add: retry_trace_Suc)
qed

text \<open>
  Claim C2. With \<open>maxRetries = r \<ge> 0\<close>, one call of \<^verbatim>\<open>request\<close> makes at most \<open>r + 1\<close>
  transport attempts, and after the failed attempt with index \<open>k\<close> it waits exactly
  \<open>min (1000 * 2 ^ k) 10000\<close> milliseconds: the trace of the call is \<open>n \<le> r\<close> pairs of a
  fetch and a wait, then one more fetch. When every attempt fails with a retryable error,
  all \<open>r + 1\<close> attempts are made and the call fails with the error of the last attempt,
  unchanged. With \<open>r = 1\<close>, a first answer of HTTP 500 and a second of HTTP 200 with the
  body \<^verbatim>\<open>{"data":[]}\<close>, the paginated list returns \<^verbatim>\<open>{data: []}\<close>, without a
  \<^verbatim>\<open>nextCursor\<close>, after exactly two attempts.
\<close>

theorem request_retry_backoff:
  assumes "0 \<le> retries c"
  shows
   "(\<exists>n\<le>nat (retries c).
        trace (snd (request P c m p b s)) = trace s @ retry_trace (build_request P c m p b) 0 n
      \<and> fetches (retry_trace (build_request P c m p b) 0 n) = replicate (n + 1) (build_request P c m p b)
      \<and> sleeps (retry_trace (build_request P c m p b) 0 n) = map (\<lambda>k. min (1000 * 2 ^ k) 10000) [0..<n])
    \<and> ((\<forall>k\<le>nat (retries c). \<exists>e.
           handle_outcome P c (fst (fetch P (build_request P c m p b)
             (world_after P (build_request P c m p b) k (world s)))) = Inl e
           \<and> isRetryable e (status_of e))
        \<longrightarrow> request P c m p b s =
             (handle_outcome P c (fst (fetch P (build_request P c m p b)
                (world_after P (build_request P c m p b) (nat (retries c)) (world s)))),
              \<lparr>world = world_after P (build_request P c m p b) (Suc (nat (retries c))) (world s),
               trace = trace s @ retry_trace (build_request P c m p b) 0 (nat (retries c))\<rparr>))
    \<and> (retries c = 1
        \<and> (\<forall>rq. fetch P rq (world s) = (Resolves \<lparr>resp_status = 500, resp_text = t, resp_content_type = ct\<rparr>, w1))
        \<and> (\<forall>rq. fetch P rq w1 = (json_ok body_empty_list, w2))
        \<and> JSON_parse P body_empty_list = Inr (JObj [(''data'', JArr [])])
        \<longrightarrow> fst (listWorkflowsPaginated P c None JUndefined None s) = Inr (JObj [(''data'', JArr [])])
            \<and> get_prop (JObj [(''data'', JArr [])]) ''nextCursor'' = JUndefined
            \<and> length (fetches (trace (snd (listWorkflowsPaginated P c None JUndefined None s))))
                = length (fetches (trace s)) + 2)"
proof (intro conjI impI)
  from request_loop_trace[of 0 c P m p b "NonError JUndefined" s] assms
  obtain n where n: "n \<le> nat (retries c)"
    and t: "trace (snd (request P c m p b s)) = trace s @ retry_trace (build_request P c m p b) 0 n"
    by (auto simp: request_def)
  have "sleeps (retry_trace (build_request P c m p b) 0 n) = map (\<lambda>k. min (1000 * 2 ^ k) 10000) [0..<n]"
    by (simp add: sleeps_retry_trace delay_def)
  with n t show "\<exists>n\<le>nat (retries c).
        trace (snd (request P c m p b s)) = trace s @ retry_trace (build_request P c m p b) 0 n
      \<and> fetches (retry_trace (build_request P c m p b) 0 n) = replicate (n + 1) (build_request P c m p b)
      \<and> sleeps (retry_trace (build_request P c m p b) 0 n) = map (\<lambda>k. min (1000 * 2 ^ k) 10000) [0..<n]"
    by (auto simp: fetches_retry_trace)
next
  assume "\<forall>k\<le>nat (retries c). \<exists>e.
           handle_outcome P c (fst (fetch P (build_request P c m p b)
             (world_after P (build_request P c m p b) k (world s)))) = Inl e
           \<and> isRetryable e (status_of e)"
  then show "request P c m p b s =
             (handle_outcome P c (fst (fetch P (build_request P c m p b)
                (world_after P (build_request P c m p b) (nat (retries c)) (world s)))),
              \<lparr>world = world_after P (build_request P c m p b) (Suc (nat (retries c))) (world s),
               trace = trace s @ retry_trace (build_request P c m p b) 0 (nat (retries c))\<rparr>)"
    using request_loop_exhaust[of 0 c "nat (retries c)" "build_request P c m p b" P m p b s "NonError JUndefined"] assms
    by (simp add: request_def)
next
  assume h: "retries c = 1
        \<and> (\<forall>rq. fetch P rq (world s) = (Resolves \<lparr>resp_status = 500, resp_text = t, resp_content_type = ct\<rparr>, w1))
        \<and> (\<forall>rq. fetch P rq w1 = (json_ok body_empty_list, w2))
        \<and> JSON_parse P body_empty_list = Inr (JObj [(''data'', JArr [])])"
  then show "fst (listWorkflowsPaginated P c None JUndefined None s) = Inr (JObj [(''data'', JArr [])])"
    and "length (fetches (trace (snd (listWorkflowsPaginated P c None JUndefined None s))))
                = length (fetches (trace s)) + 2"
    using scenario_500_then_200[of c P s t ct w1 w2] by simp_all
  show "get_prop (JObj [(''data'', JArr [])]) ''nextCursor'' = JUndefined" by simp
qed

lemma test_client_retries [simp]: "retries (test_client pid r) = r"
  by (simp add: test_client_def N8nClient_def)

lemma test_client_projectId [simp]: "projectId (test_client pid r) = pid"
  by (simp add: test_client_def N8nClient_def)

lemma scripted_fetch_Cons: "fetch (scripted tbl) rq (out # rest) = (out, rest)"
  by (simp add: scripted_def)

lemma scripted_fetch_Nil: "fetch (scripted tbl) rq [] = (Rejects (Error ''no response scripted''), [])"
  by (simp add: scripted_def)

lemma scripted_parse: "JSON_parse (scripted tbl) = parse_table tbl"
  by (simp add: scripted_def)

text \<open>
  The statement of C2 at scripted transports: the scenario of the claim, and three retryable
  failures in a row with \<open>r = 2\<close>.
\<close>

theorem request_retry_backoff_witness:
  "0 \<le> retries (test_client None 1)
   \<and> fst (listWorkflowsPaginated (scripted [(body_empty_list, JObj [(''data'', JArr [])])]) (test_client None 1)
        None JUndefined None
        \<lparr>world = [http_error 500 ''Internal error'', json_ok body_empty_list], trace = []\<rparr>)
      = Inr (JObj [(''data'', JArr [])])
   \<and> length (fetches (trace (snd (listWorkflowsPaginated (scripted [(body_empty_list, JObj [(''data'', JArr [])])])
        (test_client None 1) None JUndefined None
        \<lparr>world = [http_error 500 ''Internal error'', json_ok body_empty_list], trace = []\<rparr>)))) = 2
   \<and> fst (request (scripted []) (test_client None 2) ''GET'' ''workflows'' None
        \<lparr>world = [http_error 500 ''a'', http_error 503 ''b'', http_error 429 ''c''], trace = []\<rparr>)
      = Inl (ErrorObj ((Error ''n8n API error 429: c'')\<lparr>err_status := Some 429\<rparr>))
   \<and> sleeps (trace (snd (request (scripted []) (test_client None 2) ''GET'' ''workflows'' None
        \<lparr>world = [http_error 500 ''a'', http_error 503 ''b'', http_error 429 ''c''], trace = []\<rparr>)))
      = [1000, 2000]"
proof -
  let ?P = "scripted [(body_empty_list, JObj [(''data'', JArr [])])]"
  let ?s = "\<lparr>world = [http_error 500 ''Internal error'', json_ok body_empty_list], trace = []\<rparr>"
  have h0: "0 \<le> retries (test_client None 1)" by simp
  have h3: "retries (test_client None 1) = 1
        \<and> (\<forall>rq. fetch ?P rq (world ?s) = (Resolves \<lparr>resp_status = 500, resp_text = ''Internal error'',
              resp_content_type = Some ''application/json''\<rparr>, [json_ok body_empty_list]))
        \<and> (\<forall>rq. fetch ?P rq [json_ok body_empty_list] = (json_ok body_empty_list, []))
        \<and> JSON_parse ?P body_empty_list = Inr (JObj [(''data'', JArr [])])"
    by (simp add: scripted_fetch_Cons scripted_parse parse_table_def http_error_def)
  note A = request_retry_backoff[OF h0, of ?P "''GET''" "''workflows''" None ?s
      "''Internal error''" "Some ''application/json''" "[json_ok body_empty_list]" "[]",
      THEN conjunct2, THEN conjunct2, THEN mp, OF h3]
  let ?Q = "scripted [] :: fetch_outcome list platform"
  let ?c = "test_client None 2"
  let ?t = "\<lparr>world = [http_error 500 ''a'', http_error 503 ''b'', http_error 429 ''c''], trace = []\<rparr>"
  let ?rq = "build_request ?Q ?c ''GET'' ''workflows'' None"
  have k0 [simp]: "retries ?c = 2" by simp
  have sn: "show_nat 500 = ''500''" "show_nat 503 = ''503''" "show_nat 429 = ''429''" by code_simp+
  have wa: "world_after ?Q ?rq 0 (world ?t) = [http_error 500 ''a'', http_error 503 ''b'', http_error 429 ''c'']"
    "world_after ?Q ?rq (Suc 0) (world ?t) = [http_error 503 ''b'', http_error 429 ''c'']"
    "world_after ?Q ?rq 2 (world ?t) = [http_error 429 ''c'']"
    "world_after ?Q ?rq 3 (world ?t) = []"
    by (simp_all add: world_after_def scripted_fetch_Cons numeral_2_eq_2 numeral_3_eq_3)
  have ho: "handle_outcome ?Q ?c (http_error n x) = Inl (ErrorObj ((Error (''n8n API error '' @ show_nat n @ '': '' @ x))\<lparr>err_status := Some n\<rparr>))"
    if "n \<ge> 300" for n x
    using that by (simp add: handle_outcome_def http_error_def ok_def parseApiError_def scripted_parse
        parse_table_def rethrow_def Error_def)
  have h2: "\<forall>k\<le>nat (retries ?c). \<exists>e.
           handle_outcome ?Q ?c (fst (fetch ?Q ?rq (world_after ?Q ?rq k (world ?t)))) = Inl e
           \<and> isRetryable e (status_of e)"
  proof (intro allI impI)
    fix k assume "k \<le> nat (retries ?c)"
    then have "k = 0 \<or> k = Suc 0 \<or> k = 2" by auto
    then show "\<exists>e. handle_outcome ?Q ?c (fst (fetch ?Q ?rq (world_after ?Q ?rq k (world ?t)))) = Inl e
           \<and> isRetryable e (status_of e)"
      using wa by (auto simp: scripted_fetch_Cons ho isRetryable_def Error_def)
  qed
  have h0': "0 \<le> retries ?c" by simp
  note B = request_retry_backoff[OF h0', of ?Q "''GET''" "''workflows''" None ?t,
      THEN conjunct2, THEN conjunct1, THEN mp, OF h2]
  have B1: "fst (request ?Q ?c ''GET'' ''workflows'' None ?t)
      = Inl (ErrorObj ((Error ''n8n API error 429: c'')\<lparr>err_status := Some 429\<rparr>))"
    unfolding B using wa by (simp add: scripted_fetch_Cons ho sn numeral_2_eq_2)
  have B2: "sleeps (trace (snd (request ?Q ?c ''GET'' ''workflows'' None ?t))) = [1000, 2000]"
    unfolding B by (simp add: numeral_2_eq_2 retry_trace_Suc retry_trace_0 delay_def)
  show ?thesis using h0 A B1 B2 by simp
qed

lemma retry_trace_starts: "\<exists>evs. retry_trace rq a n = Fetch rq # evs"
  by (cases n) (simp_all add: retry_trace_0 retry_trace_Suc)

lemma isRetryable_iff:
  "isRetryable err st \<longleftrightarrow>
     st = Some 429 \<or> (\<exists>n. st = Some n \<and> 500 \<le> n \<and> n < 600) \<or> has_retry_signature (String_of err)"
  by (cases st) (auto simp: isRetryable_def has_retry_signature_def Let_def)

lemma js_includes_Nil: "js_includes [] sub \<longleftrightarrow> sub = []"
  by (simp add: js_includes_def)

lemma js_includes_Cons: "js_includes (x # xs) sub \<longleftrightarrow> prefix sub (x # xs) \<or> js_includes xs sub"
  by (simp add: js_includes_def sublist_Cons_right)

lemmas js_includes_eval = js_includes_Nil js_includes_Cons

lemma String_of_Error: "String_of (ErrorObj (Error msg)) = (if msg = [] then ''Error'' else ''Error: '' @ msg)"
  by (simp add: Error_def Error_toString_def)

lemma Error_toString_Error: "Error_toString (Error msg) = (if msg = [] then ''Error'' else ''Error: '' @ msg)"
  by (simp add: Error_def Error_toString_def)

lemma Error_sel [simp]:
  "err_name (Error msg) = ''Error''" "err_message (Error msg) = msg"
  "err_status (Error msg) = None" "err_cause (Error msg) = None"
  by (simp_all add: Error_def)

lemma rethrow_Error: "rethrow c (Error msg) = Error msg"
  by (simp add: rethrow_def Error_def)

lemma Error_toString_status [simp]: "Error_toString (e\<lparr>err_status := x\<rparr>) = Error_toString e"
  by (simp add: Error_toString_def)

lemma handle_http_error_scripted:
  "\<not> (200 \<le> n \<and> n \<le> 299) \<Longrightarrow> map_of tbl x = None \<Longrightarrow>
   handle_outcome (scripted tbl) c (http_error n x)
     = Inl (ErrorObj ((Error (''n8n API error '' @ show_nat n @ '': '' @ x))\<lparr>err_status := Some n\<rparr>))"
  by (simp add: handle_outcome_def http_error_def ok_def parseApiError_def scripted_parse
        parse_table_def rethrow_def Error_def)







lemma test_bodies_parse:
  "parse_table test_bodies body_message = Inr (JObj [(''message'', JStr ''bad key'')])"
  "parse_table test_bodies body_nested = Inr (JObj [(''error'', JObj [(''message'', JStr ''no such workflow'')])])"
  "parse_table test_bodies body_empty_list = Inr (JObj [(''data'', JArr [])])"
  "parse_table test_bodies ''{}'' = Inr (JObj [])"
  "parse_table test_bodies ''Bad Gateway'' = Inl SyntaxError"
  by (simp_all add: parse_table_def test_bodies_def body_message_def body_nested_def body_empty_list_def dquote_def)

lemma body_empty_list_nonempty: "body_empty_list \<noteq> []"
  by (simp add: body_empty_list_def)


lemma request_scripted_ok:
  "0 \<le> retries c \<Longrightarrow> handle_outcome (scripted tbl) c out = Inr v \<Longrightarrow>
   request (scripted tbl) c m p b \<lparr>world = out # rest, trace = t\<rparr>
     = (Inr v, \<lparr>world = rest, trace = t @ [Fetch (build_request (scripted tbl) c m p b)]\<rparr>)"
  unfolding request_def
  by (rule request_loop_ok) (simp_all add: doRequest_eq scripted_fetch_Cons)

lemma request_scripted_stop:
  "0 \<le> retries c \<Longrightarrow> handle_outcome (scripted tbl) c out = Inl e \<Longrightarrow> \<not> isRetryable e (status_of e) \<Longrightarrow>
   request (scripted tbl) c m p b \<lparr>world = out # rest, trace = t\<rparr>
     = (Inl e, \<lparr>world = rest, trace = t @ [Fetch (build_request (scripted tbl) c m p b)]\<rparr>)"
  unfolding request_def
  by (rule request_loop_stop) (simp_all add: doRequest_eq scripted_fetch_Cons)

lemma request_scripted_last:
  "retries c = 0 \<Longrightarrow> handle_outcome (scripted tbl) c out = Inl e \<Longrightarrow>
   request (scripted tbl) c m p b \<lparr>world = out # rest, trace = t\<rparr>
     = (Inl e, \<lparr>world = rest, trace = t @ [Fetch (build_request (scripted tbl) c m p b)]\<rparr>)"
  unfolding request_def
  by (rule request_loop_stop) (simp_all add: doRequest_eq scripted_fetch_Cons)

lemma handle_json_ok:
  "text \<noteq> [] \<Longrightarrow> JSON_parse P text = Inr v \<Longrightarrow> handle_outcome P c (json_ok text) = Inr v"
  by (simp add: handle_outcome_def json_ok_def ok_def js_includes_def)

lemma handle_Rejects_Error: "handle_outcome P c (Rejects (Error msg)) = Inl (ErrorObj (Error msg))"
  by (simp add: handle_outcome_def rethrow_Error)

text \<open>
  Claim C10. \<^verbatim>\<open>ping\<close> returns a boolean for every profile and every transport: it makes the
  one call \<^verbatim>\<open>listWorkflowsPaginated()\<close>, and is true exactly when that call returns and false
  when it throws, whatever it throws.
\<close>

theorem ping_total:
  "ping P c s =
     (\<not> isl (fst (listWorkflowsPaginated P c None JUndefined None s)),
      snd (listWorkflowsPaginated P c None JUndefined None s))"
  by (cases "listWorkflowsPaginated P c None JUndefined None s")
     (auto simp: ping_def split: sum.splits)

text \<open>C10 at two scripted transports: one good page, and a failed fetch with no retries.\<close>

theorem ping_total_witness:
  "ping (scripted test_bodies) (test_client None 3) \<lparr>world = [json_ok body_empty_list], trace = []\<rparr>
     = (True, \<lparr>world = [],
          trace = [Fetch (build_request (scripted test_bodies) (test_client None 3) ''GET'' ''workflows'' None)]\<rparr>)
   \<and> ping (scripted test_bodies) (test_client None 0) \<lparr>world = [Rejects (Error ''fetch failed'')], trace = []\<rparr>
     = (False, \<lparr>world = [],
          trace = [Fetch (build_request (scripted test_bodies) (test_client None 0) ''GET'' ''workflows'' None)]\<rparr>)"
proof -
  have h: "handle_outcome (scripted test_bodies) (test_client None 3) (json_ok body_empty_list)
      = Inr (JObj [(''data'', JArr [])])"
    by (rule handle_json_ok) (simp_all add: body_empty_list_nonempty scripted_parse test_bodies_parse)
  have l1: "listWorkflowsPaginated (scripted test_bodies) (test_client None 3) None JUndefined None
       \<lparr>world = [json_ok body_empty_list], trace = []\<rparr>
     = (Inr (JObj [(''data'', JArr [])]), \<lparr>world = [],
          trace = [Fetch (build_request (scripted test_bodies) (test_client None 3) ''GET'' ''workflows'' None)]\<rparr>)"
    by (simp add: listWorkflowsPaginated_def query_string_def request_scripted_ok[OF _ h] coalesce_def)
  have l2: "listWorkflowsPaginated (scripted test_bodies) (test_client None 0) None JUndefined None
       \<lparr>world = [Rejects (Error ''fetch failed'')], trace = []\<rparr>
     = (Inl (ErrorObj (Error ''fetch failed'')), \<lparr>world = [],
          trace = [Fetch (build_request (scripted test_bodies) (test_client None 0) ''GET'' ''workflows'' None)]\<rparr>)"
    by (simp add: listWorkflowsPaginated_def query_string_def
        request_scripted_last[OF _ handle_Rejects_Error])
  show ?thesis
    using ping_total[of "scripted test_bodies" "test_client None 3" "\<lparr>world = [json_ok body_empty_list], trace = []\<rparr>"]
      ping_total[of "scripted test_bodies" "test_client None 0" "\<lparr>world = [Rejects (Error ''fetch failed'')], trace = []\<rparr>"]
    by (simp add: l1 l2)
qed

lemma js_includes_appendI1: "js_includes s x \<Longrightarrow> js_includes (s @ t) x"
  by (auto simp: js_includes_def sublist_def) (metis append.assoc)

lemma extractId_cases:
  "(\<not> nullish (get_prop (get_prop res ''data'') ''executionId'')
      \<longrightarrow> extractId res = get_prop (get_prop res ''data'') ''executionId'')
   \<and> (nullish (get_prop (get_prop res ''data'') ''executionId'') \<and> \<not> nullish (get_prop (get_prop res ''data'') ''id'')
      \<longrightarrow> extractId res = get_prop (get_prop res ''data'') ''id'')
   \<and> (nullish (get_prop (get_prop res ''data'') ''executionId'') \<and> nullish (get_prop (get_prop res ''data'') ''id'')
        \<and> \<not> nullish (get_prop res ''id'')
      \<longrightarrow> extractId res = get_prop res ''id'')
   \<and> (nullish (get_prop (get_prop res ''data'') ''executionId'') \<and> nullish (get_prop (get_prop res ''data'') ''id'')
        \<and> nullish (get_prop res ''id'')
      \<longrightarrow> extractId res = JStr [])"
  by (simp add: extractId_def coalesce_def)

lemma no_execution_id_mentions: "js_includes (String_of (no_execution_id c)) ''no execution ID''"
proof -
  have "js_includes ''Error: Workflow run returned no execution ID'' ''no execution ID''"
    by (simp add: js_includes_eval)
  then have "js_includes (''Error: Workflow run returned no execution ID'' @ ''. Check '' @ baseUrl c
       @ ''/api/v1/docs for the correct endpoint.'') ''no execution ID''"
    by (rule js_includes_appendI1)
  then show ?thesis
    by (simp add: no_execution_id_def Error_toString_Error)
qed

text \<open>
  Claim C5. \<^verbatim>\<open>runWorkflow\<close> first posts to \<^verbatim>\<open>workflows/{id}/run\<close>. When that request throws,
  whatever the error, it posts \<^verbatim>\<open>{workflowId, ...body}\<close> to \<^verbatim>\<open>executions\<close>. The identifier is
  the first of \<^verbatim>\<open>data.executionId\<close>, \<^verbatim>\<open>data.id\<close>, \<^verbatim>\<open>id\<close> that is neither undefined nor null.
  A response without a usable identifier ends the call with an error whose text contains
  ``no execution ID'', and no further request is made; when the primary request throws and
  the secondary answers \<^verbatim>\<open>{"data":{"id":"exec-2"}}\<close>, the result is
  \<^verbatim>\<open>{executionId: "exec-2"}\<close>.
\<close>

theorem runWorkflow_fallback:
  fixes P :: "'w platform"
  defines "body \<equiv> (\<lambda>data. JObj (if truthy data then [(''data'', data)] else []))"
    and "execBody \<equiv> (\<lambda>wid data. JObj ((''workflowId'', JStr wid) # (if truthy data then [(''data'', data)] else [])))"
  shows
   "(request P c ''POST'' (''workflows/'' @ wid @ ''/run'') (Some (body data)) s = (Inr res, s1)
       \<longrightarrow> runWorkflow P c wid data s =
            (if truthy (extractId res) then Inr (JObj [(''executionId'', extractId res)])
             else Inl (no_execution_id c), s1))
    \<and> (request P c ''POST'' (''workflows/'' @ wid @ ''/run'') (Some (body data)) s = (Inl err, s1)
        \<and> request P c ''POST'' ''executions'' (Some (execBody wid data)) s1 = (Inr res, s2)
       \<longrightarrow> runWorkflow P c wid data s =
            (if truthy (extractId res) then Inr (JObj [(''executionId'', extractId res)])
             else Inl (no_execution_id c), s2))
    \<and> (request P c ''POST'' (''workflows/'' @ wid @ ''/run'') (Some (body data)) s = (Inl err, s1)
        \<and> request P c ''POST'' ''executions'' (Some (execBody wid data)) s1 = (Inl err2, s2)
       \<longrightarrow> runWorkflow P c wid data s = (Inl err2, s2))
    \<and> (\<not> nullish (get_prop (get_prop res ''data'') ''executionId'')
       \<longrightarrow> extractId res = get_prop (get_prop res ''data'') ''executionId'')
    \<and> (nullish (get_prop (get_prop res ''data'') ''executionId'') \<and> \<not> nullish (get_prop (get_prop res ''data'') ''id'')
       \<longrightarrow> extractId res = get_prop (get_prop res ''data'') ''id'')
    \<and> (nullish (get_prop (get_prop res ''data'') ''executionId'') \<and> nullish (get_prop (get_prop res ''data'') ''id'')
         \<and> \<not> nullish (get_prop res ''id'')
       \<longrightarrow> extractId res = get_prop res ''id'')
    \<and> (nullish (get_prop (get_prop res ''data'') ''executionId'') \<and> nullish (get_prop (get_prop res ''data'') ''id'')
         \<and> nullish (get_prop res ''id'')
       \<longrightarrow> \<not> truthy (extractId res))
    \<and> js_includes (String_of (no_execution_id c)) ''no execution ID''
    \<and> (request P c ''POST'' (''workflows/'' @ wid @ ''/run'') (Some (body data)) s = (Inl err, s1)
        \<and> request P c ''POST'' ''executions'' (Some (execBody wid data)) s1
            = (Inr (JObj [(''data'', JObj [(''id'', JStr ''exec-2'')])]), s2)
       \<longrightarrow> runWorkflow P c wid data s = (Inr (JObj [(''executionId'', JStr ''exec-2'')]), s2))"
proof -
  have eb: "execBody wid data = (if truthy data then JObj [(''workflowId'', JStr wid), (''data'', data)]
                      else JObj [(''workflowId'', JStr wid)])"
    by (simp add: execBody_def)
  have bd: "body data = (if truthy data then JObj [(''data'', data)] else JObj [])"
    by (simp add: body_def)
  have A: "request P c ''POST'' (''workflows/'' @ wid @ ''/run'') (Some (body data)) s = (Inr res, s1)
       \<longrightarrow> runWorkflow P c wid data s =
            (if truthy (extractId res) then Inr (JObj [(''executionId'', extractId res)])
             else Inl (no_execution_id c), s1)"
    unfolding bd by (simp add: runWorkflow_def Let_def)
  have B: "request P c ''POST'' (''workflows/'' @ wid @ ''/run'') (Some (body data)) s = (Inl err, s1)
        \<and> request P c ''POST'' ''executions'' (Some (execBody wid data)) s1 = (Inr res, s2)
       \<longrightarrow> runWorkflow P c wid data s =
            (if truthy (extractId res) then Inr (JObj [(''executionId'', extractId res)])
             else Inl (no_execution_id c), s2)" for res
    unfolding bd eb by (simp add: runWorkflow_def Let_def)
  have C: "request P c ''POST'' (''workflows/'' @ wid @ ''/run'') (Some (body data)) s = (Inl err, s1)
        \<and> request P c ''POST'' ''executions'' (Some (execBody wid data)) s1 = (Inl err2, s2)
       \<longrightarrow> runWorkflow P c wid data s = (Inl err2, s2)"
    unfolding bd eb by (simp add: runWorkflow_def Let_def)
  have D: "request P c ''POST'' (''workflows/'' @ wid @ ''/run'') (Some (body data)) s = (Inl err, s1)
        \<and> request P c ''POST'' ''executions'' (Some (execBody wid data)) s1
            = (Inr (JObj [(''data'', JObj [(''id'', JStr ''exec-2'')])]), s2)
       \<longrightarrow> runWorkflow P c wid data s = (Inr (JObj [(''executionId'', JStr ''exec-2'')]), s2)"
    using B[of "JObj [(''data'', JObj [(''id'', JStr ''exec-2'')])]"]
    by (simp add: extractId_def coalesce_def)
  have E: "nullish (get_prop (get_prop res ''data'') ''executionId'') \<and> nullish (get_prop (get_prop res ''data'') ''id'')
         \<and> nullish (get_prop res ''id'')
       \<longrightarrow> \<not> truthy (extractId res)"
    by (simp add: extractId_def coalesce_def)
  show ?thesis
    using A B[of res] C D E extractId_cases[of res] no_execution_id_mentions[of c]
    by blast
qed

lemma run_bodies_parse:
  "parse_table run_bodies body_exec2 = Inr (JObj [(''data'', JObj [(''id'', JStr ''exec-2'')])])"
  "parse_table run_bodies ''{}'' = Inr (JObj [])"
  by (simp_all add: parse_table_def run_bodies_def body_exec2_def dquote_def)

lemma not_retryable_Error_404: "\<not> isRetryable (ErrorObj (Error ''404'')) (status_of (ErrorObj (Error ''404'')))"
  by (simp add: isRetryable_iff has_retry_signature_def Error_toString_Error js_includes_eval)

lemma not_retryable_Error_500: "\<not> isRetryable (ErrorObj (Error ''500'')) (status_of (ErrorObj (Error ''500'')))"
  by (simp add: isRetryable_iff has_retry_signature_def Error_toString_Error js_includes_eval)

text \<open>
  C5 at scripted transports: the scenario of the claim; a primary failure followed by an
  answer without identifier; a primary answer without identifier; two failures; and the
  three places an identifier is taken from.
\<close>

theorem runWorkflow_fallback_witness:
  "runWorkflow (scripted run_bodies) (test_client None 3) ''w1'' JUndefined
      \<lparr>world = [Rejects (Error ''404''), json_ok body_exec2], trace = []\<rparr>
     = (Inr (JObj [(''executionId'', JStr ''exec-2'')]),
        \<lparr>world = [],
         trace = [Fetch (build_request (scripted run_bodies) (test_client None 3) ''POST'' ''workflows/w1/run'' (Some (JObj []))),
                  Fetch (build_request (scripted run_bodies) (test_client None 3) ''POST'' ''executions''
                    (Some (JObj [(''workflowId'', JStr ''w1'')])))]\<rparr>)
   \<and> fst (runWorkflow (scripted run_bodies) (test_client None 3) ''w1'' JUndefined
      \<lparr>world = [Rejects (Error ''404''), json_ok ''{}'', json_ok body_exec2], trace = []\<rparr>)
     = Inl (no_execution_id (test_client None 3))
   \<and> world (snd (runWorkflow (scripted run_bodies) (test_client None 3) ''w1'' JUndefined
      \<lparr>world = [Rejects (Error ''404''), json_ok ''{}'', json_ok body_exec2], trace = []\<rparr>))
     = [json_ok body_exec2]
   \<and> runWorkflow (scripted run_bodies) (test_client None 3) ''w1'' JUndefined
      \<lparr>world = [json_ok ''{}'', json_ok ''{}''], trace = []\<rparr>
     = (Inl (no_execution_id (test_client None 3)),
        \<lparr>world = [json_ok ''{}''],
         trace = [Fetch (build_request (scripted run_bodies) (test_client None 3) ''POST'' ''workflows/w1/run'' (Some (JObj [])))]\<rparr>)
   \<and> fst (runWorkflow (scripted run_bodies) (test_client None 3) ''w1'' JUndefined
      \<lparr>world = [Rejects (Error ''404''), Rejects (Error ''500'')], trace = []\<rparr>)
     = Inl (ErrorObj (Error ''500''))
   \<and> extractId (JObj [(''data'', JObj [(''executionId'', JStr ''a''), (''id'', JStr ''b'')]), (''id'', JStr ''c'')]) = JStr ''a''
   \<and> extractId (JObj [(''data'', JObj [(''id'', JStr ''b'')]), (''id'', JStr ''c'')]) = JStr ''b''
   \<and> extractId (JObj [(''id'', JStr ''c'')]) = JStr ''c''
   \<and> \<not> truthy (extractId (JObj []))"
proof -
  let ?P = "scripted run_bodies"
  let ?c = "test_client None 3"
  let ?rq1 = "build_request ?P ?c ''POST'' ''workflows/w1/run'' (Some (JObj []))"
  let ?rq2 = "build_request ?P ?c ''POST'' ''executions'' (Some (JObj [(''workflowId'', JStr ''w1'')]))"
  have r0: "0 \<le> retries ?c" by simp
  have hx: "handle_outcome ?P ?c (json_ok body_exec2) = Inr (JObj [(''data'', JObj [(''id'', JStr ''exec-2'')])])"
    by (rule handle_json_ok) (simp add: body_exec2_def, simp add: scripted_parse run_bodies_parse)
  have he: "handle_outcome ?P ?c (json_ok ''{}'') = Inr (JObj [])"
    by (rule handle_json_ok) (simp_all add: scripted_parse run_bodies_parse)
  note fail404 = request_scripted_stop[OF r0 handle_Rejects_Error not_retryable_Error_404]
  note fail500 = request_scripted_stop[OF r0 handle_Rejects_Error not_retryable_Error_500]
  \<comment> \<open>the scenario\<close>
  have p1: "request ?P ?c ''POST'' (''workflows/'' @ ''w1'' @ ''/run'')
        (Some (JObj (if truthy JUndefined then [(''data'', JUndefined)] else [])))
        \<lparr>world = [Rejects (Error ''404''), json_ok body_exec2], trace = []\<rparr>
      = (Inl (ErrorObj (Error ''404'')), \<lparr>world = [json_ok body_exec2], trace = [Fetch ?rq1]\<rparr>)
     \<and> request ?P ?c ''POST'' ''executions''
        (Some (JObj ((''workflowId'', JStr ''w1'') # (if truthy JUndefined then [(''data'', JUndefined)] else []))))
        \<lparr>world = [json_ok body_exec2], trace = [Fetch ?rq1]\<rparr>
      = (Inr (JObj [(''data'', JObj [(''id'', JStr ''exec-2'')])]), \<lparr>world = [], trace = [Fetch ?rq1, Fetch ?rq2]\<rparr>)"
    by (simp add: fail404 request_scripted_ok[OF r0 hx])
  note T = runWorkflow_fallback[where P = ?P and c = ?c and wid = "''w1''" and data = JUndefined]
  note T2 = T[THEN conjunct2]
  note T3 = T2[THEN conjunct2]
  note T4 = T3[THEN conjunct2]
  note T5 = T4[THEN conjunct2]
  note T6 = T5[THEN conjunct2]
  note T7 = T6[THEN conjunct2]
  note T8 = T7[THEN conjunct2]
  note w1 = T8[THEN conjunct2, THEN mp, OF p1]
  \<comment> \<open>primary throws, secondary answers without identifier\<close>
  have p2: "request ?P ?c ''POST'' (''workflows/'' @ ''w1'' @ ''/run'')
        (Some (JObj (if truthy JUndefined then [(''data'', JUndefined)] else [])))
        \<lparr>world = [Rejects (Error ''404''), json_ok ''{}'', json_ok body_exec2], trace = []\<rparr>
      = (Inl (ErrorObj (Error ''404'')), \<lparr>world = [json_ok ''{}'', json_ok body_exec2], trace = [Fetch ?rq1]\<rparr>)
     \<and> request ?P ?c ''POST'' ''executions''
        (Some (JObj ((''workflowId'', JStr ''w1'') # (if truthy JUndefined then [(''data'', JUndefined)] else []))))
        \<lparr>world = [json_ok ''{}'', json_ok body_exec2], trace = [Fetch ?rq1]\<rparr>
      = (Inr (JObj []), \<lparr>world = [json_ok body_exec2], trace = [Fetch ?rq1, Fetch ?rq2]\<rparr>)"
    by (simp add: fail404 request_scripted_ok[OF r0 he])
  note w2 = T2[THEN conjunct1, THEN mp, OF p2]
  \<comment> \<open>primary answers without identifier\<close>
  have p3: "request ?P ?c ''POST'' (''workflows/'' @ ''w1'' @ ''/run'')
        (Some (JObj (if truthy JUndefined then [(''data'', JUndefined)] else [])))
        \<lparr>world = [json_ok ''{}'', json_ok ''{}''], trace = []\<rparr>
      = (Inr (JObj []), \<lparr>world = [json_ok ''{}''], trace = [Fetch ?rq1]\<rparr>)"
    by (simp add: request_scripted_ok[OF r0 he])
  note w3 = T[THEN conjunct1, THEN mp, OF p3]
  \<comment> \<open>both throw\<close>
  have p4: "request ?P ?c ''POST'' (''workflows/'' @ ''w1'' @ ''/run'')
        (Some (JObj (if truthy JUndefined then [(''data'', JUndefined)] else [])))
        \<lparr>world = [Rejects (Error ''404''), Rejects (Error ''500'')], trace = []\<rparr>
      = (Inl (ErrorObj (Error ''404'')), \<lparr>world = [Rejects (Error ''500'')], trace = [Fetch ?rq1]\<rparr>)
     \<and> request ?P ?c ''POST'' ''executions''
        (Some (JObj ((''workflowId'', JStr ''w1'') # (if truthy JUndefined then [(''data'', JUndefined)] else []))))
        \<lparr>world = [Rejects (Error ''500'')], trace = [Fetch ?rq1]\<rparr>
      = (Inl (ErrorObj (Error ''500'')), \<lparr>world = [], trace = [Fetch ?rq1, Fetch ?rq2]\<rparr>)"
    by (simp add: fail404 fail500)
  note w4 = T3[THEN conjunct1, THEN mp, OF p4]
  \<comment> \<open>the order of extraction\<close>
  let ?a = "JObj [(''data'', JObj [(''executionId'', JStr ''a''), (''id'', JStr ''b'')]), (''id'', JStr ''c'')]"
  let ?b = "JObj [(''data'', JObj [(''id'', JStr ''b'')]), (''id'', JStr ''c'')]"
  let ?d = "JObj [(''id'', JStr ''c'')]"
  have e1: "\<not> nullish (get_prop (get_prop ?a ''data'') ''executionId'')" by simp
  have e2: "nullish (get_prop (get_prop ?b ''data'') ''executionId'') \<and> \<not> nullish (get_prop (get_prop ?b ''data'') ''id'')"
    by simp
  have e3: "nullish (get_prop (get_prop ?d ''data'') ''executionId'') \<and> nullish (get_prop (get_prop ?d ''data'') ''id'')
         \<and> \<not> nullish (get_prop ?d ''id'')" by simp
  have e4: "nullish (get_prop (get_prop (JObj []) ''data'') ''executionId'')
         \<and> nullish (get_prop (get_prop (JObj []) ''data'') ''id'') \<and> nullish (get_prop (JObj []) ''id'')" by simp
  note x1 = runWorkflow_fallback[where P = ?P and res = ?a, THEN conjunct2, THEN conjunct2, THEN conjunct2,
      THEN conjunct1, THEN mp, OF e1]
  note x2 = runWorkflow_fallback[where P = ?P and res = ?b, THEN conjunct2, THEN conjunct2, THEN conjunct2,
      THEN conjunct2, THEN conjunct1, THEN mp, OF e2]
  note x3 = runWorkflow_fallback[where P = ?P and res = ?d, THEN conjunct2, THEN conjunct2, THEN conjunct2,
      THEN conjunct2, THEN conjunct2, THEN conjunct1, THEN mp, OF e3]
  note x4 = runWorkflow_fallback[where P = ?P and res = "JObj []", THEN conjunct2, THEN conjunct2, THEN conjunct2,
      THEN conjunct2, THEN conjunct2, THEN conjunct2, THEN conjunct1, THEN mp, OF e4]
  show ?thesis using w1 w2 w3 w4 x1 x2 x3 x4 by simp
qed

lemma listWorkflowsAll_loop_pages:
  "listWorkflowsAll_loop fuel P c active name all cursor s
     = pages_loop fuel (\<lambda>cur. listWorkflowsPaginated P c active cur name) all cursor s"
  by (induction fuel arbitrary: all cursor s) (simp_all add: Let_def split: prod.splits sum.splits)

lemma listExecutionsAll_loop_pages:
  "listExecutionsAll_loop fuel P c workflowId status all cursor s
     = pages_loop fuel (\<lambda>cur. listExecutionsPaginated P c workflowId cur status) all cursor s"
  by (induction fuel arbitrary: all cursor s) (simp_all add: Let_def split: prod.splits sum.splits)

lemma spread_items: "has_items pg \<Longrightarrow> spread (coalesce (get_prop pg ''data'') (JArr [])) = Inr (page_items pg)"
  by (cases "coalesce (get_prop pg ''data'') (JArr [])") (simp_all add: has_items_def page_items_def)

lemma pages_loop_step:
  "f cursor s = (Inr pg, s1) \<Longrightarrow> has_items pg \<Longrightarrow>
   pages_loop (Suc fuel) f all cursor s =
     (if truthy (next_token pg) then pages_loop fuel f (all @ page_items pg) (next_token pg) s1
      else (Some (Inr (all @ page_items pg)), s1))"
  by (simp add: spread_items next_token_def Let_def)

lemma pages_loop_run:
  "page_run f cursor s pgs s' \<Longrightarrow> \<forall>pg\<in>set pgs. has_items pg \<Longrightarrow> length pgs \<le> fuel \<Longrightarrow>
   pages_loop fuel f all cursor s = (Some (Inr (all @ concat (map page_items pgs))), s')"
proof (induction f cursor s pgs s' arbitrary: fuel all rule: page_run.induct)
  case (1 f cursor s s')
  then show ?case by simp
next
  case (2 f cursor s pg s')
  then obtain n where n: "fuel = Suc n" by (cases fuel) auto
  from 2 have f: "f cursor s = (Inr pg, s')" and h: "has_items pg" and t: "\<not> truthy (next_token pg)"
    by simp_all
  show ?case unfolding n pages_loop_step[of f cursor s pg s', OF f h] using t by simp
next
  case (3 f cursor s pg pg' pgs s')
  then obtain n where n: "fuel = Suc n" by (cases fuel) auto
  from 3(2) have f: "f cursor s = (Inr pg, snd (f cursor s))" and t: "truthy (next_token pg)"
    and r: "page_run f (next_token pg) (snd (f cursor s)) (pg' # pgs) s'"
    by (auto simp: prod_eq_iff)
  have "pages_loop n f (all @ page_items pg) (next_token pg) (snd (f cursor s))
      = (Some (Inr ((all @ page_items pg) @ concat (map page_items (pg' # pgs)))), s')"
    using 3(1)[OF r] 3(3,4) n by simp
  moreover have h: "has_items pg" using 3(3) by simp
  ultimately show ?case unfolding n pages_loop_step[of f cursor s pg "snd (f cursor s)", OF f h] using t by simp
qed

lemma truthy_iff:
  "truthy v \<longleftrightarrow> v \<noteq> JUndefined \<and> v \<noteq> JNull \<and> v \<noteq> JBool False \<and> v \<noteq> JNum ''0'' \<and> v \<noteq> JNum ''NaN'' \<and> v \<noteq> JStr []"
  by (cases v) auto

text \<open>
  Claim C7, as amended. When the successive calls of the paginated primitive return the pages
  \<open>pgs\<close>, each of them with an array (or nothing) as \<^verbatim>\<open>data\<close>, every page but the last with
  a truthy token and the last with a falsy one, \<^verbatim>\<open>listWorkflowsAll\<close> and \<^verbatim>\<open>listExecutionsAll\<close>
  make exactly these calls and return the concatenation of the pages' items in the order
  received, nothing removed or reordered. After each page the loop goes on exactly when the
  page's \<^verbatim>\<open>nextCursor\<close> is truthy, that is, is none of undefined, null, false, 0, NaN and
  the empty string. The pages \<^verbatim>\<open>{data:[A,B], nextCursor:"c1"}\<close>, \<^verbatim>\<open>{data:[C]}\<close> give
  \<^verbatim>\<open>[A,B,C]\<close>.
\<close>

theorem list_all_pages:
  "(page_run (\<lambda>cur. listWorkflowsPaginated P c active cur name) JUndefined s pgs s'
      \<and> (\<forall>pg\<in>set pgs. has_items pg) \<and> length pgs \<le> fuel
     \<longrightarrow> listWorkflowsAll fuel P c active name s = (Some (Inr (concat (map page_items pgs))), s'))
   \<and> (page_run (\<lambda>cur. listExecutionsPaginated P c workflowId cur status) JUndefined s pgs s'
      \<and> (\<forall>pg\<in>set pgs. has_items pg) \<and> length pgs \<le> fuel
     \<longrightarrow> listExecutionsAll fuel P c workflowId status s = (Some (Inr (concat (map page_items pgs))), s'))
   \<and> (listWorkflowsPaginated P c active cursor name s = (Inr pg, s1) \<and> has_items pg
     \<longrightarrow> listWorkflowsAll_loop (Suc fuel) P c active name all cursor s =
          (if truthy (next_token pg)
           then listWorkflowsAll_loop fuel P c active name (all @ page_items pg) (next_token pg) s1
           else (Some (Inr (all @ page_items pg)), s1)))
   \<and> (listExecutionsPaginated P c workflowId cursor status s = (Inr pg, s1) \<and> has_items pg
     \<longrightarrow> listExecutionsAll_loop (Suc fuel) P c workflowId status all cursor s =
          (if truthy (next_token pg)
           then listExecutionsAll_loop fuel P c workflowId status (all @ page_items pg) (next_token pg) s1
           else (Some (Inr (all @ page_items pg)), s1)))
   \<and> (truthy v \<longleftrightarrow>
        v \<noteq> JUndefined \<and> v \<noteq> JNull \<and> v \<noteq> JBool False \<and> v \<noteq> JNum ''0'' \<and> v \<noteq> JNum ''NaN'' \<and> v \<noteq> JStr [])
   \<and> (page_run (\<lambda>cur. listWorkflowsPaginated P c active cur name) JUndefined s
         [JObj [(''data'', JArr [A, B]), (''nextCursor'', JStr ''c1'')], JObj [(''data'', JArr [C])]] s'
       \<and> 2 \<le> fuel
     \<longrightarrow> listWorkflowsAll fuel P c active name s = (Some (Inr [A, B, C]), s'))"
proof (intro conjI impI)
  assume h: "page_run (\<lambda>cur. listWorkflowsPaginated P c active cur name) JUndefined s pgs s'
      \<and> (\<forall>pg\<in>set pgs. has_items pg) \<and> length pgs \<le> fuel"
  then show "listWorkflowsAll fuel P c active name s = (Some (Inr (concat (map page_items pgs))), s')"
    using pages_loop_run[of "\<lambda>cur. listWorkflowsPaginated P c active cur name" JUndefined s pgs s' fuel "[]"]
    by (simp add: listWorkflowsAll_def listWorkflowsAll_loop_pages)
next
  assume h: "page_run (\<lambda>cur. listExecutionsPaginated P c workflowId cur status) JUndefined s pgs s'
      \<and> (\<forall>pg\<in>set pgs. has_items pg) \<and> length pgs \<le> fuel"
  then show "listExecutionsAll fuel P c workflowId status s = (Some (Inr (concat (map page_items pgs))), s')"
    using pages_loop_run[of "\<lambda>cur. listExecutionsPaginated P c workflowId cur status" JUndefined s pgs s' fuel "[]"]
    by (simp add: listExecutionsAll_def listExecutionsAll_loop_pages)
next
  assume h: "listWorkflowsPaginated P c active cursor name s = (Inr pg, s1) \<and> has_items pg"
  then show "listWorkflowsAll_loop (Suc fuel) P c active name all cursor s =
          (if truthy (next_token pg)
           then listWorkflowsAll_loop fuel P c active name (all @ page_items pg) (next_token pg) s1
           else (Some (Inr (all @ page_items pg)), s1))"
    unfolding listWorkflowsAll_loop_pages
    using pages_loop_step[of "\<lambda>cur. listWorkflowsPaginated P c active cur name" cursor s pg s1 fuel all]
    by simp
next
  assume h: "listExecutionsPaginated P c workflowId cursor status s = (Inr pg, s1) \<and> has_items pg"
  then show "listExecutionsAll_loop (Suc fuel) P c workflowId status all cursor s =
          (if truthy (next_token pg)
           then listExecutionsAll_loop fuel P c workflowId status (all @ page_items pg) (next_token pg) s1
           else (Some (Inr (all @ page_items pg)), s1))"
    unfolding listExecutionsAll_loop_pages
    using pages_loop_step[of "\<lambda>cur. listExecutionsPaginated P c workflowId cur status" cursor s pg s1 fuel all]
    by simp
next
  show "truthy v \<longleftrightarrow>
        v \<noteq> JUndefined \<and> v \<noteq> JNull \<and> v \<noteq> JBool False \<and> v \<noteq> JNum ''0'' \<and> v \<noteq> JNum ''NaN'' \<and> v \<noteq> JStr []"
    by (rule truthy_iff)
next
  let ?pgs = "[JObj [(''data'', JArr [A, B]), (''nextCursor'', JStr ''c1'')], JObj [(''data'', JArr [C])]]"
  assume h: "page_run (\<lambda>cur. listWorkflowsPaginated P c active cur name) JUndefined s ?pgs s' \<and> 2 \<le> fuel"
  have hi: "\<forall>pg\<in>set ?pgs. has_items pg" by (simp add: has_items_def coalesce_def)
  have "concat (map page_items ?pgs) = [A, B, C]" by (simp add: page_items_def coalesce_def)
  then show "listWorkflowsAll fuel P c active name s = (Some (Inr [A, B, C]), s')"
    using pages_loop_run[of "\<lambda>cur. listWorkflowsPaginated P c active cur name" JUndefined s ?pgs s' fuel "[]", OF _ hi] h
    by (simp add: listWorkflowsAll_def listWorkflowsAll_loop_pages)
qed

lemma request_scripted_ok_gen:
  "0 \<le> retries c \<Longrightarrow> world s = out # rest \<Longrightarrow> handle_outcome (scripted tbl) c out = Inr v \<Longrightarrow>
   request (scripted tbl) c m p b s
     = (Inr v, \<lparr>world = rest, trace = trace s @ [Fetch (build_request (scripted tbl) c m p b)]\<rparr>)"
  unfolding request_def
  by (rule request_loop_ok) (simp_all add: doRequest_eq scripted_fetch_Cons)

lemma listWorkflowsPaginated_scripted_ok:
  assumes "0 \<le> retries c" and "world s = out # rest" and "handle_outcome (scripted tbl) c out = Inr v"
  shows "fst (listWorkflowsPaginated (scripted tbl) c active cursor name s) = Inr (coalesce v empty_page)"
    and "world (snd (listWorkflowsPaginated (scripted tbl) c active cursor name s)) = rest"
  by (simp_all add: listWorkflowsPaginated_def Let_def request_scripted_ok_gen[OF assms])

lemma listExecutionsPaginated_scripted_ok:
  assumes "0 \<le> retries c" and "world s = out # rest" and "handle_outcome (scripted tbl) c out = Inr v"
  shows "fst (listExecutionsPaginated (scripted tbl) c workflowId cursor status s) = Inr (coalesce v empty_page)"
    and "world (snd (listExecutionsPaginated (scripted tbl) c workflowId cursor status s)) = rest"
  by (simp_all add: listExecutionsPaginated_def Let_def request_scripted_ok_gen[OF assms])

lemma page_bodies_parse:
  "parse_table page_bodies body_page1 = Inr page1"
  "parse_table page_bodies body_page2 = Inr page2"
  "parse_table page_bodies body_page_empty_token = Inr page_empty_token"
  by (simp_all add: parse_table_def page_bodies_def body_page1_def body_page2_def body_page_empty_token_def dquote_def)

lemma handle_page_bodies:
  "handle_outcome (scripted page_bodies) c (json_ok body_page1) = Inr page1"
  "handle_outcome (scripted page_bodies) c (json_ok body_page2) = Inr page2"
  "handle_outcome (scripted page_bodies) c (json_ok body_page_empty_token) = Inr page_empty_token"
  by (rule handle_json_ok, simp add: body_page1_def, simp add: scripted_parse page_bodies_parse,
      rule handle_json_ok, simp add: body_page2_def, simp add: scripted_parse page_bodies_parse,
      rule handle_json_ok, simp add: body_page_empty_token_def, simp add: scripted_parse page_bodies_parse)

text \<open>
  Claim C7 as stated fails: a page whose \<^verbatim>\<open>nextCursor\<close> is the empty string does not omit
  the token, and the loop ends with it; the next page is never asked for.
\<close>

theorem list_all_empty_token_counterexample:
  "\<not> omits_token page_empty_token
   \<and> listWorkflowsAll 5 (scripted page_bodies) (test_client None 3) None None
        \<lparr>world = [json_ok body_page_empty_token, json_ok body_page2], trace = []\<rparr>
      = (Some (Inr [JStr ''A'']),
         \<lparr>world = [json_ok body_page2],
          trace = [Fetch (build_request (scripted page_bodies) (test_client None 3) ''GET'' ''workflows'' None)]\<rparr>)"
proof
  show "\<not> omits_token page_empty_token"
    by (simp add: omits_token_def page_empty_token_def)
next
  let ?P = "scripted page_bodies"
  let ?c = "test_client None 3"
  let ?s = "\<lparr>world = [json_ok body_page_empty_token, json_ok body_page2], trace = []\<rparr>"
  have r0: "0 \<le> retries ?c" by simp
  have l: "listWorkflowsPaginated ?P ?c None JUndefined None ?s
      = (Inr page_empty_token, \<lparr>world = [json_ok body_page2],
          trace = [Fetch (build_request ?P ?c ''GET'' ''workflows'' None)]\<rparr>)"
    by (simp add: listWorkflowsPaginated_def query_string_def
        request_scripted_ok[OF r0 handle_page_bodies(3)] coalesce_def page_empty_token_def)
  have h: "has_items page_empty_token"
    by (simp add: has_items_def page_empty_token_def coalesce_def)
  show "listWorkflowsAll 5 ?P ?c None None ?s
      = (Some (Inr [JStr ''A'']),
         \<lparr>world = [json_ok body_page2], trace = [Fetch (build_request ?P ?c ''GET'' ''workflows'' None)]\<rparr>)"
    unfolding listWorkflowsAll_def listWorkflowsAll_loop_pages
    using pages_loop_step[of "\<lambda>cur. listWorkflowsPaginated ?P ?c None cur None" JUndefined ?s page_empty_token _ 4 "[]", OF l h]
    by (simp add: eval_nat_numeral next_token_def page_items_def page_empty_token_def coalesce_def)
qed

text \<open>
  The amended C7 at the scripted pages of the claim, for workflows and for executions, and
  the step of the loop after the first page.
\<close>

theorem list_all_pages_witness:
  "fst (listWorkflowsAll 5 (scripted page_bodies) (test_client None 3) None None
        \<lparr>world = [json_ok body_page1, json_ok body_page2], trace = []\<rparr>)
      = Some (Inr [JStr ''A'', JStr ''B'', JStr ''C''])
   \<and> world (snd (listWorkflowsAll 5 (scripted page_bodies) (test_client None 3) None None
        \<lparr>world = [json_ok body_page1, json_ok body_page2], trace = []\<rparr>)) = []
   \<and> fst (listExecutionsAll 5 (scripted page_bodies) (test_client None 3) None None
        \<lparr>world = [json_ok body_page1, json_ok body_page2], trace = []\<rparr>)
      = Some (Inr [JStr ''A'', JStr ''B'', JStr ''C''])
   \<and> truthy (JStr ''c1'') \<and> \<not> truthy JNull"
proof -
  let ?P = "scripted page_bodies"
  let ?c = "test_client None 3"
  let ?s = "\<lparr>world = [json_ok body_page1, json_ok body_page2], trace = []\<rparr>"
  let ?f = "\<lambda>cur. listWorkflowsPaginated ?P ?c None cur None"
  let ?g = "\<lambda>cur. listExecutionsPaginated ?P ?c None cur None"
  have r0: "0 \<le> retries ?c" by simp
  have p12: "coalesce page1 empty_page = page1" "coalesce page2 empty_page = page2"
    "truthy (next_token page1)" "\<not> truthy (next_token page2)"
    by (simp_all add: coalesce_def page1_def page2_def next_token_def)
  have hi: "has_items page1" "has_items page2"
    by (simp_all add: has_items_def page1_def page2_def coalesce_def)
  \<comment> \<open>workflows\<close>
  let ?s1 = "snd (?f JUndefined ?s)"
  let ?s2 = "snd (?f (next_token page1) ?s1)"
  have f1: "fst (?f JUndefined ?s) = Inr page1" and w1: "world ?s1 = [json_ok body_page2]"
    using listWorkflowsPaginated_scripted_ok[OF r0 _ handle_page_bodies(1), of ?s] by (simp_all add: p12)
  have f2: "fst (?f (next_token page1) ?s1) = Inr page2" and w2: "world ?s2 = []"
    using listWorkflowsPaginated_scripted_ok[OF r0 w1 handle_page_bodies(2)] by (simp_all add: p12)
  have run: "page_run ?f JUndefined ?s [page1, page2] ?s2
       \<and> (\<forall>pg\<in>set [page1, page2]. has_items pg) \<and> length [page1, page2] \<le> 5"
    using f1 f2 by (simp add: p12 prod_eq_iff hi)
  note W = list_all_pages[where P = ?P and c = ?c and active = None and name = None and s = ?s
      and pgs = "[page1, page2]" and s' = ?s2 and fuel = 5, THEN conjunct1, THEN mp, OF run]
  \<comment> \<open>executions\<close>
  let ?t1 = "snd (?g JUndefined ?s)"
  let ?t2 = "snd (?g (next_token page1) ?t1)"
  have g1: "fst (?g JUndefined ?s) = Inr page1" and v1: "world ?t1 = [json_ok body_page2]"
    using listExecutionsPaginated_scripted_ok[OF r0 _ handle_page_bodies(1), of ?s] by (simp_all add: p12)
  have g2: "fst (?g (next_token page1) ?t1) = Inr page2"
    using listExecutionsPaginated_scripted_ok[OF r0 v1 handle_page_bodies(2)] by (simp_all add: p12)
  have run2: "page_run ?g JUndefined ?s [page1, page2] ?t2
       \<and> (\<forall>pg\<in>set [page1, page2]. has_items pg) \<and> length [page1, page2] \<le> 5"
    using g1 g2 by (simp add: p12 prod_eq_iff hi)
  note E = list_all_pages[where P = ?P and c = ?c and workflowId = None and status = None and s = ?s
      and pgs = "[page1, page2]" and s' = ?t2 and fuel = 5, THEN conjunct2, THEN conjunct1, THEN mp, OF run2]
  note T = list_all_pages[where v = "JStr ''c1''", THEN conjunct2, THEN conjunct2, THEN conjunct2,
      THEN conjunct2, THEN conjunct1]
  note N = list_all_pages[where v = JNull, THEN conjunct2, THEN conjunct2, THEN conjunct2,
      THEN conjunct2, THEN conjunct1]
  have items: "page_items page1 @ page_items page2 = [JStr ''A'', JStr ''B'', JStr ''C'']"
    by (simp add: page_items_def page1_def page2_def coalesce_def)
  show ?thesis using W E T N w2 by (simp add: items)
qed

lemma run_op_scheme:
  "run_op P c op s =
     (if truthy_str (op_scope c op) then
        (case request P c (op_method op) (scoped_path P c op) (op_body op) s of
           (Inr v, s1) \<Rightarrow> op_finish op (Inr v, s1)
         | (Inl err, s1) \<Rightarrow>
             if op_not_found op (String_of err)
             then op_finish op (request P c (op_method op) (unscoped_path P op) (op_body op) s1)
             else (Inl err, s1))
      else op_finish op (request P c (op_method op) (unscoped_path P op) (op_body op) s))"
proof -
  obtain r s1 where r: "request P c (op_method op) (scoped_path P c op) (op_body op) s = (r, s1)"
    by (cases "request P c (op_method op) (scoped_path P c op) (op_body op) s")
  obtain r' s1' where r': "request P c (op_method op) (unscoped_path P op) (op_body op) s = (r', s1')"
    by (cases "request P c (op_method op) (unscoped_path P op) (op_body op) s")
  obtain r2 s2 where r2: "request P c (op_method op) (unscoped_path P op) (op_body op) s1 = (r2, s2)"
    by (cases "request P c (op_method op) (unscoped_path P op) (op_body op) s1")
  show ?thesis
  proof (cases op)
    case (ListOp active cursor name)
    show ?thesis
      using r r' r2 unfolding ListOp
      by (cases r; cases r'; cases r2; cases "truthy_str (op_scope c op)")
         (simp_all add: listWorkflowsPaginated_def or_empty_page_def Let_def scoped_path_def ListOp)
  next
    case (CreateOp workflow pid)
    show ?thesis
      using r r' r2 unfolding CreateOp
      by (cases r; cases r'; cases r2; cases "truthy_str (op_scope c op)")
         (simp_all add: createWorkflow_def scoped_path_def CreateOp)
  next
    case (GetOp ident)
    show ?thesis
      using r r' r2 unfolding GetOp
      by (cases r; cases r'; cases r2; cases "truthy_str (op_scope c op)")
         (simp_all add: getWorkflow_def Let_def scoped_path_def GetOp)
  next
    case (UpdateOp ident workflow)
    show ?thesis
      using r r' r2 unfolding UpdateOp
      by (cases r; cases r'; cases r2; cases "truthy_str (op_scope c op)")
         (simp_all add: updateWorkflow_def Let_def scoped_path_def UpdateOp)
  next
    case (DeleteOp ident)
    show ?thesis
      using r r' r2 unfolding DeleteOp
      by (cases r; cases r'; cases r2; cases "truthy_str (op_scope c op)")
         (simp_all add: deleteWorkflow_def discard_def Let_def scoped_path_def DeleteOp)
  next
    case (ActivateOp ident)
    show ?thesis
      using r r' r2 unfolding ActivateOp
      by (cases r; cases r'; cases r2; cases "truthy_str (op_scope c op)")
         (simp_all add: activateWorkflow_def discard_def Let_def scoped_path_def ActivateOp)
  next
    case (DeactivateOp ident)
    show ?thesis
      using r r' r2 unfolding DeactivateOp
      by (cases r; cases r'; cases r2; cases "truthy_str (op_scope c op)")
         (simp_all add: deactivateWorkflow_def discard_def Let_def scoped_path_def DeactivateOp)
  qed
qed

lemma op_finish_Inl: "op_finish op (Inl err, s) = (Inl err, s)"
  by (cases op) (simp_all add: or_empty_page_def discard_def)

lemma op_finish_state: "snd (op_finish op r) = snd r"
  by (cases op; cases r; cases "fst r") (simp_all add: or_empty_page_def discard_def)

lemma op_finish_isl: "isl (fst (op_finish op r)) = isl (fst r)"
  by (cases op; cases r; cases "fst r") (simp_all add: or_empty_page_def discard_def)

lemma op_not_found_iff:
  "op_not_found op x \<longleftrightarrow> js_includes x ''404'' \<or> (\<not> is_list_op op \<and> js_includes x ''not found'')"
  by (cases op) simp_all

lemma js_includes_middle: "js_includes (a @ x @ b) x"
  by (simp add: js_includes_def)

lemma parseApiError_form:
  "\<exists>msg. parseApiError P st text = Error (''n8n API error '' @ show_nat st @ '': '' @ msg)"
  by (cases "JSON_parse P text") (auto simp: parseApiError_def Let_def)

lemma http_404_text:
  assumes "resp_status res = 404"
  shows "\<exists>e. handle_outcome P c (Resolves res) = Inl e \<and> status_of e = Some 404
           \<and> js_includes (String_of e) ''404''"
proof -
  obtain msg where m: "parseApiError P 404 (resp_text res) = Error (''n8n API error '' @ show_nat 404 @ '': '' @ msg)"
    using parseApiError_form by blast
  have "js_includes (''Error: n8n API error '' @ ''404'' @ '': '' @ msg) ''404''"
    by (rule js_includes_middle)
  then show ?thesis
    using assms m
    by (simp add: handle_outcome_def ok_def rethrow_def show_nat_404 Error_toString_def Error_def)
qed

lemma extends_by_refl: "extends_by Q s s"
  by (simp add: extends_by_def)

lemma extends_by_trans: "extends_by Q s s1 \<Longrightarrow> extends_by Q s1 s2 \<Longrightarrow> extends_by Q s s2"
  by (auto simp: extends_by_def fetches_append)

lemma extends_by_mono: "extends_by Q s s' \<Longrightarrow> (\<And>rq. Q rq \<Longrightarrow> R rq) \<Longrightarrow> extends_by R s s'"
  by (auto simp: extends_by_def)

lemma extends_by_new_events:
  "extends_by Q s s' \<Longrightarrow> trace s' = trace s @ new_events s s' \<and> (\<forall>rq\<in>set (fetches (new_events s s')). Q rq)"
  by (auto simp: extends_by_def new_events_def)

lemma extends_by_sleep: "extends_by Q s (sleep ms s)"
  by (simp add: extends_by_def sleep_def)

lemma extends_by_doRequest: "extends_by (\<lambda>rq. rq = build_request P c m p b) s (snd (doRequest P c m p b s))"
  by (simp add: extends_by_def doRequest_eq)

lemma request_loop_extends:
  "extends_by (\<lambda>rq. rq = build_request P c m p b) s (snd (request_loop P c m p b a le s))"
proof (induction P c m p b a le s rule: request_loop.induct)
  case (1 P c meth pth bdy attempt lastErr s)
  obtain r s' where d: "doRequest P c meth pth bdy s = (r, s')"
    by (cases "doRequest P c meth pth bdy s")
  have e: "extends_by (\<lambda>rq. rq = build_request P c meth pth bdy) s s'"
    using extends_by_doRequest[of P c meth pth bdy s] d by simp
  show ?case
  proof (cases "attempt \<le> retries c")
    case False
    then show ?thesis by (subst request_loop.simps) (simp add: extends_by_refl)
  next
    case le: True
    show ?thesis
    proof (cases r)
      case (Inr v)
      then show ?thesis using le d e by (subst request_loop.simps) simp
    next
      case (Inl err)
      show ?thesis
      proof (cases "attempt < retries c \<and> isRetryable err (status_of err)")
        case False
        then show ?thesis using le d e Inl by (subst request_loop.simps) auto
      next
        case True
        have "extends_by (\<lambda>rq. rq = build_request P c meth pth bdy) s' (sleep (delay attempt) s')"
          by (rule extends_by_sleep)
        from extends_by_trans[OF e extends_by_trans[OF this 1[OF le d[symmetric] Inl True]]]
        show ?thesis using le d Inl True by (subst request_loop.simps) simp
      qed
    qed
  qed
qed

lemma request_extends:
  "request P c m p b s = (r, s') \<Longrightarrow> extends_by (\<lambda>rq. rq = build_request P c m p b) s s'"
  using request_loop_extends[where a = 0 and le = "NonError JUndefined" and s = s and P = P and c = c and m = m and p = p and b = b]
  by (simp add: request_def)

lemma request_extends_path:
  "request P c m p b s = (r, s') \<Longrightarrow> Q (build_request P c m p b) \<Longrightarrow> extends_by Q s s'"
  by (erule extends_by_mono[OF request_extends]) simp

lemma req_path_build [simp]: "req_path (build_request P c m p b) = p"
  by (simp add: build_request_def)

lemma executions_not_scoped: "startsWith p ''executions'' \<Longrightarrow> \<not> is_scoped p"
  by (cases p) (auto simp: startsWith_def is_scoped_def)

lemma startsWith_append [simp]: "startsWith (p @ x) p"
  by (simp add: startsWith_def)

lemma snd_discard [simp]: "snd (discard r) = snd r"
  by (cases r; cases "fst r") (simp_all add: discard_def)

lemma startsWith_executions_slash: "startsWith (''executions/'' @ x) ''executions''"
  by (simp add: startsWith_def)

lemma builtI: "R p \<Longrightarrow> built P c R (build_request P c m p b)"
  by (auto simp: built_def)

lemma built_path: "built P c R rq \<Longrightarrow> R (req_path rq)"
  by (auto simp: built_def)

lemma listExecutionsPaginated_extends:
  "extends_by (built P c (\<lambda>p. startsWith p ''executions'')) s
     (snd (listExecutionsPaginated P c workflowId cursor status s))"
proof -
  define qs where "qs = query_string P
         ((if truthy_str workflowId then [(''workflowId'', str_of workflowId)] else [])
          @ (if truthy cursor then [(''cursor'', js_String cursor)] else [])
          @ (if truthy_str status then [(''status'', str_of status)] else []))"
  obtain r s1 where r: "request P c ''GET'' (''executions'' @ qs) None s = (r, s1)"
    by (cases "request P c ''GET'' (''executions'' @ qs) None s")
  have e: "extends_by (built P c (\<lambda>p. startsWith p ''executions'')) s s1"
    by (rule request_extends_path[OF r]) (simp only: builtI startsWith_append)
  have "snd (listExecutionsPaginated P c workflowId cursor status s) = s1"
    unfolding listExecutionsPaginated_def Let_def qs_def[symmetric] r by (cases r) simp_all
  then show ?thesis using e by simp
qed

lemma pages_loop_extends:
  assumes "\<And>cur s. extends_by Q s (snd (f cur s))"
  shows "extends_by Q s (snd (pages_loop fuel f all cursor s))"
proof (induction fuel arbitrary: all cursor s)
  case 0
  show ?case by (simp add: extends_by_refl)
next
  case (Suc fuel)
  obtain r s1 where f: "f cursor s = (r, s1)" by (cases "f cursor s")
  have e: "extends_by Q s s1" using assms[of s cursor] f by simp
  show ?case
  proof (cases r)
    case (Inl err)
    then show ?thesis using f e by simp
  next
    case (Inr res)
    show ?thesis
    proof (cases "spread (coalesce (get_prop res ''data'') (JArr []))")
      case (Inl err)
      then show ?thesis using f e Inr by simp
    next
      case sp: (Inr items)
      show ?thesis
      proof (cases "truthy (get_prop res ''nextCursor'')")
        case True
        then show ?thesis
          using f Inr sp extends_by_trans[OF e Suc[of s1 "all @ items" "get_prop res ''nextCursor''"]]
          by (simp add: Let_def)
      next
        case False
        then show ?thesis using f e Inr sp by (simp add: Let_def)
      qed
    qed
  qed
qed

lemma request_exec_extends:
  "startsWith p ''executions'' \<Longrightarrow>
   extends_by (built P c (\<lambda>p. startsWith p ''executions'')) s (snd (request P c m p b s))"
  by (rule request_extends_path[OF surjective_pairing]) (simp only: builtI)

lemma exec_state_extends:
  "extends_by (built P c (\<lambda>p. startsWith p ''executions'')) s (exec_state P c eop s)"
proof (cases eop)
  case (ListExecutionsPaginatedOp workflowId cursor status)
  then show ?thesis by (simp only: exec_state.simps listExecutionsPaginated_extends)
next
  case (ListExecutionsOp workflowId status)
  obtain r s1 where r: "listExecutionsPaginated P c workflowId JUndefined status s = (r, s1)"
    by (cases "listExecutionsPaginated P c workflowId JUndefined status s")
  have "snd (listExecutions P c workflowId status s) = s1"
    unfolding listExecutions_def r by (cases r) simp_all
  then show ?thesis
    using ListExecutionsOp listExecutionsPaginated_extends[of P c s workflowId JUndefined status] r
    by simp
next
  case (ListExecutionsAllOp fuel workflowId status)
  then show ?thesis
    by (simp only: exec_state.simps listExecutionsAll_def listExecutionsAll_loop_pages
        pages_loop_extends[where f = "\<lambda>cur. listExecutionsPaginated P c workflowId cur status",
          OF listExecutionsPaginated_extends])
next
  case (GetExecutionOp ident)
  then show ?thesis
    by (simp only: exec_state.simps getExecution_def request_exec_extends[OF startsWith_executions_slash])
next
  case (RetryExecutionOp ident)
  obtain r s1 where r: "request P c ''POST'' (''executions/'' @ ident @ ''/retry'') (Some (JObj [])) s = (r, s1)"
    by (cases "request P c ''POST'' (''executions/'' @ ident @ ''/retry'') (Some (JObj [])) s")
  have "snd (retryExecution P c ident s) = s1"
    unfolding retryExecution_def Let_def r by (cases r) simp_all
  then show ?thesis
    using RetryExecutionOp r
      request_exec_extends[OF startsWith_executions_slash[of "ident @ ''/retry''"],
        where s = s and P = P and c = c and m = "''POST''" and b = "Some (JObj [])"]
    by simp
next
  case (StopExecutionOp ident)
  then show ?thesis
    by (simp only: exec_state.simps stopExecution_def snd_discard
        request_exec_extends[OF startsWith_executions_slash])
next
  case (DeleteExecutionOp ident)
  then show ?thesis
    by (simp only: exec_state.simps deleteExecution_def snd_discard
        request_exec_extends[OF startsWith_executions_slash])
qed

text \<open>
  Claim C1, as amended. A primary-resource operation called with a scope (the profile's
  \<^verbatim>\<open>projectId\<close>; for \<^verbatim>\<open>createWorkflow\<close> its \<^verbatim>\<open>projectId\<close> argument) first requests the scoped
  path. When that request fails and the text of the error contains \<^verbatim>\<open>404\<close>, or, for every
  operation but the list, \<^verbatim>\<open>not found\<close>, the operation makes one request of the unscoped path
  from there and returns its outcome, success or failure; an HTTP 404 response always gives
  such a text. A failure whose text contains neither \<^verbatim>\<open>404\<close> nor \<^verbatim>\<open>not found\<close> is returned
  as it is, with no request of the unscoped path. No operation on executions requests a
  scoped path.
\<close>

theorem scoped_fallback:
  "(truthy_str (op_scope c op)
      \<and> request P c (op_method op) (scoped_path P c op) (op_body op) s = (Inl err, s1)
      \<and> op_not_found op (String_of err)
     \<longrightarrow> run_op P c op s = op_finish op (request P c (op_method op) (unscoped_path P op) (op_body op) s1))
   \<and> (truthy_str (op_scope c op)
      \<and> request P c (op_method op) (scoped_path P c op) (op_body op) s = (Inl err, s1)
      \<and> \<not> js_includes (String_of err) ''404'' \<and> \<not> js_includes (String_of err) ''not found''
     \<longrightarrow> run_op P c op s = (Inl err, s1))
   \<and> (truthy_str (op_scope c op)
      \<and> request P c (op_method op) (scoped_path P c op) (op_body op) s = (Inr v, s1)
     \<longrightarrow> run_op P c op s = op_finish op (Inr v, s1))
   \<and> (op_not_found op x \<longleftrightarrow> js_includes x ''404'' \<or> (\<not> is_list_op op \<and> js_includes x ''not found''))
   \<and> op_finish op (Inl err2, s2) = (Inl err2, s2)
   \<and> isl (fst (op_finish op r)) = isl (fst r) \<and> snd (op_finish op r) = snd r
   \<and> (resp_status res = 404
     \<longrightarrow> (\<exists>e. handle_outcome P c (Resolves res) = Inl e \<and> status_of e = Some 404
            \<and> js_includes (String_of e) ''404''))
   \<and> (\<forall>rq\<in>set (fetches (new_events s (exec_state P c eop s))).
         startsWith (req_path rq) ''executions'' \<and> \<not> is_scoped (req_path rq))"
proof (intro conjI impI)
  assume "truthy_str (op_scope c op)
      \<and> request P c (op_method op) (scoped_path P c op) (op_body op) s = (Inl err, s1)
      \<and> op_not_found op (String_of err)"
  then show "run_op P c op s = op_finish op (request P c (op_method op) (unscoped_path P op) (op_body op) s1)"
    by (simp add: run_op_scheme)
next
  assume "truthy_str (op_scope c op)
      \<and> request P c (op_method op) (scoped_path P c op) (op_body op) s = (Inl err, s1)
      \<and> \<not> js_includes (String_of err) ''404'' \<and> \<not> js_includes (String_of err) ''not found''"
  then show "run_op P c op s = (Inl err, s1)"
    by (simp add: run_op_scheme op_not_found_iff)
next
  assume "truthy_str (op_scope c op)
      \<and> request P c (op_method op) (scoped_path P c op) (op_body op) s = (Inr v, s1)"
  then show "run_op P c op s = op_finish op (Inr v, s1)"
    by (simp add: run_op_scheme)
next
  show "op_not_found op x \<longleftrightarrow> js_includes x ''404'' \<or> (\<not> is_list_op op \<and> js_includes x ''not found'')"
    by (rule op_not_found_iff)
  show "op_finish op (Inl err2, s2) = (Inl err2, s2)" by (rule op_finish_Inl)
  show "isl (fst (op_finish op r)) = isl (fst r)" by (rule op_finish_isl)
  show "snd (op_finish op r) = snd r" by (rule op_finish_state)
next
  assume "resp_status res = 404"
  then show "\<exists>e. handle_outcome P c (Resolves res) = Inl e \<and> status_of e = Some 404
            \<and> js_includes (String_of e) ''404''"
    by (rule http_404_text)
next
  show "\<forall>rq\<in>set (fetches (new_events s (exec_state P c eop s))).
         startsWith (req_path rq) ''executions'' \<and> \<not> is_scoped (req_path rq)"
    using extends_by_new_events[OF exec_state_extends[of P c s eop]] executions_not_scoped built_path
    by blast
qed

lemma not_found_400:
  "handle_outcome (scripted test_bodies) c (http_error 400 ''not found'')
     = Inl (ErrorObj ((Error ''n8n API error 400: not found'')\<lparr>err_status := Some 400\<rparr>))"
proof -
  have sn: "show_nat 400 = ''400''" by code_simp
  have "map_of test_bodies ''not found'' = None"
    by (simp add: test_bodies_def body_message_def body_nested_def body_empty_list_def dquote_def)
  then show ?thesis using handle_http_error_scripted[of 400 test_bodies "''not found''" c] by (simp add: sn)
qed

lemma not_found_400_text:
  "\<not> js_includes (Error_toString (Error ''n8n API error 400: not found'')) ''404''"
  "js_includes (Error_toString (Error ''n8n API error 400: not found'')) ''not found''"
  "\<not> has_retry_signature (Error_toString (Error ''n8n API error 400: not found''))"
  by (simp_all add: Error_toString_Error js_includes_eval has_retry_signature_def)

text \<open>
  Claim C1 as stated fails. The scoped request is answered with HTTP 400 and the text
  \<^verbatim>\<open>not found\<close>: the failure is not a 404, and its text does not contain \<^verbatim>\<open>404\<close>, yet
  \<^verbatim>\<open>getWorkflow\<close> requests the unscoped path; \<^verbatim>\<open>listWorkflowsPaginated\<close>, given the same failure,
  does not.
\<close>

theorem fallback_non_404_counterexample:
  "status_of (ErrorObj ((Error ''n8n API error 400: not found'')\<lparr>err_status := Some 400\<rparr>)) = Some 400
   \<and> \<not> js_includes (String_of (ErrorObj ((Error ''n8n API error 400: not found'')\<lparr>err_status := Some 400\<rparr>))) ''404''
   \<and> getWorkflow (scripted test_bodies) (test_client (Some ''p1'') 3) ''w1''
        \<lparr>world = [http_error 400 ''not found'', json_ok body_empty_list], trace = []\<rparr>
      = (Inr (JObj [(''data'', JArr [])]),
         \<lparr>world = [],
          trace = [Fetch (build_request (scripted test_bodies) (test_client (Some ''p1'') 3) ''GET''
                     ''projects/p1/workflows/w1'' None),
                   Fetch (build_request (scripted test_bodies) (test_client (Some ''p1'') 3) ''GET''
                     ''workflows/w1'' None)]\<rparr>)
   \<and> listWorkflowsPaginated (scripted test_bodies) (test_client (Some ''p1'') 3) None JUndefined None
        \<lparr>world = [http_error 400 ''not found'', json_ok body_empty_list], trace = []\<rparr>
      = (Inl (ErrorObj ((Error ''n8n API error 400: not found'')\<lparr>err_status := Some 400\<rparr>)),
         \<lparr>world = [json_ok body_empty_list],
          trace = [Fetch (build_request (scripted test_bodies) (test_client (Some ''p1'') 3) ''GET''
                     ''projects/p1/workflows'' None)]\<rparr>)"
proof -
  let ?P = "scripted test_bodies"
  let ?c = "test_client (Some ''p1'') 3"
  let ?e = "ErrorObj ((Error ''n8n API error 400: not found'')\<lparr>err_status := Some 400\<rparr>)"
  let ?s = "\<lparr>world = [http_error 400 ''not found'', json_ok body_empty_list], trace = []\<rparr>"
  have r0: "0 \<le> retries ?c" by simp
  have nr: "\<not> isRetryable ?e (status_of ?e)"
    by (simp add: isRetryable_iff not_found_400_text)
  have hk: "handle_outcome ?P ?c (json_ok body_empty_list) = Inr (JObj [(''data'', JArr [])])"
    by (rule handle_json_ok) (simp_all add: body_empty_list_nonempty scripted_parse test_bodies_parse)
  note fail = request_scripted_stop[OF r0 not_found_400 nr]
  note good = request_scripted_ok[OF r0 hk]
  have g: "getWorkflow ?P ?c ''w1'' ?s
      = (Inr (JObj [(''data'', JArr [])]),
         \<lparr>world = [], trace = [Fetch (build_request ?P ?c ''GET'' ''projects/p1/workflows/w1'' None),
                   Fetch (build_request ?P ?c ''GET'' ''workflows/w1'' None)]\<rparr>)"
    by (simp add: getWorkflow_def fail good not_found_400_text)
  have l: "listWorkflowsPaginated ?P ?c None JUndefined None ?s
      = (Inl ?e, \<lparr>world = [json_ok body_empty_list],
          trace = [Fetch (build_request ?P ?c ''GET'' ''projects/p1/workflows'' None)]\<rparr>)"
    by (simp add: listWorkflowsPaginated_def query_string_def fail not_found_400_text)
  show ?thesis using g l by (simp add: not_found_400_text)
qed

lemma forbidden_403:
  "handle_outcome (scripted test_bodies) c (http_error 403 ''forbidden'')
     = Inl (ErrorObj ((Error ''n8n API error 403: forbidden'')\<lparr>err_status := Some 403\<rparr>))"
proof -
  have sn: "show_nat 403 = ''403''" by code_simp
  have "map_of test_bodies ''forbidden'' = None"
    by (simp add: test_bodies_def body_message_def body_nested_def body_empty_list_def dquote_def)
  then show ?thesis using handle_http_error_scripted[of 403 test_bodies "''forbidden''" c] by (simp add: sn)
qed

lemma forbidden_403_text:
  "\<not> js_includes (Error_toString (Error ''n8n API error 403: forbidden'')) ''404''"
  "\<not> js_includes (Error_toString (Error ''n8n API error 403: forbidden'')) ''not found''"
  "\<not> has_retry_signature (Error_toString (Error ''n8n API error 403: forbidden''))"
  by (simp_all add: Error_toString_Error js_includes_eval has_retry_signature_def)

lemma nope_404:
  "handle_outcome (scripted test_bodies) c (http_error 404 ''nope'')
     = Inl (ErrorObj ((Error ''n8n API error 404: nope'')\<lparr>err_status := Some 404\<rparr>))"
proof -
  have "map_of test_bodies ''nope'' = None"
    by (simp add: test_bodies_def body_message_def body_nested_def body_empty_list_def dquote_def)
  then show ?thesis using handle_http_error_scripted[of 404 test_bodies "''nope''" c] by (simp add: show_nat_404)
qed

lemma nope_404_text:
  "js_includes (Error_toString (Error ''n8n API error 404: nope'')) ''404''"
  "\<not> has_retry_signature (Error_toString (Error ''n8n API error 404: nope''))"
  by (simp_all add: Error_toString_Error js_includes_eval has_retry_signature_def)

text \<open>
  The amended C1 at scripted transports with the profile scope \<open>p1\<close>: a 404 on the scoped
  path of \<^verbatim>\<open>getWorkflow\<close> followed by a good answer on the unscoped path; a 403 on the scoped
  path of \<^verbatim>\<open>deleteWorkflow\<close>, returned as it is; a good answer on the scoped path of the list;
  and \<^verbatim>\<open>getExecution\<close>, which requests \<^verbatim>\<open>executions/e1\<close>.
\<close>

theorem scoped_fallback_witness:
  "run_op (scripted test_bodies) (test_client (Some ''p1'') 3) (GetOp ''w1'')
        \<lparr>world = [http_error 404 ''nope'', json_ok body_empty_list], trace = []\<rparr>
      = (Inr (JObj [(''data'', JArr [])]),
         \<lparr>world = [],
          trace = [Fetch (build_request (scripted test_bodies) (test_client (Some ''p1'') 3) ''GET''
                     ''projects/p1/workflows/w1'' None),
                   Fetch (build_request (scripted test_bodies) (test_client (Some ''p1'') 3) ''GET''
                     ''workflows/w1'' None)]\<rparr>)
   \<and> run_op (scripted test_bodies) (test_client (Some ''p1'') 3) (DeleteOp ''w1'')
        \<lparr>world = [http_error 403 ''forbidden'', json_ok body_empty_list], trace = []\<rparr>
      = (Inl (ErrorObj ((Error ''n8n API error 403: forbidden'')\<lparr>err_status := Some 403\<rparr>)),
         \<lparr>world = [json_ok body_empty_list],
          trace = [Fetch (build_request (scripted test_bodies) (test_client (Some ''p1'') 3) ''DELETE''
                     ''projects/p1/workflows/w1'' None)]\<rparr>)
   \<and> run_op (scripted test_bodies) (test_client (Some ''p1'') 3) (ListOp None JUndefined None)
        \<lparr>world = [json_ok body_empty_list], trace = []\<rparr>
      = (Inr (JObj [(''data'', JArr [])]),
         \<lparr>world = [],
          trace = [Fetch (build_request (scripted test_bodies) (test_client (Some ''p1'') 3) ''GET''
                     ''projects/p1/workflows'' None)]\<rparr>)
   \<and> (\<exists>e. handle_outcome (scripted test_bodies) (test_client (Some ''p1'') 3) (http_error 404 ''nope'') = Inl e
          \<and> status_of e = Some 404 \<and> js_includes (String_of e) ''404'')
   \<and> fetches (new_events \<lparr>world = [json_ok body_empty_list], trace = []\<rparr>
        (exec_state (scripted test_bodies) (test_client (Some ''p1'') 3) (GetExecutionOp ''e1'')
           \<lparr>world = [json_ok body_empty_list], trace = []\<rparr>))
      = [build_request (scripted test_bodies) (test_client (Some ''p1'') 3) ''GET'' ''executions/e1'' None]
   \<and> startsWith (req_path (build_request (scripted test_bodies) (test_client (Some ''p1'') 3) ''GET''
         ''executions/e1'' None)) ''executions''
   \<and> \<not> is_scoped (req_path (build_request (scripted test_bodies) (test_client (Some ''p1'') 3) ''GET''
         ''executions/e1'' None))"
proof -
  let ?P = "scripted test_bodies"
  let ?c = "test_client (Some ''p1'') 3"
  let ?e404 = "ErrorObj ((Error ''n8n API error 404: nope'')\<lparr>err_status := Some 404\<rparr>)"
  let ?e403 = "ErrorObj ((Error ''n8n API error 403: forbidden'')\<lparr>err_status := Some 403\<rparr>)"
  let ?rq1 = "build_request ?P ?c ''GET'' ''projects/p1/workflows/w1'' None"
  let ?rqd = "build_request ?P ?c ''DELETE'' ''projects/p1/workflows/w1'' None"
  let ?rql = "build_request ?P ?c ''GET'' ''projects/p1/workflows'' None"
  have r0: "0 \<le> retries ?c" by simp
  have sc: "truthy_str (op_scope ?c op) = True" if "\<not> (\<exists>w pid. op = CreateOp w pid)" for op
    using that by (cases op) simp_all
  have hk: "handle_outcome ?P ?c (json_ok body_empty_list) = Inr (JObj [(''data'', JArr [])])"
    by (rule handle_json_ok) (simp_all add: body_empty_list_nonempty scripted_parse test_bodies_parse)
  note good = request_scripted_ok[OF r0 hk]
  have n404: "\<not> isRetryable ?e404 (status_of ?e404)" by (simp add: isRetryable_iff nope_404_text)
  have n403: "\<not> isRetryable ?e403 (status_of ?e403)" by (simp add: isRetryable_iff forbidden_403_text)
  note fail404 = request_scripted_stop[OF r0 nope_404 n404]
  note fail403 = request_scripted_stop[OF r0 forbidden_403 n403]
  \<comment> \<open>a 404 on the scoped path\<close>
  have h1: "truthy_str (op_scope ?c (GetOp ''w1''))
      \<and> request ?P ?c (op_method (GetOp ''w1'')) (scoped_path ?P ?c (GetOp ''w1'')) (op_body (GetOp ''w1''))
           \<lparr>world = [http_error 404 ''nope'', json_ok body_empty_list], trace = []\<rparr>
         = (Inl ?e404, \<lparr>world = [json_ok body_empty_list], trace = [Fetch ?rq1]\<rparr>)
      \<and> op_not_found (GetOp ''w1'') (String_of ?e404)"
    by (simp add: scoped_path_def fail404 nope_404_text)
  note w1 = scoped_fallback[where P = ?P and c = ?c, THEN conjunct1, THEN mp, OF h1]
  \<comment> \<open>a 403 on the scoped path\<close>
  have h2: "truthy_str (op_scope ?c (DeleteOp ''w1''))
      \<and> request ?P ?c (op_method (DeleteOp ''w1'')) (scoped_path ?P ?c (DeleteOp ''w1'')) (op_body (DeleteOp ''w1''))
           \<lparr>world = [http_error 403 ''forbidden'', json_ok body_empty_list], trace = []\<rparr>
         = (Inl ?e403, \<lparr>world = [json_ok body_empty_list], trace = [Fetch ?rqd]\<rparr>)
      \<and> \<not> js_includes (String_of ?e403) ''404'' \<and> \<not> js_includes (String_of ?e403) ''not found''"
    by (simp add: scoped_path_def fail403 forbidden_403_text)
  note w2 = scoped_fallback[where P = ?P and c = ?c, THEN conjunct2, THEN conjunct1, THEN mp, OF h2]
  \<comment> \<open>a good answer on the scoped path\<close>
  have h3: "truthy_str (op_scope ?c (ListOp None JUndefined None))
      \<and> request ?P ?c (op_method (ListOp None JUndefined None)) (scoped_path ?P ?c (ListOp None JUndefined None))
           (op_body (ListOp None JUndefined None)) \<lparr>world = [json_ok body_empty_list], trace = []\<rparr>
         = (Inr (JObj [(''data'', JArr [])]), \<lparr>world = [], trace = [Fetch ?rql]\<rparr>)"
    by (simp add: scoped_path_def query_string_def good)
  note w3 = scoped_fallback[where P = ?P and c = ?c, THEN conjunct2, THEN conjunct2, THEN conjunct1, THEN mp, OF h3]
  \<comment> \<open>the text of a 404\<close>
  have h6: "resp_status \<lparr>resp_status = 404, resp_text = ''nope'', resp_content_type = Some ''application/json''\<rparr> = 404"
    by simp
  note w6 = scoped_fallback[where P = ?P and c = ?c, THEN conjunct2, THEN conjunct2, THEN conjunct2,
      THEN conjunct2, THEN conjunct2, THEN conjunct2, THEN conjunct2, THEN conjunct1, THEN mp, OF h6]
  \<comment> \<open>executions\<close>
  note w8 = scoped_fallback[where P = ?P and c = ?c and eop = "GetExecutionOp ''e1''"
      and s = "\<lparr>world = [json_ok body_empty_list], trace = []\<rparr>",
      THEN conjunct2, THEN conjunct2, THEN conjunct2,
      THEN conjunct2, THEN conjunct2, THEN conjunct2, THEN conjunct2, THEN conjunct2]
  have x: "fetches (new_events \<lparr>world = [json_ok body_empty_list], trace = []\<rparr>
        (exec_state ?P ?c (GetExecutionOp ''e1'') \<lparr>world = [json_ok body_empty_list], trace = []\<rparr>))
      = [build_request ?P ?c ''GET'' ''executions/e1'' None]"
    by (simp add: getExecution_def good new_events_def)
  have u1: "op_finish (GetOp ''w1'') (request ?P ?c (op_method (GetOp ''w1'')) (unscoped_path ?P (GetOp ''w1''))
       (op_body (GetOp ''w1'')) \<lparr>world = [json_ok body_empty_list], trace = [Fetch ?rq1]\<rparr>)
     = (Inr (JObj [(''data'', JArr [])]),
         \<lparr>world = [], trace = [Fetch ?rq1, Fetch (build_request ?P ?c ''GET'' ''workflows/w1'' None)]\<rparr>)"
    by (simp add: good)
  have u3: "op_finish (ListOp None JUndefined None) (Inr (JObj [(''data'', JArr [])]), \<lparr>world = [], trace = [Fetch ?rql]\<rparr>)
     = (Inr (JObj [(''data'', JArr [])]), \<lparr>world = ([] :: fetch_outcome list), trace = [Fetch ?rql]\<rparr>)"
    by (simp add: or_empty_page_def coalesce_def)
  have y: "startsWith (req_path (build_request ?P ?c ''GET'' ''executions/e1'' None)) ''executions''
      \<and> \<not> is_scoped (req_path (build_request ?P ?c ''GET'' ''executions/e1'' None))"
    using w8 unfolding x by simp
  show ?thesis
    using w1 w2 w3 w6 x y unfolding u1 u3 by (simp add: http_error_def)
qed















lemma first_some_append:
  "first_some f (xs @ ys) = (case first_some f xs of Some y \<Rightarrow> Some y | None \<Rightarrow> first_some f ys)"
  by (induction xs) (simp_all split: option.splits)

lemma first_some_none: "(\<forall>q\<in>set xs. f q = None) \<Longrightarrow> first_some f xs = None"
  by (induction xs) simp_all

lemma first_some_first:
  "(\<forall>q\<in>set pre. f q = None) \<Longrightarrow> f p = Some y \<Longrightarrow> first_some f (pre @ p # post) = Some y"
  by (simp add: first_some_append first_some_none)

lemma try_names_first_some:
  "try_names parse N rootDir names = first_some (try_config parse N) (map (config_path N rootDir) names)"
  by (induction names) (simp_all add: config_path_def Let_def split: option.splits)

lemma try_dirs_first_some:
  "try_dirs parse N dirs names
     = first_some (try_config parse N) (concat (map (\<lambda>rootDir. map (config_path N rootDir) names) dirs))"
  by (induction dirs) (simp_all add: try_names_first_some first_some_append split: option.splits)

lemma try_config_Some_iff:
  "try_config parse N p = Some cfg \<longleftrightarrow>
     (\<exists>content. readFile N p = Inr content \<and> parse content = Inr cfg
        \<and> truthy (get_prop cfg ''baseUrl'') \<and> truthy (get_prop cfg ''apiKey''))"
proof (cases "readFile N p")
  case (Inl e)
  then show ?thesis by (simp add: try_config_def)
next
  case (Inr content)
  show ?thesis
  proof (cases "parse content")
    case (Inl e)
    then show ?thesis using Inr by (simp add: try_config_def)
  next
    case cfg': (Inr config)
    show ?thesis
    proof (cases "nullish config")
      case True
      then have "\<not> truthy (get_prop config ''baseUrl'')" by (cases config) simp_all
      then show ?thesis using Inr cfg' True by (auto simp: try_config_def)
    next
      case False
      then show ?thesis using Inr cfg' by (auto simp: try_config_def)
    qed
  qed
qed

lemma config_error_text:
  "js_includes (String_of (config_error N)) ''N8N_BASE_URL + N8N_API_KEY env vars''"
  "js_includes (String_of (config_error N)) ''create config/n8n-config.local.json''"
  "js_includes (String_of (config_error N)) ''N8N_CONFIG_FILE''"
proof -
  define lit where "lit = ''Error: Failed to load n8n config. Use N8N_BASE_URL + N8N_API_KEY env vars, or create config/n8n-config.local.json with { ''
            @ dquote @ ''baseUrl'' @ dquote @ '': '' @ dquote @ ''...'' @ dquote @ '', ''
            @ dquote @ ''apiKey'' @ dquote @ '': '' @ dquote @ ''...'' @ dquote
            @ '' }. Use N8N_CONFIG_FILE for a specific config file.''"
  obtain hint where h: "String_of (config_error N) = lit @ hint"
    by (simp add: config_error_def Let_def Error_toString_Error lit_def)
  have "js_includes lit ''N8N_BASE_URL + N8N_API_KEY env vars''"
    "js_includes lit ''create config/n8n-config.local.json''"
    "js_includes lit ''N8N_CONFIG_FILE''"
    by (simp_all add: lit_def dquote_def js_includes_eval)
  then show "js_includes (String_of (config_error N)) ''N8N_BASE_URL + N8N_API_KEY env vars''"
    "js_includes (String_of (config_error N)) ''create config/n8n-config.local.json''"
    "js_includes (String_of (config_error N)) ''N8N_CONFIG_FILE''"
    unfolding h by (simp_all add: js_includes_appendI1)
qed

lemma loadConfig_files:
  "\<not> (truthy_str (env_trimmed N ''N8N_BASE_URL'') \<and> truthy_str (env_trimmed N ''N8N_API_KEY'')) \<Longrightarrow>
   loadConfig parse N =
     (case first_some (try_config parse N) (candidate_paths N) of
        Some config \<Rightarrow> Inr config
      | None \<Rightarrow> Inl (config_error N))"
  by (auto simp: loadConfig_def Let_def try_dirs_first_some candidate_paths_def)

text \<open>
  Claim C8, as amended. When the two environment variables are non-empty after trimming,
  \<^verbatim>\<open>loadConfig\<close> returns the profile built from them at once, with the trimmed scope variable
  when that is non-empty, and with \<^verbatim>\<open>rejectUnauthorized\<close> true unless the TLS variable is
  exactly \<^verbatim>\<open>false\<close>. Otherwise it returns, as parsed, the first file in the order of the
  candidate paths that can be read, parses as JSON and has a truthy \<^verbatim>\<open>baseUrl\<close> and
  \<^verbatim>\<open>apiKey\<close>; the file names are the override alone when it is set, else the local and the
  plain default. When no file qualifies it fails with a message that names the two
  environment variables, the file to create, and the override variable \<^verbatim>\<open>N8N_CONFIG_FILE\<close>.
\<close>

theorem config_resolution:
  "(truthy_str (env_trimmed N ''N8N_BASE_URL'') \<and> truthy_str (env_trimmed N ''N8N_API_KEY'')
     \<longrightarrow> loadConfig parse N =
          Inr (JObj
            [(''baseUrl'', JStr (str_of (env_trimmed N ''N8N_BASE_URL''))),
             (''apiKey'', JStr (str_of (env_trimmed N ''N8N_API_KEY''))),
             (''projectId'',
                if truthy_str (env_trimmed N ''N8N_PROJECT_ID'')
                then JStr (str_of (env_trimmed N ''N8N_PROJECT_ID'')) else JUndefined),
             (''rejectUnauthorized'', JBool (getenv N ''N8N_REJECT_UNAUTHORIZED'' \<noteq> Some ''false''))]))
   \<and> (\<not> (truthy_str (env_trimmed N ''N8N_BASE_URL'') \<and> truthy_str (env_trimmed N ''N8N_API_KEY''))
       \<and> candidate_paths N = pre @ p # post \<and> (\<forall>q\<in>set pre. try_config parse N q = None)
       \<and> try_config parse N p = Some cfg
     \<longrightarrow> loadConfig parse N = Inr cfg)
   \<and> (\<not> (truthy_str (env_trimmed N ''N8N_BASE_URL'') \<and> truthy_str (env_trimmed N ''N8N_API_KEY''))
       \<and> (\<forall>q\<in>set (candidate_paths N). try_config parse N q = None)
     \<longrightarrow> loadConfig parse N = Inl (config_error N))
   \<and> (try_config parse N p = Some cfg \<longleftrightarrow>
        (\<exists>content. readFile N p = Inr content \<and> parse content = Inr cfg
           \<and> truthy (get_prop cfg ''baseUrl'') \<and> truthy (get_prop cfg ''apiKey'')))
   \<and> (truthy_str (env_trimmed N ''N8N_CONFIG_FILE'')
     \<longrightarrow> configNames N = [str_of (env_trimmed N ''N8N_CONFIG_FILE'')])
   \<and> (\<not> truthy_str (env_trimmed N ''N8N_CONFIG_FILE'')
     \<longrightarrow> configNames N = [''config/n8n-config.local.json'', ''config/n8n-config.json''])
   \<and> js_includes (String_of (config_error N)) ''N8N_BASE_URL + N8N_API_KEY env vars''
   \<and> js_includes (String_of (config_error N)) ''create config/n8n-config.local.json''
   \<and> js_includes (String_of (config_error N)) ''N8N_CONFIG_FILE''"
proof (intro conjI impI)
  assume "truthy_str (env_trimmed N ''N8N_BASE_URL'') \<and> truthy_str (env_trimmed N ''N8N_API_KEY'')"
  then show "loadConfig parse N =
          Inr (JObj
            [(''baseUrl'', JStr (str_of (env_trimmed N ''N8N_BASE_URL''))),
             (''apiKey'', JStr (str_of (env_trimmed N ''N8N_API_KEY''))),
             (''projectId'',
                if truthy_str (env_trimmed N ''N8N_PROJECT_ID'')
                then JStr (str_of (env_trimmed N ''N8N_PROJECT_ID'')) else JUndefined),
             (''rejectUnauthorized'', JBool (getenv N ''N8N_REJECT_UNAUTHORIZED'' \<noteq> Some ''false''))])"
    by (simp add: loadConfig_def Let_def)
next
  assume h: "\<not> (truthy_str (env_trimmed N ''N8N_BASE_URL'') \<and> truthy_str (env_trimmed N ''N8N_API_KEY''))
       \<and> candidate_paths N = pre @ p # post \<and> (\<forall>q\<in>set pre. try_config parse N q = None)
       \<and> try_config parse N p = Some cfg"
  then have "first_some (try_config parse N) (candidate_paths N) = Some cfg"
    using first_some_first[of pre "try_config parse N" p cfg post] by simp
  then show "loadConfig parse N = Inr cfg"
    using h loadConfig_files[of N parse] by simp
next
  assume h: "\<not> (truthy_str (env_trimmed N ''N8N_BASE_URL'') \<and> truthy_str (env_trimmed N ''N8N_API_KEY''))
       \<and> (\<forall>q\<in>set (candidate_paths N). try_config parse N q = None)"
  then have "first_some (try_config parse N) (candidate_paths N) = None"
    using first_some_none[of "candidate_paths N" "try_config parse N"] by simp
  then show "loadConfig parse N = Inl (config_error N)"
    using h loadConfig_files[of N parse] by simp
next
  show "try_config parse N p = Some cfg \<longleftrightarrow>
        (\<exists>content. readFile N p = Inr content \<and> parse content = Inr cfg
           \<and> truthy (get_prop cfg ''baseUrl'') \<and> truthy (get_prop cfg ''apiKey''))"
    by (rule try_config_Some_iff)
next
  assume "truthy_str (env_trimmed N ''N8N_CONFIG_FILE'')"
  then show "configNames N = [str_of (env_trimmed N ''N8N_CONFIG_FILE'')]"
    by (simp add: configNames_def Let_def)
next
  assume "\<not> truthy_str (env_trimmed N ''N8N_CONFIG_FILE'')"
  then show "configNames N = [''config/n8n-config.local.json'', ''config/n8n-config.json'']"
    by (simp add: configNames_def Let_def)
qed (rule config_error_text)+

lemma test_node_sel [simp]:
  "getenv (test_node env files) = map_of env"
  "cwd (test_node env files) = ''/home/user/proj''"
  "module_dir (test_node env files) = ''/opt/n8n-cli/dist''"
  "readFile (test_node env files) = (\<lambda>p. case map_of files p of Some content \<Rightarrow> Inr content | None \<Rightarrow> Inl ENOENT)"
  "String_trim (test_node env files) = trim_blanks"
  "path_resolve (test_node env files) = join ''/''"
  "path_isAbsolute (test_node env files) = (\<lambda>p. startsWith p ''/'')"
  "path_join (test_node env files) = join ''/''"
  by (simp_all add: test_node_def)

lemma env_trimmed_test:
  "env_trimmed (test_node env files) var = map_option trim_blanks (map_of env var)"
  by (simp add: env_trimmed_def)

lemma config_bodies_parse:
  "parse_table config_bodies body_config = Inr file_config"
  "parse_table config_bodies body_bad_config = Inr (JObj [(''apiKey'', JStr ''x'')])"
  by (simp_all add: parse_table_def config_bodies_def body_config_def body_bad_config_def dquote_def)

text \<open>
  Claim C8 as stated fails in its last part: with the override \<^verbatim>\<open>N8N_CONFIG_FILE\<close> set to a
  file that does not exist, the message of the failure does not contain the path that was
  tried.
\<close>

theorem config_error_no_echo_counterexample:
  "getenv (test_node [(''N8N_CONFIG_FILE'', ''/tmp/nonexistent.json'')] []) ''N8N_CONFIG_FILE''
     = Some ''/tmp/nonexistent.json''
   \<and> loadConfig (parse_table config_bodies) (test_node [(''N8N_CONFIG_FILE'', ''/tmp/nonexistent.json'')] [])
     = Inl (config_error (test_node [(''N8N_CONFIG_FILE'', ''/tmp/nonexistent.json'')] []))
   \<and> \<not> js_includes (String_of (config_error (test_node [(''N8N_CONFIG_FILE'', ''/tmp/nonexistent.json'')] [])))
        ''/tmp/nonexistent.json''"
proof -
  let ?N = "test_node [(''N8N_CONFIG_FILE'', ''/tmp/nonexistent.json'')] []"
  have e: "env_trimmed ?N ''N8N_BASE_URL'' = None" "env_trimmed ?N ''N8N_API_KEY'' = None"
    "env_trimmed ?N ''N8N_CONFIG_FILE'' = Some ''/tmp/nonexistent.json''"
    by (simp_all add: env_trimmed_test trim_blanks_def is_blank_def)
  have names: "configNames ?N = [''/tmp/nonexistent.json'']"
    by (simp add: configNames_def e)
  have t: "try_config (parse_table config_bodies) ?N q = None" for q
    by (simp add: try_config_def)
  have l: "loadConfig (parse_table config_bodies) ?N = Inl (config_error ?N)"
    by (simp add: loadConfig_files e first_some_none t)
  have m: "\<not> js_includes (String_of (config_error ?N)) ''/tmp/nonexistent.json''"
    by (simp add: config_error_def Let_def Error_toString_Error dquote_def js_includes_eval)
  show ?thesis using l m by simp
qed

text \<open>
  The amended C8 at three stand-in processes: both variables set (with blanks around the
  address, a blank scope and the TLS variable \<^verbatim>\<open>false\<close>); no variable set, a local default
  file without \<^verbatim>\<open>baseUrl\<close> and a good plain default file; and an override that names a
  missing file.
\<close>

theorem config_resolution_witness:
  "loadConfig (parse_table config_bodies)
      (test_node [(''N8N_BASE_URL'', ''  https://env.example.com ''), (''N8N_API_KEY'', ''env-key''),
                  (''N8N_PROJECT_ID'', ''   ''), (''N8N_REJECT_UNAUTHORIZED'', ''false'')] [])
     = Inr (JObj [(''baseUrl'', JStr ''https://env.example.com''), (''apiKey'', JStr ''env-key''),
                  (''projectId'', JUndefined), (''rejectUnauthorized'', JBool False)])
   \<and> loadConfig (parse_table config_bodies)
      (test_node [] [(''/home/user/proj/config/n8n-config.local.json'', body_bad_config),
                     (''/home/user/proj/config/n8n-config.json'', body_config)])
     = Inr file_config
   \<and> loadConfig (parse_table config_bodies) (test_node [(''N8N_CONFIG_FILE'', ''/tmp/nonexistent.json'')] [])
     = Inl (config_error (test_node [(''N8N_CONFIG_FILE'', ''/tmp/nonexistent.json'')] []))
   \<and> configNames (test_node [(''N8N_CONFIG_FILE'', ''/tmp/nonexistent.json'')] []) = [''/tmp/nonexistent.json'']"
proof -
  let ?parse = "parse_table config_bodies"
  \<comment> \<open>the environment\<close>
  let ?N1 = "test_node [(''N8N_BASE_URL'', ''  https://env.example.com ''), (''N8N_API_KEY'', ''env-key''),
                  (''N8N_PROJECT_ID'', ''   ''), (''N8N_REJECT_UNAUTHORIZED'', ''false'')] []"
  have e1: "env_trimmed ?N1 ''N8N_BASE_URL'' = Some ''https://env.example.com''"
    "env_trimmed ?N1 ''N8N_API_KEY'' = Some ''env-key''"
    "env_trimmed ?N1 ''N8N_PROJECT_ID'' = Some []"
    "getenv ?N1 ''N8N_REJECT_UNAUTHORIZED'' = Some ''false''"
    by (simp_all add: env_trimmed_test trim_blanks_def is_blank_def)
  have h1: "truthy_str (env_trimmed ?N1 ''N8N_BASE_URL'') \<and> truthy_str (env_trimmed ?N1 ''N8N_API_KEY'')"
    by (simp add: e1)
  note w1 = config_resolution[where N = ?N1 and parse = ?parse, THEN conjunct1, THEN mp, OF h1]
  \<comment> \<open>the default files\<close>
  let ?files = "[(''/home/user/proj/config/n8n-config.local.json'', body_bad_config),
                     (''/home/user/proj/config/n8n-config.json'', body_config)]"
  let ?N2 = "test_node [] ?files"
  have e2: "env_trimmed ?N2 var = None" for var
    by (simp add: env_trimmed_test)
  have cp: "candidate_paths ?N2 =
      [''/home/user/proj/config/n8n-config.local.json''] @ ''/home/user/proj/config/n8n-config.json''
       # [''/home/user/proj/../config/n8n-config.local.json'', ''/home/user/proj/../config/n8n-config.json'',
          ''/opt/n8n-cli/dist/../config/n8n-config.local.json'', ''/opt/n8n-cli/dist/../config/n8n-config.json'',
          ''/opt/n8n-cli/dist/../../config/n8n-config.local.json'', ''/opt/n8n-cli/dist/../../config/n8n-config.json'']"
    by (simp add: candidate_paths_def candidates_def configNames_def e2 config_path_def startsWith_def)
  have bad: "try_config ?parse ?N2 ''/home/user/proj/config/n8n-config.local.json'' = None"
    by (simp add: try_config_def config_bodies_parse)
  have good: "try_config ?parse ?N2 ''/home/user/proj/config/n8n-config.json'' = Some file_config"
    by (simp add: try_config_def config_bodies_parse) (simp add: file_config_def)
  have h2: "\<not> (truthy_str (env_trimmed ?N2 ''N8N_BASE_URL'') \<and> truthy_str (env_trimmed ?N2 ''N8N_API_KEY''))
       \<and> candidate_paths ?N2 = [''/home/user/proj/config/n8n-config.local.json'']
            @ ''/home/user/proj/config/n8n-config.json''
            # [''/home/user/proj/../config/n8n-config.local.json'', ''/home/user/proj/../config/n8n-config.json'',
          ''/opt/n8n-cli/dist/../config/n8n-config.local.json'', ''/opt/n8n-cli/dist/../config/n8n-config.json'',
          ''/opt/n8n-cli/dist/../../config/n8n-config.local.json'', ''/opt/n8n-cli/dist/../../config/n8n-config.json'']
       \<and> (\<forall>q\<in>set [''/home/user/proj/config/n8n-config.local.json'']. try_config ?parse ?N2 q = None)
       \<and> try_config ?parse ?N2 ''/home/user/proj/config/n8n-config.json'' = Some file_config"
    using cp bad good by (simp add: e2)
  note w2 = config_resolution[where N = ?N2 and parse = ?parse, THEN conjunct2, THEN conjunct1, THEN mp, OF h2]
  \<comment> \<open>the missing override\<close>
  let ?N0 = "test_node [(''N8N_CONFIG_FILE'', ''/tmp/nonexistent.json'')] []"
  have e0: "env_trimmed ?N0 ''N8N_BASE_URL'' = None" "env_trimmed ?N0 ''N8N_API_KEY'' = None"
    "env_trimmed ?N0 ''N8N_CONFIG_FILE'' = Some ''/tmp/nonexistent.json''"
    by (simp_all add: env_trimmed_test trim_blanks_def is_blank_def)
  have h3: "\<not> (truthy_str (env_trimmed ?N0 ''N8N_BASE_URL'') \<and> truthy_str (env_trimmed ?N0 ''N8N_API_KEY''))
       \<and> (\<forall>q\<in>set (candidate_paths ?N0). try_config ?parse ?N0 q = None)"
    by (simp add: e0 try_config_def)
  note w3 = config_resolution[where N = ?N0 and parse = ?parse, THEN conjunct2, THEN conjunct2, THEN conjunct1,
      THEN mp, OF h3]
  have h5: "truthy_str (env_trimmed ?N0 ''N8N_CONFIG_FILE'')" by (simp add: e0)
  note w5 = config_resolution[where N = ?N0 and parse = ?parse, THEN conjunct2, THEN conjunct2, THEN conjunct2,
      THEN conjunct2, THEN conjunct1, THEN mp, OF h5]
  show ?thesis using w1 w2 w3 w5 by (simp add: e1 e0)
qed

lemma js_includes_appendI2: "js_includes t x \<Longrightarrow> js_includes (s @ t) x"
  by (auto simp: js_includes_def sublist_def) (metis append.assoc)

lemma fetch_failed_retryable:
  assumes "err_name e \<noteq> ''AbortError''" and "js_includes (err_message e) ''fetch failed''"
  shows "handle_outcome P c (Rejects e) = Inl (ErrorObj e)"
    and "isRetryable (ErrorObj e) (status_of (ErrorObj e))"
proof -
  show "handle_outcome P c (Rejects e) = Inl (ErrorObj e)"
    using assms(1) by (simp add: handle_outcome_def rethrow_def)
  have ne: "err_message e \<noteq> []" using assms(2) by (auto simp: js_includes_Nil)
  have "js_includes ((err_name e @ '': '') @ err_message e) ''fetch failed''"
    by (rule js_includes_appendI2[OF assms(2)])
  then have "js_includes (Error_toString e) ''fetch failed''"
    using assms(2) ne by (simp add: Error_toString_def)
  then show "isRetryable (ErrorObj e) (status_of (ErrorObj e))"
    by (simp add: isRetryable_iff has_retry_signature_def)
qed

lemma connection_refused_retryable:
  "handle_outcome P c (Rejects connection_refused) = Inl (ErrorObj connection_refused)"
  "isRetryable (ErrorObj connection_refused) (status_of (ErrorObj connection_refused))"
  by (rule fetch_failed_retryable; simp add: connection_refused_def js_includes_eval)+

lemma abort_retryable:
  assumes "err_name e = ''AbortError''"
  shows "handle_outcome P c (Rejects e) = Inl (timeout_error c)"
    and "isRetryable (timeout_error c) (status_of (timeout_error c))"
proof -
  show "handle_outcome P c (Rejects e) = Inl (timeout_error c)"
    using assms by (simp add: handle_outcome_def rethrow_def timeout_error_def)
  have "js_includes (''Error: n8n API request '' @ ''timed out'' @ '' after '' @ show_nat (timeoutMs c) @ ''ms'') ''timed out''"
    by (rule js_includes_middle)
  then show "isRetryable (timeout_error c) (status_of (timeout_error c))"
    by (simp add: isRetryable_iff has_retry_signature_def timeout_error_def Error_toString_Error)
qed

text \<open>
  Claim C3, as amended. A failed attempt with loop counter \<open>a\<close> is followed by a wait and
  another attempt exactly when \<open>a < maxRetries\<close> and \<^verbatim>\<open>isRetryable\<close> holds, and
  \<^verbatim>\<open>isRetryable\<close> holds exactly when the status is 429 or 5xx or the string form of the error
  contains one of \<^verbatim>\<open>timed out\<close>, \<^verbatim>\<open>AbortError\<close>, \<^verbatim>\<open>ECONNRESET\<close>, \<^verbatim>\<open>ETIMEDOUT\<close>,
  \<^verbatim>\<open>fetch failed\<close>, whatever the kind of failure, an HTTP error included. Any other
  failure ends the call with that error after the one attempt, whatever \<open>maxRetries\<close> is; a
  4xx other than 429 whose text has none of the signatures is such a failure. A rejection
  of \<^verbatim>\<open>fetch\<close> whose message contains \<^verbatim>\<open>fetch failed\<close> is retryable whatever its cause, and so
  is a refused connection as \<^verbatim>\<open>fetch\<close> reports it; an attempt aborted by its timer ends with
  the timeout error, which is retryable.
\<close>

theorem request_retry_decision:
  assumes "0 \<le> a" and "a \<le> retries c" and "doRequest P c m p b s = (Inl err, s')"
  shows
   "(isRetryable err (status_of err) \<longleftrightarrow>
       status_of err = Some 429 \<or> (\<exists>n. status_of err = Some n \<and> 500 \<le> n \<and> n < 600)
       \<or> has_retry_signature (String_of err))
    \<and> (a < retries c \<and> isRetryable err (status_of err) \<longrightarrow>
         (\<exists>evs. trace (snd (request_loop P c m p b a le s))
            = trace s @ [Fetch (build_request P c m p b), Sleep (delay a), Fetch (build_request P c m p b)] @ evs))
    \<and> (\<not> (a < retries c \<and> isRetryable err (status_of err)) \<longrightarrow>
         request_loop P c m p b a le s = (Inl err, s')
         \<and> trace s' = trace s @ [Fetch (build_request P c m p b)])
    \<and> (\<not> isRetryable err (status_of err) \<and> a = 0 \<longrightarrow>
         request P c m p b s = (Inl err, s')
         \<and> fetches (trace s') = fetches (trace s) @ [build_request P c m p b])
    \<and> ((\<exists>n. status_of err = Some n \<and> 400 \<le> n \<and> n < 500 \<and> n \<noteq> 429)
          \<and> \<not> has_retry_signature (String_of err) \<longrightarrow> \<not> isRetryable err (status_of err))
    \<and> (err_name e \<noteq> ''AbortError'' \<and> js_includes (err_message e) ''fetch failed'' \<longrightarrow>
         handle_outcome P c (Rejects e) = Inl (ErrorObj e)
         \<and> isRetryable (ErrorObj e) (status_of (ErrorObj e)))
    \<and> handle_outcome P c (Rejects connection_refused) = Inl (ErrorObj connection_refused)
    \<and> isRetryable (ErrorObj connection_refused) (status_of (ErrorObj connection_refused))
    \<and> (err_name e = ''AbortError'' \<longrightarrow>
         handle_outcome P c (Rejects e) = Inl (timeout_error c)
         \<and> isRetryable (timeout_error c) (status_of (timeout_error c)))"
proof (intro conjI impI)
  show "isRetryable err (status_of err) \<longleftrightarrow>
       status_of err = Some 429 \<or> (\<exists>n. status_of err = Some n \<and> 500 \<le> n \<and> n < 600)
       \<or> has_retry_signature (String_of err)"
    by (rule isRetryable_iff)
next
  have t: "trace s' = trace s @ [Fetch (build_request P c m p b)]"
    using trace_doRequest[of P c m p b s] assms(3) by simp
  {
    assume r: "a < retries c \<and> isRetryable err (status_of err)"
    then have step: "request_loop P c m p b a le s = request_loop P c m p b (a + 1) err (sleep (delay a) s')"
      using request_loop_retry[OF _ assms(3)] by simp
    from request_loop_trace[of "a + 1" c P m p b err "sleep (delay a) s'"] assms(1) r
    obtain n where "trace (snd (request_loop P c m p b (a + 1) err (sleep (delay a) s')))
        = trace (sleep (delay a) s') @ retry_trace (build_request P c m p b) (nat (a + 1)) n"
      by auto
    moreover obtain evs where "retry_trace (build_request P c m p b) (nat (a + 1)) n = Fetch (build_request P c m p b) # evs"
      using retry_trace_starts by blast
    ultimately show "\<exists>evs. trace (snd (request_loop P c m p b a le s))
            = trace s @ [Fetch (build_request P c m p b), Sleep (delay a), Fetch (build_request P c m p b)] @ evs"
      using step t by (simp add: sleep_def)
  }
  {
    assume n: "\<not> (a < retries c \<and> isRetryable err (status_of err))"
    show "request_loop P c m p b a le s = (Inl err, s')"
      by (rule request_loop_stop[OF assms(2,3) n])
    show "trace s' = trace s @ [Fetch (build_request P c m p b)]" by (rule t)
  }
  {
    assume n: "\<not> isRetryable err (status_of err) \<and> a = 0"
    then have "\<not> (a < retries c \<and> isRetryable err (status_of err))" by simp
    from request_loop_stop[OF assms(2,3) this] n
    show "request P c m p b s = (Inl err, s')" by (simp add: request_def)
    show "fetches (trace s') = fetches (trace s) @ [build_request P c m p b]"
      by (simp add: t fetches_append)
  }
next
  assume "(\<exists>n. status_of err = Some n \<and> 400 \<le> n \<and> n < 500 \<and> n \<noteq> 429)
          \<and> \<not> has_retry_signature (String_of err)"
  then show "\<not> isRetryable err (status_of err)"
    by (auto simp: isRetryable_iff)
next
  assume f: "err_name e \<noteq> ''AbortError'' \<and> js_includes (err_message e) ''fetch failed''"
  show "handle_outcome P c (Rejects e) = Inl (ErrorObj e)"
    using f by (intro fetch_failed_retryable(1)) simp_all
  show "isRetryable (ErrorObj e) (status_of (ErrorObj e))"
    using f by (intro fetch_failed_retryable(2)) simp_all
next
  show "handle_outcome P c (Rejects connection_refused) = Inl (ErrorObj connection_refused)"
    by (rule connection_refused_retryable)
  show "isRetryable (ErrorObj connection_refused) (status_of (ErrorObj connection_refused))"
    by (rule connection_refused_retryable)
next
  assume ab: "err_name e = ''AbortError''"
  show "handle_outcome P c (Rejects e) = Inl (timeout_error c)" by (rule abort_retryable(1)[OF ab])
  show "isRetryable (timeout_error c) (status_of (timeout_error c))" by (rule abort_retryable(2)[OF ab])
qed

lemma show_nat_408: "show_nat 408 = ''408''" by code_simp

lemma digit_char_0_3: "digit_char 0 = CHR ''0''" "digit_char 3 = CHR ''3''"
  by code_simp+

lemma show_nat_30000: "show_nat 30000 = ''30000''"
  by (simp add: show_nat.simps[of 30000] show_nat.simps[of 3000] show_nat.simps[of 300] show_nat.simps[of 30]
      show_nat.simps[of 3] digit_char_0_3)

lemma timed_out_408:
  "handle_outcome (scripted test_bodies) c (http_error 408 ''Request timed out'')
     = Inl (ErrorObj ((Error ''n8n API error 408: Request timed out'')\<lparr>err_status := Some 408\<rparr>))"
proof -
  have "map_of test_bodies ''Request timed out'' = None"
    by (simp add: test_bodies_def body_message_def body_nested_def body_empty_list_def dquote_def)
  then show ?thesis
    using handle_http_error_scripted[of 408 test_bodies "''Request timed out''" c] by (simp add: show_nat_408)
qed

text \<open>
  Claim C3 as stated fails: an HTTP 408 answer with the text \<^verbatim>\<open>Request timed out\<close> is a 4xx
  other than 429, so it is not retryable in the words of the specification and should end
  the call after one attempt. With \<open>maxRetries = 1\<close> the call waits 1000 ms, makes a second
  attempt and returns its answer.
\<close>

theorem retry_http_408_counterexample:
  "handle_outcome (scripted test_bodies) (test_client None 1) (http_error 408 ''Request timed out'')
     = Inl (ErrorObj ((Error ''n8n API error 408: Request timed out'')\<lparr>err_status := Some 408\<rparr>))
   \<and> \<not> spec_isRetryable (ErrorObj ((Error ''n8n API error 408: Request timed out'')\<lparr>err_status := Some 408\<rparr>))
   \<and> request (scripted test_bodies) (test_client None 1) ''GET'' ''workflows'' None
        \<lparr>world = [http_error 408 ''Request timed out'', json_ok body_empty_list], trace = []\<rparr>
      = (Inr (JObj [(''data'', JArr [])]),
         \<lparr>world = [],
          trace = [Fetch (build_request (scripted test_bodies) (test_client None 1) ''GET'' ''workflows'' None),
                   Sleep 1000,
                   Fetch (build_request (scripted test_bodies) (test_client None 1) ''GET'' ''workflows'' None)]\<rparr>)"
proof (intro conjI)
  let ?P = "scripted test_bodies"
  let ?c = "test_client None 1"
  let ?rq = "build_request ?P ?c ''GET'' ''workflows'' None"
  let ?e = "ErrorObj ((Error ''n8n API error 408: Request timed out'')\<lparr>err_status := Some 408\<rparr>)"
  let ?s = "\<lparr>world = [http_error 408 ''Request timed out'', json_ok body_empty_list], trace = []\<rparr>"
  let ?s1 = "\<lparr>world = [json_ok body_empty_list], trace = [Fetch ?rq]\<rparr>"
  show h: "handle_outcome ?P ?c (http_error 408 ''Request timed out'') = Inl ?e"
    by (rule timed_out_408)
  show "\<not> spec_isRetryable ?e"
    by (simp add: spec_isRetryable_def)
  have d1: "doRequest ?P ?c ''GET'' ''workflows'' None ?s = (Inl ?e, ?s1)"
    by (simp add: doRequest_eq scripted_fetch_Cons h)
  have r: "isRetryable ?e (status_of ?e)"
    by (simp add: isRetryable_iff has_retry_signature_def Error_toString_Error js_includes_eval)
  have step: "request_loop ?P ?c ''GET'' ''workflows'' None 0 (NonError JUndefined) ?s
      = request_loop ?P ?c ''GET'' ''workflows'' None (0 + 1) ?e (sleep (delay 0) ?s1)"
    by (rule request_loop_retry[OF _ d1 r]) simp
  have hk: "handle_outcome ?P ?c (json_ok body_empty_list) = Inr (JObj [(''data'', JArr [])])"
    by (rule handle_json_ok) (simp_all add: body_empty_list_nonempty scripted_parse test_bodies_parse)
  have d2: "doRequest ?P ?c ''GET'' ''workflows'' None (sleep (delay 0) ?s1)
      = (Inr (JObj [(''data'', JArr [])]), \<lparr>world = [], trace = [Fetch ?rq, Sleep 1000, Fetch ?rq]\<rparr>)"
    by (simp add: doRequest_eq scripted_fetch_Cons hk sleep_def delay_def)
  show "request ?P ?c ''GET'' ''workflows'' None ?s
      = (Inr (JObj [(''data'', JArr [])]), \<lparr>world = [], trace = [Fetch ?rq, Sleep 1000, Fetch ?rq]\<rparr>)"
    unfolding request_def step by (rule request_loop_ok[OF _ d2]) simp
qed

text \<open>
  The amended C3 at a scripted transport with \<open>maxRetries = 3\<close>: an HTTP 404 ends the call
  after one attempt; an HTTP 503, and a refused connection as \<^verbatim>\<open>fetch\<close> reports it, are each
  followed by a wait of 1000 ms and a second attempt.
\<close>

theorem request_retry_decision_witness:
  "doRequest (scripted []) (test_client None 3) ''GET'' ''workflows'' None
        \<lparr>world = [http_error 404 ''nope'', json_ok body_empty_list], trace = []\<rparr>
      = (Inl (ErrorObj ((Error ''n8n API error 404: nope'')\<lparr>err_status := Some 404\<rparr>)),
         \<lparr>world = [json_ok body_empty_list],
          trace = [Fetch (build_request (scripted []) (test_client None 3) ''GET'' ''workflows'' None)]\<rparr>)
   \<and> request (scripted []) (test_client None 3) ''GET'' ''workflows'' None
        \<lparr>world = [http_error 404 ''nope'', json_ok body_empty_list], trace = []\<rparr>
      = (Inl (ErrorObj ((Error ''n8n API error 404: nope'')\<lparr>err_status := Some 404\<rparr>)),
         \<lparr>world = [json_ok body_empty_list],
          trace = [Fetch (build_request (scripted []) (test_client None 3) ''GET'' ''workflows'' None)]\<rparr>)
   \<and> (\<exists>evs. trace (snd (request_loop (scripted []) (test_client None 3) ''GET'' ''workflows'' None 0
          (NonError JUndefined) \<lparr>world = [http_error 503 ''busy'', json_ok body_empty_list], trace = []\<rparr>))
        = [Fetch (build_request (scripted []) (test_client None 3) ''GET'' ''workflows'' None), Sleep 1000,
           Fetch (build_request (scripted []) (test_client None 3) ''GET'' ''workflows'' None)] @ evs)
   \<and> (\<exists>evs. trace (snd (request_loop (scripted []) (test_client None 3) ''GET'' ''workflows'' None 0
          (NonError JUndefined) \<lparr>world = [Rejects connection_refused, json_ok body_empty_list], trace = []\<rparr>))
        = [Fetch (build_request (scripted []) (test_client None 3) ''GET'' ''workflows'' None), Sleep 1000,
           Fetch (build_request (scripted []) (test_client None 3) ''GET'' ''workflows'' None)] @ evs)
   \<and> handle_outcome (scripted []) (test_client None 3)
        (Rejects \<lparr>err_name = ''AbortError'', err_message = ''This operation was aborted'',
                  err_status = None, err_cause = None\<rparr>)
      = Inl (ErrorObj (Error ''n8n API request timed out after 30000ms''))"
proof -
  let ?P = "scripted [] :: fetch_outcome list platform"
  let ?c = "test_client None 3"
  let ?rq = "build_request ?P ?c ''GET'' ''workflows'' None"
  let ?e = "ErrorObj ((Error ''n8n API error 404: nope'')\<lparr>err_status := Some 404\<rparr>)"
  let ?s = "\<lparr>world = [http_error 404 ''nope'', json_ok body_empty_list], trace = []\<rparr>"
  let ?s' = "\<lparr>world = [json_ok body_empty_list], trace = [Fetch ?rq]\<rparr>"
  have a0: "(0::int) \<le> 0" and a1: "0 \<le> retries ?c" by simp_all
  have d: "doRequest ?P ?c ''GET'' ''workflows'' None ?s = (Inl ?e, ?s')"
    by (simp add: doRequest_eq scripted_fetch_Cons handle_http_error_scripted show_nat_404)
  have n: "\<not> isRetryable ?e (status_of ?e) \<and> (0::int) = 0"
    by (simp add: isRetryable_iff has_retry_signature_def Error_toString_Error js_includes_eval)
  note A = request_retry_decision[OF a0 a1 d, of "NonError JUndefined",
      THEN conjunct2, THEN conjunct2, THEN conjunct2, THEN conjunct1, THEN mp, OF n, THEN conjunct1]
  let ?f = "ErrorObj ((Error ''n8n API error 503: busy'')\<lparr>err_status := Some 503\<rparr>)"
  let ?t = "\<lparr>world = [http_error 503 ''busy'', json_ok body_empty_list], trace = []\<rparr>"
  have sn: "show_nat 503 = ''503''" by code_simp
  have d2: "doRequest ?P ?c ''GET'' ''workflows'' None ?t = (Inl ?f, ?s')"
    by (simp add: doRequest_eq scripted_fetch_Cons handle_http_error_scripted sn)
  have r: "0 < retries ?c \<and> isRetryable ?f (status_of ?f)"
    by (simp add: isRetryable_def)
  note B = request_retry_decision[OF a0 a1 d2, of "NonError JUndefined",
      THEN conjunct2, THEN conjunct1, THEN mp, OF r]
  let ?u = "\<lparr>world = [Rejects connection_refused, json_ok body_empty_list], trace = []\<rparr>"
  note R = request_retry_decision[OF a0 a1 d, THEN conjunct2, THEN conjunct2, THEN conjunct2,
      THEN conjunct2, THEN conjunct2, THEN conjunct2]
  have d3: "doRequest ?P ?c ''GET'' ''workflows'' None ?u = (Inl (ErrorObj connection_refused), ?s')"
    using R[THEN conjunct1] by (simp add: doRequest_eq scripted_fetch_Cons)
  have r3: "0 < retries ?c \<and> isRetryable (ErrorObj connection_refused) (status_of (ErrorObj connection_refused))"
    using R[THEN conjunct2, THEN conjunct1] by simp
  note C = request_retry_decision[OF a0 a1 d3, of "NonError JUndefined",
      THEN conjunct2, THEN conjunct1, THEN mp, OF r3]
  let ?ab = "\<lparr>err_name = ''AbortError'', err_message = ''This operation was aborted'',
                  err_status = None, err_cause = None\<rparr>"
  have ab: "err_name ?ab = ''AbortError''" by simp
  note T = request_retry_decision[OF a0 a1 d, where e = ?ab, THEN conjunct2, THEN conjunct2,
      THEN conjunct2, THEN conjunct2, THEN conjunct2, THEN conjunct2, THEN conjunct2, THEN conjunct2,
      THEN mp, OF ab, THEN conjunct1]
  have to: "timeout_error ?c = ErrorObj (Error ''n8n API request timed out after 30000ms'')"
    by (simp add: timeout_error_def test_client_def N8nClient_def show_nat_30000)
  show ?thesis using d A B C T by (simp add: delay_def to)
qed



















lemma projectId_N8nClient [simp]: "projectId (N8nClient config) = cfg_projectId config"
  by (simp add: N8nClient_def)












lemma or_else_Inr [simp]: "or_else (Inr a) (Inr b) = Inr (a \<or> b)"
  by simp

lemma if_return_strings:
  "if_return (Inr b) (Inr (JStr x)) (Inr (JStr y)) = Inr (JStr (if b then x else y))"
  by simp

lemma template_JStr: "template pre (JStr s) post = Inr (JStr (pre @ s @ post))"
  by (simp add: template_def)

lemma chain_strings:
  "if_return (or_else (call_includes (JStr msg) ''401'') (call_includes (JStr msg) ''unauthorized''))
                (Inr (JStr msg_unauthorized))
             (if_return (or_else (call_includes (JStr msg) ''403'') (call_includes (JStr msg) ''forbidden''))
                (Inr (JStr msg_forbidden))
             (if_return (or_else (call_includes (JStr msg) ''404'') (call_includes (JStr msg) ''not found''))
                (Inr (JStr msg_not_found))
             (if_return (or_else (Inr (code = JStr ''ENOTFOUND''))
                          (or_else (call_includes (JStr cmsg) ''ENOTFOUND'') (call_includes (JStr msg) ''getaddrinfo'')))
                (Inr (JStr msg_enotfound))
             (if_return (or_else (Inr (code = JStr ''ECONNREFUSED'')) (call_includes (JStr cmsg) ''ECONNREFUSED''))
                (Inr (JStr msg_econnrefused))
             (if_return (or_else (Inr (code = JStr ''SELF_SIGNED_CERT_IN_CHAIN''))
                          (or_else (call_includes (JStr cmsg) ''SELF_SIGNED_CERT'') (call_includes (JStr msg) ''self-signed'')))
                (Inr (JStr msg_self_signed))
             (if_return (or_else (call_includes (JStr msg) ''timed out'') (call_includes (JStr msg) ''AbortError''))
                (Inr (JStr msg_timeout))
             (if_return (call_includes (JStr msg) ''n8n API error'')
                (template [] (JStr msg) hint_api_error)
             (if_return (or_else (call_includes (JStr msg) ''fetch failed'') (Inr (truthy (JStr cmsg))))
                (template ''Connection failed: '' (if truthy (JStr cmsg) then JStr cmsg else JStr msg) hint_connection)
             (Inr (JStr msg))))))))))
   = Inr (JStr (first_match (categories msg code cmsg) msg))"
proof -
  have t: "template ''Connection failed: '' (if cmsg \<noteq> [] then JStr cmsg else JStr msg) hint_connection
      = Inr (JStr (''Connection failed: '' @ (if cmsg \<noteq> [] then cmsg else msg) @ hint_connection))"
    by (simp add: template_JStr)
  show ?thesis
    unfolding categories_def first_match.simps call_includes.simps or_else_Inr truthy.simps
      template_JStr t if_return_strings append_Nil
    by (rule refl)
qed

lemma toFriendly_cause:
  assumes "coalesce (get_prop c ''message'') (JStr []) = JStr cmsg"
  shows "toFriendlyApiError (ErrorInstance (JStr msg) (Some c))
     = Inr (JStr (first_match (categories msg (coalesce (get_prop c ''code'') (JStr [])) cmsg) msg))"
  unfolding toFriendlyApiError_def Let_def unknown.case option.case sum.case assms
  by (rule chain_strings)

lemma coalesce_JNull: "coalesce (get_prop JNull k) d = d"
  by (simp add: coalesce_def)

lemma toFriendly_no_cause:
  "toFriendlyApiError (ErrorInstance (JStr msg) None) = Inr (JStr (first_match (categories msg (JStr []) []) msg))"
  unfolding toFriendlyApiError_def Let_def unknown.case option.case sum.case coalesce_JNull
  by (rule chain_strings)

lemma toFriendly_Value:
  assumes "ToString v = Inr msg"
  shows "toFriendlyApiError (Value v) = Inr (JStr (first_match (categories msg (JStr []) []) msg))"
  unfolding toFriendlyApiError_def Let_def unknown.case option.case sum.case coalesce_JNull assms
  by (rule chain_strings)

lemma toFriendly_Value_throws:
  assumes "ToString v = Inl e"
  shows "toFriendlyApiError (Value v) = Inl TypeError"
  using assms by (cases e) (simp add: toFriendlyApiError_def)

lemma toFriendly_NoPrototype: "toFriendlyApiError (NoPrototype kvs) = Inl TypeError"
  by (simp add: toFriendlyApiError_def)

lemma call_includes_throws: "\<not> has_includes v \<Longrightarrow> call_includes v sub = Inl TypeError"
  by (cases v) simp_all

lemma toFriendly_message_throws:
  assumes "\<not> has_includes m"
  shows "toFriendlyApiError (ErrorInstance m co) = Inl TypeError"
  unfolding toFriendlyApiError_def Let_def unknown.case sum.case call_includes_throws[OF assms]
    or_else.simps if_return.simps
  by (rule refl)

lemma toFriendly_cause_throws:
  assumes "\<not> has_includes (coalesce (get_prop c ''message'') (JStr []))"
    and "coalesce (get_prop c ''code'') (JStr []) \<noteq> JStr ''ENOTFOUND''"
    and "\<not> js_includes msg ''401''" and "\<not> js_includes msg ''unauthorized''"
    and "\<not> js_includes msg ''403''" and "\<not> js_includes msg ''forbidden''"
    and "\<not> js_includes msg ''404''" and "\<not> js_includes msg ''not found''"
  shows "toFriendlyApiError (ErrorInstance (JStr msg) (Some c)) = Inl TypeError"
  unfolding toFriendlyApiError_def Let_def unknown.case option.case sum.case
    call_includes_throws[OF assms(1)] call_includes.simps
  using assms(2-) by simp

lemma as_unknown_ErrorObj:
  "as_unknown (ErrorObj e) =
     (case err_cause e of
        None \<Rightarrow> ErrorInstance (JStr (err_message e)) None
      | Some k \<Rightarrow> Error_with_cause (err_message e) (cause_code k) (cause_message k))"
  by (cases "err_cause e") (simp_all add: as_unknown_def Error_with_cause_def)

lemma cause_object_props:
  "coalesce (get_prop (cause_object code cmsg) ''message'') (JStr []) = JStr (or_empty cmsg)"
  "coalesce (get_prop (cause_object code cmsg) ''code'') (JStr []) = JStr (or_empty code)"
  by (cases code; cases cmsg; simp add: cause_object_def coalesce_def)+

lemma toFriendly_Error_with_cause:
  "toFriendlyApiError (Error_with_cause msg code cmsg)
     = Inr (JStr (first_match (categories msg (JStr (or_empty code)) (or_empty cmsg)) msg))"
  unfolding Error_with_cause_def
  using toFriendly_cause[OF cause_object_props(1), of msg code cmsg] by (simp only: cause_object_props(2))

lemma toFriendly_client_error: "\<exists>r. toFriendlyApiError (as_unknown (ErrorObj e)) = Inr (JStr r)"
  by (cases "err_cause e") (simp_all add: as_unknown_ErrorObj toFriendly_no_cause toFriendly_Error_with_cause)

lemma distinct_fixed: "distinct fixed_messages"
  by (simp add: fixed_messages_def msg_unauthorized_def msg_forbidden_def msg_not_found_def
      msg_enotfound_def msg_econnrefused_def msg_self_signed_def msg_timeout_def)

lemma hint_api_not_suffix:
  "\<not> suffix hint_api_error msg_unauthorized" "\<not> suffix hint_api_error msg_forbidden"
  "\<not> suffix hint_api_error msg_not_found" "\<not> suffix hint_api_error msg_enotfound"
  "\<not> suffix hint_api_error msg_econnrefused" "\<not> suffix hint_api_error msg_self_signed"
  "\<not> suffix hint_api_error msg_timeout"
  "\<not> suffix hint_api_error hint_connection" "\<not> suffix hint_connection hint_api_error"
  by code_simp+

lemma api_passthrough_not_fixed: "m @ hint_api_error \<notin> set fixed_messages"
proof
  assume "m @ hint_api_error \<in> set fixed_messages"
  then obtain F where F: "F \<in> set fixed_messages" "F = m @ hint_api_error" by blast
  then have "suffix hint_api_error F" by (simp add: suffix_def)
  with F(1) show False
    using hint_api_not_suffix by (auto simp: fixed_messages_def)
qed

lemma connection_not_fixed: "''Connection failed: '' @ x @ hint_connection \<notin> set fixed_messages"
  by (simp add: fixed_messages_def msg_unauthorized_def msg_forbidden_def msg_not_found_def
      msg_enotfound_def msg_econnrefused_def msg_self_signed_def msg_timeout_def)

lemma api_not_connection: "m @ hint_api_error \<noteq> ''Connection failed: '' @ x @ hint_connection"
proof
  assume eq: "m @ hint_api_error = ''Connection failed: '' @ x @ hint_connection"
  have a: "suffix hint_api_error (m @ hint_api_error)" by (simp add: suffix_def)
  have "suffix hint_connection ((''Connection failed: '' @ x) @ hint_connection)"
    unfolding suffix_def by blast
  then have b: "suffix hint_connection (m @ hint_api_error)" using eq by simp
  from suffix_same_cases[OF a b] show False
    using hint_api_not_suffix(8,9) by blast
qed

lemma unrecognized_unchanged:
  assumes "unrecognized m"
  shows "toFriendlyApiError (Value (JStr m)) = Inr (JStr m)"
    and "toFriendlyApiError (new_Error m) = Inr (JStr m)"
proof -
  have "first_match (categories m (JStr []) []) m = m"
    using assms by (simp add: categories_def unrecognized_def js_includes_Nil)
  then show "toFriendlyApiError (Value (JStr m)) = Inr (JStr m)"
    and "toFriendlyApiError (new_Error m) = Inr (JStr m)"
    by (simp_all add: toFriendly_Value toFriendly_no_cause new_Error_def)
qed

lemmas friendly_eval = new_Error_def toFriendly_no_cause toFriendly_Error_with_cause categories_def
  or_empty.simps first_match.simps js_includes_eval

lemmas friendly_texts = msg_unauthorized_def msg_forbidden_def msg_not_found_def msg_enotfound_def
  msg_econnrefused_def msg_self_signed_def msg_timeout_def hint_api_error_def hint_connection_def
  newline_def arrow_def

lemma friendly_scenarios:
  "toFriendlyApiError (new_Error ''401'')
      = Inr (JStr (''Invalid API key. Update apiKey in your config (n8n-config.local.json or N8N_API_KEY).'' @ [CHR 0x0A]
          @ ''  Create an API key in n8n: Settings '' @ [CHR 0xE2, CHR 0x86, CHR 0x92] @ '' API.''))"
  "toFriendlyApiError (new_Error ''n8n API error 403: forbidden'')
      = Inr (JStr (''Access denied (403). Check that your API key has the required permissions.'' @ [CHR 0x0A]
          @ ''  Create or regenerate an API key in n8n: Settings '' @ [CHR 0xE2, CHR 0x86, CHR 0x92] @ '' API.''))"
  "toFriendlyApiError (new_Error ''404 not found'')
      = Inr (JStr (''n8n instance not found. Check baseUrl in your config (n8n-config.local.json or N8N_BASE_URL).'' @ [CHR 0x0A]
          @ ''  Ensure the URL is correct and n8n is running.''))"
  "toFriendlyApiError (Error_with_cause ''fetch failed'' (Some ''ENOTFOUND'') (Some ''getaddrinfo ENOTFOUND''))
      = Inr (JStr (''Cannot resolve n8n hostname. Check baseUrl in your config (n8n-config.local.json or N8N_BASE_URL).'' @ [CHR 0x0A]
          @ ''  Ensure the URL is correct and reachable from your network.''))"
  "toFriendlyApiError (new_Error ''getaddrinfo ENOTFOUND host.example.com'')
      = Inr (JStr (''Cannot resolve n8n hostname. Check baseUrl in your config (n8n-config.local.json or N8N_BASE_URL).'' @ [CHR 0x0A]
          @ ''  Ensure the URL is correct and reachable from your network.''))"
  "toFriendlyApiError (Error_with_cause ''fetch failed'' (Some ''ECONNREFUSED'') (Some ''Connection refused''))
      = Inr (JStr (''Cannot connect to n8n. Is it running? Check baseUrl in your config (n8n-config.local.json or N8N_BASE_URL).'' @ [CHR 0x0A]
          @ ''  For local: start n8n with `npx n8n` (default port 5678).''))"
  "toFriendlyApiError (Error_with_cause ''fetch failed'' None (Some ''connect ECONNREFUSED 127.0.0.1:5678''))
      = Inr (JStr (''Cannot connect to n8n. Is it running? Check baseUrl in your config (n8n-config.local.json or N8N_BASE_URL).'' @ [CHR 0x0A]
          @ ''  For local: start n8n with `npx n8n` (default port 5678).''))"
  "toFriendlyApiError (new_Error ''self-signed certificate in certificate chain'')
      = Inr (JStr (''Self-signed certificate rejected. For corporate/internal n8n instances:'' @ [CHR 0x0A]
          @ ''  Set rejectUnauthorized: false in config, or run with NODE_TLS_REJECT_UNAUTHORIZED=0.''))"
  "toFriendlyApiError (new_Error ''AbortError'')
      = Inr (JStr (''Request timed out. Check baseUrl and network. Increase timeoutMs in config if needed.''))"
  "toFriendlyApiError (new_Error ''n8n API request timed out after 30000ms'')
      = Inr (JStr (''Request timed out. Check baseUrl and network. Increase timeoutMs in config if needed.''))"
  "toFriendlyApiError (new_Error ''n8n API error 500: Internal Server Error'')
      = Inr (JStr (''n8n API error 500: Internal Server Error'' @ [CHR 0x0A]
          @ ''  Check baseUrl and apiKey in your config.''))"
  "toFriendlyApiError (Error_with_cause ''fetch failed'' None (Some ''Connection reset''))
      = Inr (JStr (''Connection failed: Connection reset'' @ [CHR 0x0A]
          @ ''  Check baseUrl and apiKey in your config (n8n-config.local.json or env vars).''))"
  "toFriendlyApiError (new_Error ''n8n API error 401: no route 404'')
      = Inr (JStr (''Invalid API key. Update apiKey in your config (n8n-config.local.json or N8N_API_KEY).'' @ [CHR 0x0A]
          @ ''  Create an API key in n8n: Settings '' @ [CHR 0xE2, CHR 0x86, CHR 0x92] @ '' API.''))"
  "toFriendlyApiError (Value (JStr ''string error'')) = Inr (JStr ''string error'')"
  by (simp_all add: friendly_eval friendly_texts toFriendly_Value)

text \<open>
  Claim C4, as amended. \<^verbatim>\<open>toFriendlyApiError\<close> is a function of its argument alone. On an
  \<^verbatim>\<open>Error\<close> whose message is a string and whose cause, if it has one, has a message that is
  a string or absent, and on every other value that \<^verbatim>\<open>String\<close> converts, it returns a string
  and does not throw; every error the client throws is of this kind. The string is that of
  the first category, in the order unauthorized, forbidden, not found, unresolved hostname,
  connection refused, self-signed certificate, timeout, branded API error, other transport
  failure, whose test holds, and the message itself when none does. The tests for an
  unresolved hostname and for a refused connection look for \<^verbatim>\<open>ENOTFOUND\<close> and
  \<^verbatim>\<open>ECONNREFUSED\<close> in the code and the message of the cause, not in the message of the error,
  where only \<^verbatim>\<open>getaddrinfo\<close> is looked for. The function throws a \<^verbatim>\<open>TypeError\<close> on an \<^verbatim>\<open>Error\<close>
  whose message is neither a string nor an array; on one with a string message that matches
  none of the first three categories and a cause whose message is neither absent, nor a
  string, nor an array, and whose code is not \<^verbatim>\<open>ENOTFOUND\<close>; and on a value that \<^verbatim>\<open>String\<close>
  cannot convert. The seven fixed remediation strings differ from each other and from the
  two pass-through forms, which differ from each other; the strings are the ones written
  out below. A string that is not an \<^verbatim>\<open>Error\<close> and that no test recognises is returned
  unchanged.
\<close>

theorem friendly_error_classification:
  "toFriendlyApiError (ErrorInstance (JStr msg) None) = Inr (JStr (first_match (categories msg (JStr []) []) msg))
   \<and> (coalesce (get_prop c ''message'') (JStr []) = JStr cmsg \<longrightarrow>
        toFriendlyApiError (ErrorInstance (JStr msg) (Some c))
          = Inr (JStr (first_match (categories msg (coalesce (get_prop c ''code'') (JStr [])) cmsg) msg)))
   \<and> (ToString v = Inr msg \<longrightarrow>
        toFriendlyApiError (Value v) = Inr (JStr (first_match (categories msg (JStr []) []) msg)))
   \<and> (\<exists>r. toFriendlyApiError (as_unknown (ErrorObj e)) = Inr (JStr r))
   \<and> (\<not> has_includes m \<longrightarrow> toFriendlyApiError (ErrorInstance m co) = Inl TypeError)
   \<and> (\<not> has_includes (coalesce (get_prop c ''message'') (JStr []))
        \<and> coalesce (get_prop c ''code'') (JStr []) \<noteq> JStr ''ENOTFOUND''
        \<and> \<not> js_includes msg ''401'' \<and> \<not> js_includes msg ''unauthorized''
        \<and> \<not> js_includes msg ''403'' \<and> \<not> js_includes msg ''forbidden''
        \<and> \<not> js_includes msg ''404'' \<and> \<not> js_includes msg ''not found'' \<longrightarrow>
        toFriendlyApiError (ErrorInstance (JStr msg) (Some c)) = Inl TypeError)
   \<and> (ToString v = Inl TypeError \<longrightarrow> toFriendlyApiError (Value v) = Inl TypeError)
   \<and> toFriendlyApiError (NoPrototype kvs) = Inl TypeError
   \<and> distinct fixed_messages
   \<and> x @ hint_api_error \<notin> set fixed_messages
   \<and> ''Connection failed: '' @ y @ hint_connection \<notin> set fixed_messages
   \<and> x @ hint_api_error \<noteq> ''Connection failed: '' @ y @ hint_connection
   \<and> (unrecognized s \<longrightarrow>
        toFriendlyApiError (Value (JStr s)) = Inr (JStr s) \<and> toFriendlyApiError (new_Error s) = Inr (JStr s))
   \<and> toFriendlyApiError (new_Error ''401'')
          = Inr (JStr (''Invalid API key. Update apiKey in your config (n8n-config.local.json or N8N_API_KEY).'' @ [CHR 0x0A]
          @ ''  Create an API key in n8n: Settings '' @ [CHR 0xE2, CHR 0x86, CHR 0x92] @ '' API.''))
   \<and> toFriendlyApiError (new_Error ''n8n API error 403: forbidden'')
          = Inr (JStr (''Access denied (403). Check that your API key has the required permissions.'' @ [CHR 0x0A]
          @ ''  Create or regenerate an API key in n8n: Settings '' @ [CHR 0xE2, CHR 0x86, CHR 0x92] @ '' API.''))
   \<and> toFriendlyApiError (new_Error ''404 not found'')
          = Inr (JStr (''n8n instance not found. Check baseUrl in your config (n8n-config.local.json or N8N_BASE_URL).'' @ [CHR 0x0A]
          @ ''  Ensure the URL is correct and n8n is running.''))
   \<and> toFriendlyApiError (Error_with_cause ''fetch failed'' (Some ''ENOTFOUND'') (Some ''getaddrinfo ENOTFOUND''))
          = Inr (JStr (''Cannot resolve n8n hostname. Check baseUrl in your config (n8n-config.local.json or N8N_BASE_URL).'' @ [CHR 0x0A]
          @ ''  Ensure the URL is correct and reachable from your network.''))
   \<and> toFriendlyApiError (new_Error ''getaddrinfo ENOTFOUND host.example.com'')
          = Inr (JStr (''Cannot resolve n8n hostname. Check baseUrl in your config (n8n-config.local.json or N8N_BASE_URL).'' @ [CHR 0x0A]
          @ ''  Ensure the URL is correct and reachable from your network.''))
   \<and> toFriendlyApiError (Error_with_cause ''fetch failed'' (Some ''ECONNREFUSED'') (Some ''Connection refused''))
          = Inr (JStr (''Cannot connect to n8n. Is it running? Check baseUrl in your config (n8n-config.local.json or N8N_BASE_URL).'' @ [CHR 0x0A]
          @ ''  For local: start n8n with `npx n8n` (default port 5678).''))
   \<and> toFriendlyApiError (Error_with_cause ''fetch failed'' None (Some ''connect ECONNREFUSED 127.0.0.1:5678''))
          = Inr (JStr (''Cannot connect to n8n. Is it running? Check baseUrl in your config (n8n-config.local.json or N8N_BASE_URL).'' @ [CHR 0x0A]
          @ ''  For local: start n8n with `npx n8n` (default port 5678).''))
   \<and> toFriendlyApiError (new_Error ''self-signed certificate in certificate chain'')
          = Inr (JStr (''Self-signed certificate rejected. For corporate/internal n8n instances:'' @ [CHR 0x0A]
          @ ''  Set rejectUnauthorized: false in config, or run with NODE_TLS_REJECT_UNAUTHORIZED=0.''))
   \<and> toFriendlyApiError (new_Error ''AbortError'')
          = Inr (JStr (''Request timed out. Check baseUrl and network. Increase timeoutMs in config if needed.''))
   \<and> toFriendlyApiError (new_Error ''n8n API request timed out after 30000ms'')
          = Inr (JStr (''Request timed out. Check baseUrl and network. Increase timeoutMs in config if needed.''))
   \<and> toFriendlyApiError (new_Error ''n8n API error 500: Internal Server Error'')
          = Inr (JStr (''n8n API error 500: Internal Server Error'' @ [CHR 0x0A]
          @ ''  Check baseUrl and apiKey in your config.''))
   \<and> toFriendlyApiError (Error_with_cause ''fetch failed'' None (Some ''Connection reset''))
          = Inr (JStr (''Connection failed: Connection reset'' @ [CHR 0x0A]
          @ ''  Check baseUrl and apiKey in your config (n8n-config.local.json or env vars).''))
   \<and> toFriendlyApiError (new_Error ''n8n API error 401: no route 404'')
          = Inr (JStr (''Invalid API key. Update apiKey in your config (n8n-config.local.json or N8N_API_KEY).'' @ [CHR 0x0A]
          @ ''  Create an API key in n8n: Settings '' @ [CHR 0xE2, CHR 0x86, CHR 0x92] @ '' API.''))
   \<and> toFriendlyApiError (Value (JStr ''string error'')) = Inr (JStr ''string error'')"
proof (intro conjI impI)
  show "toFriendlyApiError (ErrorInstance (JStr msg) None) = Inr (JStr (first_match (categories msg (JStr []) []) msg))"
    by (rule toFriendly_no_cause)
  show "\<exists>r. toFriendlyApiError (as_unknown (ErrorObj e)) = Inr (JStr r)"
    by (rule toFriendly_client_error)
  show "toFriendlyApiError (NoPrototype kvs) = Inl TypeError" by (rule toFriendly_NoPrototype)
  show "distinct fixed_messages" by (rule distinct_fixed)
  show "x @ hint_api_error \<notin> set fixed_messages" by (rule api_passthrough_not_fixed)
  show "''Connection failed: '' @ y @ hint_connection \<notin> set fixed_messages" by (rule connection_not_fixed)
  show "x @ hint_api_error \<noteq> ''Connection failed: '' @ y @ hint_connection" by (rule api_not_connection)
next
  assume "coalesce (get_prop c ''message'') (JStr []) = JStr cmsg"
  then show "toFriendlyApiError (ErrorInstance (JStr msg) (Some c))
          = Inr (JStr (first_match (categories msg (coalesce (get_prop c ''code'') (JStr [])) cmsg) msg))"
    by (rule toFriendly_cause)
next
  assume "ToString v = Inr msg"
  then show "toFriendlyApiError (Value v) = Inr (JStr (first_match (categories msg (JStr []) []) msg))"
    by (rule toFriendly_Value)
next
  assume "\<not> has_includes m"
  then show "toFriendlyApiError (ErrorInstance m co) = Inl TypeError"
    by (rule toFriendly_message_throws)
next
  assume "\<not> has_includes (coalesce (get_prop c ''message'') (JStr []))
        \<and> coalesce (get_prop c ''code'') (JStr []) \<noteq> JStr ''ENOTFOUND''
        \<and> \<not> js_includes msg ''401'' \<and> \<not> js_includes msg ''unauthorized''
        \<and> \<not> js_includes msg ''403'' \<and> \<not> js_includes msg ''forbidden''
        \<and> \<not> js_includes msg ''404'' \<and> \<not> js_includes msg ''not found''"
  then show "toFriendlyApiError (ErrorInstance (JStr msg) (Some c)) = Inl TypeError"
    by (intro toFriendly_cause_throws) simp_all
next
  assume "ToString v = Inl TypeError"
  then show "toFriendlyApiError (Value v) = Inl TypeError"
    by (rule toFriendly_Value_throws)
next
  assume u: "unrecognized s"
  show "toFriendlyApiError (Value (JStr s)) = Inr (JStr s)" by (rule unrecognized_unchanged(1)[OF u])
  show "toFriendlyApiError (new_Error s) = Inr (JStr s)" by (rule unrecognized_unchanged(2)[OF u])
qed (rule friendly_scenarios)+

text \<open>
  Claim C4 as stated fails in two ways. The function throws: on a failed fetch whose cause
  has the number 42 as its message, on an \<^verbatim>\<open>Error\<close> whose message is the number 42, and on an
  object without prototype. And an \<^verbatim>\<open>Error\<close> without cause whose message contains
  \<^verbatim>\<open>ECONNREFUSED\<close>, or \<^verbatim>\<open>ENOTFOUND\<close>, is given no remediation string: its message is
  returned unchanged.
\<close>

theorem friendly_error_counterexample:
  "toFriendlyApiError (ErrorInstance (JStr ''fetch failed'') (Some (JObj [(''message'', JNum ''42'')])))
     = Inl TypeError
   \<and> toFriendlyApiError (ErrorInstance (JNum ''42'') None) = Inl TypeError
   \<and> toFriendlyApiError (NoPrototype []) = Inl TypeError
   \<and> toFriendlyApiError (new_Error ''connect ECONNREFUSED 127.0.0.1:5678'')
     = Inr (JStr ''connect ECONNREFUSED 127.0.0.1:5678'')
   \<and> toFriendlyApiError (new_Error ''ENOTFOUND n8n.example.com'') = Inr (JStr ''ENOTFOUND n8n.example.com'')"
proof (intro conjI)
  show "toFriendlyApiError (ErrorInstance (JStr ''fetch failed'') (Some (JObj [(''message'', JNum ''42'')])))
     = Inl TypeError"
    by (rule toFriendly_cause_throws) (simp_all add: coalesce_def js_includes_eval)
  show "toFriendlyApiError (ErrorInstance (JNum ''42'') None) = Inl TypeError"
    by (rule toFriendly_message_throws) simp
  show "toFriendlyApiError (NoPrototype []) = Inl TypeError"
    by (rule toFriendly_NoPrototype)
  show "toFriendlyApiError (new_Error ''connect ECONNREFUSED 127.0.0.1:5678'')
     = Inr (JStr ''connect ECONNREFUSED 127.0.0.1:5678'')"
    by (simp add: friendly_eval)
  show "toFriendlyApiError (new_Error ''ENOTFOUND n8n.example.com'') = Inr (JStr ''ENOTFOUND n8n.example.com'')"
    by (simp add: friendly_eval)
qed

text \<open>
  The amended C4 at a failed fetch whose cause has the code \<^verbatim>\<open>ECONNREFUSED\<close> and no message,
  at an array and at an unrecognised string that are not an \<^verbatim>\<open>Error\<close>, at an unrecognised
  \<^verbatim>\<open>Error\<close> message, and at the inputs on which the function throws: a message that is a
  number, a cause whose message is a number, and an object whose \<^verbatim>\<open>toString\<close> is not a
  function.
\<close>

theorem friendly_error_classification_witness:
  "toFriendlyApiError (ErrorInstance (JStr ''fetch failed'') (Some (JObj [(''code'', JStr ''ECONNREFUSED'')])))
     = Inr (JStr msg_econnrefused)
   \<and> ToString (JArr [JStr ''a'', JNull, JNum ''1'']) = Inr ''a,,1''
   \<and> toFriendlyApiError (Value (JArr [JStr ''a'', JNull, JNum ''1''])) = Inr (JStr ''a,,1'')
   \<and> unrecognized ''Something else went wrong''
   \<and> toFriendlyApiError (Value (JStr ''Something else went wrong'')) = Inr (JStr ''Something else went wrong'')
   \<and> toFriendlyApiError (new_Error ''Something else went wrong'') = Inr (JStr ''Something else went wrong'')
   \<and> toFriendlyApiError (ErrorInstance (JNum ''42'') None) = Inl TypeError
   \<and> toFriendlyApiError (ErrorInstance (JStr ''fetch failed'') (Some (JObj [(''message'', JNum ''42'')])))
     = Inl TypeError
   \<and> ToString (JObj [(''toString'', JNull)]) = Inl TypeError
   \<and> toFriendlyApiError (Value (JObj [(''toString'', JNull)])) = Inl TypeError"
proof -
  let ?c = "JObj [(''code'', JStr ''ECONNREFUSED'')]"
  let ?bad = "JObj [(''message'', JNum ''42'')]"
  let ?arr = "JArr [JStr ''a'', JNull, JNum ''1'']"
  let ?obj = "JObj [(''toString'', JNull)]"
  note T = friendly_error_classification[where msg = "''fetch failed''"]
  have h2: "coalesce (get_prop ?c ''message'') (JStr []) = JStr []" by (simp add: coalesce_def)
  have a: "toFriendlyApiError (ErrorInstance (JStr ''fetch failed'') (Some ?c)) = Inr (JStr msg_econnrefused)"
    using T[where c = ?c and cmsg = "[]", THEN conjunct2, THEN conjunct1, THEN mp, OF h2]
    by (simp add: categories_def coalesce_def js_includes_eval)
  have h3: "ToString ?arr = Inr ''a,,1''" by simp
  have b: "toFriendlyApiError (Value ?arr) = Inr (JStr ''a,,1'')"
    using friendly_error_classification[where msg = "''a,,1''" and v = ?arr,
        THEN conjunct2, THEN conjunct2, THEN conjunct1, THEN mp, OF h3]
    by (simp add: categories_def js_includes_eval)
  have u: "unrecognized ''Something else went wrong''"
    by (simp add: unrecognized_def js_includes_eval)
  note d = T[where s = "''Something else went wrong''", THEN conjunct2, THEN conjunct2, THEN conjunct2,
      THEN conjunct2, THEN conjunct2, THEN conjunct2, THEN conjunct2, THEN conjunct2, THEN conjunct2,
      THEN conjunct2, THEN conjunct2, THEN conjunct2, THEN conjunct1, THEN mp, OF u]
  have h5: "\<not> has_includes (JNum ''42'')" by simp
  note f = T[where m = "JNum ''42''" and co = None, THEN conjunct2, THEN conjunct2, THEN conjunct2,
      THEN conjunct2, THEN conjunct1, THEN mp, OF h5]
  have h6: "\<not> has_includes (coalesce (get_prop ?bad ''message'') (JStr []))
        \<and> coalesce (get_prop ?bad ''code'') (JStr []) \<noteq> JStr ''ENOTFOUND''
        \<and> \<not> js_includes ''fetch failed'' ''401'' \<and> \<not> js_includes ''fetch failed'' ''unauthorized''
        \<and> \<not> js_includes ''fetch failed'' ''403'' \<and> \<not> js_includes ''fetch failed'' ''forbidden''
        \<and> \<not> js_includes ''fetch failed'' ''404'' \<and> \<not> js_includes ''fetch failed'' ''not found''"
    by (simp add: coalesce_def js_includes_eval)
  note g = T[where c = ?bad, THEN conjunct2, THEN conjunct2, THEN conjunct2, THEN conjunct2, THEN conjunct2,
      THEN conjunct1, THEN mp, OF h6]
  have h7: "ToString ?obj = Inl TypeError" by simp
  note h = T[where v = ?obj, THEN conjunct2, THEN conjunct2, THEN conjunct2, THEN conjunct2, THEN conjunct2,
      THEN conjunct2, THEN conjunct1, THEN mp, OF h7]
  show ?thesis using a h3 b u d f g h7 h by (intro conjI) (assumption | erule conjunct1 | erule conjunct2)+
qed

end
